theory Spec2Isabelle
  imports Complex_Main
begin

section \<open>Errors, results and floating-point values\<close>

text \<open>
  The Python exceptions the code raises, or that the library calls it makes raise, are
  values of \<open>error\<close>; a function that can raise returns \<open>error + 'a\<close> with \<open>Inl\<close>
  for the exception. Arithmetic is exact arithmetic over the reals; the only
  non-numbers kept are the ones the control flow depends on: \<open>np.inf\<close>, the first
  \<open>best_loss\<close> of \<open>fit\<close> and the loss of an evaluation batch that overflows, and
  NaN, the mean of an empty list of losses.
\<close>

datatype error = NotImplementedError | ValueError | IndexError | RuntimeError | FileNotFoundError

definition bindE :: "error + 'a \<Rightarrow> ('a \<Rightarrow> error + 'b) \<Rightarrow> error + 'b" where
  "bindE m f = (case m of Inl e \<Rightarrow> Inl e | Inr x \<Rightarrow> f x)"

fun mapE :: "('a \<Rightarrow> error + 'b) \<Rightarrow> 'a list \<Rightarrow> error + 'b list" where
  "mapE f [] = Inr []"
| "mapE f (x # xs) = bindE (f x) (\<lambda>y. bindE (mapE f xs) (\<lambda>ys. Inr (y # ys)))"

datatype fl = Fin real | PosInf | NaN

text \<open>Python's \<open>a < b\<close> on floats: every comparison with NaN is false.\<close>

fun fl_less :: "fl \<Rightarrow> fl \<Rightarrow> bool" where
  "fl_less (Fin a) (Fin b) = (a < b)"
| "fl_less (Fin a) PosInf = True"
| "fl_less _ _ = False"

text \<open>\<open>np.mean\<close> and \<open>torch.mean\<close> of a sequence: NaN when it is empty.\<close>

definition mean :: "real list \<Rightarrow> fl" where
  "mean xs = (if xs = [] then NaN else Fin (sum_list xs / real (length xs)))"

section \<open>Tensors of rank at most two\<close>

text \<open>
  A rank-2 tensor is the list of its rows. Every batch the trainer and the predictor
  build has at least one row, so a tensor with no rows is not represented.
\<close>

type_synonym matrix = "real list list"

datatype tensor = T0 real | T1 "real list" | T2 matrix

definition ncols :: "matrix \<Rightarrow> nat" where
  "ncols m = (case m of [] \<Rightarrow> 0 | r # _ \<Rightarrow> length r)"

definition is_matrix :: "nat \<Rightarrow> nat \<Rightarrow> matrix \<Rightarrow> bool" where
  "is_matrix n d m = (length m = n \<and> list_all (\<lambda>r. length r = d) m)"

text \<open>
  \<open>.squeeze()\<close> with no argument (and \<open>np.squeeze\<close>) drops every dimension of size 1:
  one row of one entry becomes a rank-0 tensor, one row becomes that row, one column
  becomes that column.
\<close>

definition squeeze :: "matrix \<Rightarrow> tensor" where
  "squeeze m =
     (if length m = 1 then (case hd m of [v] \<Rightarrow> T0 v | r \<Rightarrow> T1 r)
      else if list_all (\<lambda>r. length r = 1) m then T1 (map hd m)
      else T2 m)"

fun t_map :: "(real \<Rightarrow> real) \<Rightarrow> tensor \<Rightarrow> tensor" where
  "t_map f (T0 a) = T0 (f a)"
| "t_map f (T1 xs) = T1 (map f xs)"
| "t_map f (T2 m) = T2 (map (map f) m)"

fun t_elems :: "tensor \<Rightarrow> real list" where
  "t_elems (T0 a) = [a]"
| "t_elems (T1 xs) = xs"
| "t_elems (T2 m) = concat m"

definition torch_mean :: "tensor \<Rightarrow> fl" where
  "torch_mean t = mean (t_elems t)"

text \<open>Broadcasting of an elementwise operation: a dimension of size 1 is stretched.\<close>

definition bc_vec :: "(real \<Rightarrow> real \<Rightarrow> real) \<Rightarrow> real list \<Rightarrow> real list \<Rightarrow> error + real list" where
  "bc_vec f xs ys =
     (if length xs = length ys then Inr (map (\<lambda>(x, y). f x y) (zip xs ys))
      else if length xs = 1 then Inr (map (f (hd xs)) ys)
      else if length ys = 1 then Inr (map (\<lambda>x. f x (hd ys)) xs)
      else Inl RuntimeError)"

definition bc_rows :: "(real \<Rightarrow> real \<Rightarrow> real) \<Rightarrow> matrix \<Rightarrow> matrix \<Rightarrow> error + matrix" where
  "bc_rows f a b =
     (if length a = length b then mapE (\<lambda>(r, s). bc_vec f r s) (zip a b)
      else if length a = 1 then mapE (bc_vec f (hd a)) b
      else if length b = 1 then mapE (\<lambda>r. bc_vec f r (hd b)) a
      else Inl RuntimeError)"

fun t_binop :: "(real \<Rightarrow> real \<Rightarrow> real) \<Rightarrow> tensor \<Rightarrow> tensor \<Rightarrow> error + tensor" where
  "t_binop f (T0 a) (T0 b) = Inr (T0 (f a b))"
| "t_binop f (T0 a) (T1 ys) = Inr (T1 (map (f a) ys))"
| "t_binop f (T1 xs) (T0 b) = Inr (T1 (map (\<lambda>x. f x b) xs))"
| "t_binop f (T1 xs) (T1 ys) = bindE (bc_vec f xs ys) (\<lambda>r. Inr (T1 r))"
| "t_binop f (T0 a) (T2 m) = Inr (T2 (map (map (f a)) m))"
| "t_binop f (T2 m) (T0 b) = Inr (T2 (map (map (\<lambda>x. f x b)) m))"
| "t_binop f (T1 xs) (T2 m) = bindE (mapE (bc_vec f xs) m) (\<lambda>r. Inr (T2 r))"
| "t_binop f (T2 m) (T1 ys) = bindE (mapE (\<lambda>r. bc_vec f r ys) m) (\<lambda>r. Inr (T2 r))"
| "t_binop f (T2 a) (T2 b) = bindE (bc_rows f a b) (\<lambda>r. Inr (T2 r))"

definition t_sub :: "tensor \<Rightarrow> tensor \<Rightarrow> error + tensor" where
  "t_sub = t_binop (\<lambda>x y. x - y)"

text \<open>\<open>t.transpose(0, 1)\<close>: defined on rank 2 only.\<close>

definition transpose01 :: "tensor \<Rightarrow> error + tensor" where
  "transpose01 t =
     (case t of T2 m \<Rightarrow> Inr (T2 (map (\<lambda>j. map (\<lambda>r. r ! j) m) [0..<ncols m]))
      | _ \<Rightarrow> Inl IndexError)"

text \<open>\<open>t.view(-1, 1)\<close>: one column.\<close>

fun view_col :: "tensor \<Rightarrow> matrix" where
  "view_col (T0 a) = [[a]]"
| "view_col (T1 xs) = map (\<lambda>x. [x]) xs"
| "view_col (T2 m) = map (\<lambda>x. [x]) (concat m)"

text \<open>
  \<open>torch.argmax(weight, 1)\<close>: for each row the index of its first maximal entry;
  a row with no entry has no maximum.
\<close>

fun argmax_acc :: "nat \<Rightarrow> real \<Rightarrow> nat \<Rightarrow> real list \<Rightarrow> nat" where
  "argmax_acc b v i [] = b"
| "argmax_acc b v i (x # xs) =
     (if v < x then argmax_acc i x (Suc i) xs else argmax_acc b v (Suc i) xs)"

definition argmax_row :: "real list \<Rightarrow> nat" where
  "argmax_row xs = (case xs of [] \<Rightarrow> 0 | x # r \<Rightarrow> argmax_acc 0 x 1 r)"

definition torch_argmax1 :: "matrix \<Rightarrow> error + nat list" where
  "torch_argmax1 w = (if list_all (\<lambda>r. r \<noteq> []) w then Inr (map argmax_row w) else Inl IndexError)"

text \<open>
  \<open>t[np.arange(n), loc]\<close>: entry \<open>loc[i]\<close> of row \<open>i\<close>, for \<open>i < n\<close>; both index
  arrays have \<open>n\<close> entries, every index is in range, and \<open>t\<close> has rank 2.
\<close>

definition index_rows :: "tensor \<Rightarrow> nat \<Rightarrow> nat list \<Rightarrow> error + tensor" where
  "index_rows t n loc =
     (case t of
        T2 m \<Rightarrow>
          if length loc = n \<and> n \<le> length m \<and> list_all (\<lambda>i. loc ! i < length (m ! i)) [0..<n]
          then Inr (T1 (map (\<lambda>i. m ! i ! (loc ! i)) [0..<n]))
          else Inl IndexError
      | _ \<Rightarrow> Inl IndexError)"

section \<open>The forecast-training loss\<close>

text \<open>
  \<^verbatim>\<open>
  def loss_fn(self, pred, label, weight):
      loc = torch.argmax(weight, 1)
      loss = (pred - label[np.arange(weight.shape[0]), loc]) ** 2
      return torch.mean(loss)
  \<close>
\<close>

definition loss_fn :: "tensor \<Rightarrow> tensor \<Rightarrow> matrix \<Rightarrow> error + fl" where
  "loss_fn pred label weight =
     bindE (torch_argmax1 weight) (\<lambda>loc.
     bindE (index_rows label (length weight) loc) (\<lambda>sel.
     bindE (t_sub pred sel) (\<lambda>d.
       Inr (torch_mean (t_map (\<lambda>x. x ^ 2) d)))))"

section \<open>Network modules\<close>

text \<open>
  \<open>nn.Linear(n_in, n_out)\<close>: a weight of \<open>n_out\<close> rows and \<open>n_in\<close> columns and a
  bias of \<open>n_out\<close> entries, whose first values (random in the library) are given by
  \<open>w0\<close> and \<open>b0\<close>. Applied to a batch it needs rows of \<open>n_in\<close> entries; the library
  raises a RuntimeError on any other width.
\<close>

record linear =
  in_features :: nat
  out_features :: nat
  lin_weight :: matrix
  lin_bias :: "real list"

definition nn_Linear :: "(nat \<Rightarrow> nat \<Rightarrow> real) \<Rightarrow> (nat \<Rightarrow> real) \<Rightarrow> nat \<Rightarrow> nat \<Rightarrow> linear" where
  "nn_Linear w0 b0 n_in n_out =
     \<lparr>in_features = n_in, out_features = n_out,
      lin_weight = map (\<lambda>i. map (w0 i) [0..<n_in]) [0..<n_out],
      lin_bias = map b0 [0..<n_out]\<rparr>"

definition dot :: "real list \<Rightarrow> real list \<Rightarrow> real" where
  "dot ws xs = sum_list (map (\<lambda>(w, x). w * x) (zip ws xs))"

definition linear_forward :: "linear \<Rightarrow> matrix \<Rightarrow> error + matrix" where
  "linear_forward l x =
     (if list_all (\<lambda>r. length r = in_features l) x
      then Inr (map (\<lambda>r. map (\<lambda>(w, b). dot w r + b) (zip (lin_weight l) (lin_bias l))) x)
      else Inl RuntimeError)"

datatype layer = Linear linear | ReLU | Dropout real

text \<open>\<open>nn.Dropout(p)\<close> refuses a probability outside \<open>[0, 1]\<close>.\<close>

definition nn_Dropout :: "real \<Rightarrow> error + layer" where
  "nn_Dropout p = (if p < 0 \<or> 1 < p then Inl ValueError else Inr (Dropout p))"

text \<open>
  The random draws of a forward pass in training mode are an argument: \<open>keep i j\<close>
  says whether entry \<open>j\<close> of row \<open>i\<close> survives a dropout.
\<close>

type_synonym mask = "nat \<Rightarrow> nat \<Rightarrow> bool"

definition dropout_train :: "real \<Rightarrow> mask \<Rightarrow> matrix \<Rightarrow> matrix" where
  "dropout_train p keep x =
     (if p = 0 then x
      else if p = 1 then map (map (\<lambda>v. 0)) x
      else map (\<lambda>(i, r). map (\<lambda>(j, v). if keep i j then v / (1 - p) else 0) (enumerate 0 r))
             (enumerate 0 x))"

fun layer_forward :: "bool \<Rightarrow> mask \<Rightarrow> layer \<Rightarrow> matrix \<Rightarrow> error + matrix" where
  "layer_forward training keep (Linear l) x = linear_forward l x"
| "layer_forward training keep ReLU x = Inr (map (map (max 0)) x)"
| "layer_forward training keep (Dropout p) x = Inr (if training then dropout_train p keep x else x)"

text \<open>\<open>nn.Sequential\<close>: the modules in the order they were added; \<open>k\<close> counts them.\<close>

fun Sequential_forward :: "bool \<Rightarrow> (nat \<Rightarrow> mask) \<Rightarrow> nat \<Rightarrow> layer list \<Rightarrow> matrix \<Rightarrow> error + matrix" where
  "Sequential_forward training keep k [] x = Inr x"
| "Sequential_forward training keep k (l # ls) x =
     bindE (layer_forward training (keep k) l x) (Sequential_forward training keep (Suc k) ls)"

text \<open>
  \<open>nn.Softmax(dim=1)\<close>: each row \<open>x\<close> becomes \<open>exp x\<^sub>j / \<Sum>\<^sub>k exp x\<^sub>k\<close>. A tensor of
  rank below two has no dimension 1, and the library raises an IndexError.
\<close>

definition softmax_row :: "real list \<Rightarrow> real list" where
  "softmax_row xs = map (\<lambda>x. exp x / sum_list (map exp xs)) xs"

definition Softmax_dim1 :: "tensor \<Rightarrow> error + matrix" where
  "Softmax_dim1 t = (case t of T2 m \<Rightarrow> Inr (map softmax_row m) | _ \<Rightarrow> Inl IndexError)"

subsection \<open>The Weight Network\<close>

text \<open>
  \<^verbatim>\<open>
  class MLPModel(nn.Module):
      def __init__(self, d_feat, hidden_size=256, num_layers=3, dropout=0.0, output_dim=1):
          self.mlp = nn.Sequential()
          self.softmax = nn.Softmax(dim=1)
          for i in range(num_layers):
              if i > 0:
                  self.mlp.add_module("drop_%d" % i, nn.Dropout(dropout))
              self.mlp.add_module("fc_%d" % i, nn.Linear(d_feat if i == 0 else hidden_size, hidden_size))
              self.mlp.add_module("relu_%d" % i, nn.ReLU())
          self.mlp.add_module("fc_out", nn.Linear(hidden_size, output_dim))

      def forward(self, x):
          out = self.mlp(x).squeeze()
          out = self.softmax(out)
          return out
  \<close>
  \<open>init_w k\<close> and \<open>init_b k\<close> give the first values of the \<open>k\<close>-th linear layer.
\<close>

record MLPModel =
  mlp :: "layer list"
  mlp_training :: bool
  mlp_requires_grad :: bool

type_synonym init = "(nat \<Rightarrow> nat \<Rightarrow> nat \<Rightarrow> real) \<times> (nat \<Rightarrow> nat \<Rightarrow> real)"

definition mlp_block :: "init \<Rightarrow> nat \<Rightarrow> nat \<Rightarrow> real \<Rightarrow> nat \<Rightarrow> error + layer list" where
  "mlp_block rnd d_feat hidden_size dropout i =
     bindE (if i > 0 then bindE (nn_Dropout dropout) (\<lambda>d. Inr [d]) else Inr []) (\<lambda>drop.
       Inr (drop @ [Linear (nn_Linear (fst rnd i) (snd rnd i)
                            (if i = 0 then d_feat else hidden_size) hidden_size), ReLU]))"

definition MLPModel_init :: "init \<Rightarrow> nat \<Rightarrow> nat \<Rightarrow> nat \<Rightarrow> real \<Rightarrow> nat \<Rightarrow> error + MLPModel" where
  "MLPModel_init rnd d_feat hidden_size num_layers dropout output_dim =
     bindE (mapE (mlp_block rnd d_feat hidden_size dropout) [0..<num_layers]) (\<lambda>blocks.
       Inr \<lparr>mlp = concat blocks @
                   [Linear (nn_Linear (fst rnd num_layers) (snd rnd num_layers) hidden_size output_dim)],
            mlp_training = True, mlp_requires_grad = True\<rparr>)"

definition MLPModel_forward :: "(nat \<Rightarrow> mask) \<Rightarrow> MLPModel \<Rightarrow> matrix \<Rightarrow> error + matrix" where
  "MLPModel_forward keep m x =
     bindE (Sequential_forward (mlp_training m) keep 0 (mlp m) x) (\<lambda>out.
       Softmax_dim1 (squeeze out))"

subsection \<open>The Forecast Network\<close>

text \<open>
  \<^verbatim>\<open>
  class GRUModel(nn.Module):
      def __init__(self, d_feat=6, hidden_size=64, num_layers=2, dropout=0.0):
          self.rnn = nn.GRU(input_size=d_feat, hidden_size=hidden_size,
                            num_layers=num_layers, batch_first=True, dropout=dropout)
          self.fc_out = nn.Linear(hidden_size, 1)
          self.d_feat = d_feat

      def forward(self, x):
          x = x.reshape(len(x), self.d_feat, -1)  # [N, F, T]
          x = x.permute(0, 2, 1)  # [N, T, F]
          out, _ = self.rnn(x)
          return self.fc_out(out[:, -1, :]).squeeze()
  \<close>
  The recurrent encoder \<open>nn.GRU\<close> is the library's. It is a parameter of the model
  (\<open>torch\<close>, below): its constructor gives the first weights or raises, and its forward
  pass maps one sample, a sequence of \<open>T\<close> inputs, to the top layer's output at the
  last time step; samples of a batch do not influence each other.
\<close>

record gru =
  input_size :: nat
  rnn_hidden_size :: nat
  rnn_num_layers :: nat
  rnn_dropout :: real
  rnn_weights :: "real list"

record GRUModel =
  rnn :: gru
  fc_out :: linear
  gm_d_feat :: nat
  gm_training :: bool
  gm_requires_grad :: bool

type_synonym gparams = "real list \<times> matrix \<times> real list"
type_synonym mparams = "(matrix \<times> real list) list"

datatype optim_kind = Adam | SGD

record optimizer =
  opt_kind :: optim_kind
  opt_lr :: real
  opt_target :: nat
  opt_state :: "real list"

text \<open>
  What the model takes from PyTorch without looking inside: the recurrent encoder, the
  first values of linear layers, automatic differentiation (the gradient of a loss, a
  function of a network's parameters, at their present values) and the update rule of
  an optimizer (new parameter values and a new optimizer state).
\<close>

record torch =
  GRU_new :: "nat \<Rightarrow> nat \<Rightarrow> nat \<Rightarrow> real \<Rightarrow> error + real list"
  GRU_last :: "gru \<Rightarrow> bool \<Rightarrow> mask \<Rightarrow> matrix \<Rightarrow> real list"
  fc_init :: init
  mlp_init :: init
  grad_fore :: "(gparams \<Rightarrow> real) \<Rightarrow> gparams \<Rightarrow> gparams"
  grad_weight :: "(mparams \<Rightarrow> real) \<Rightarrow> mparams \<Rightarrow> mparams"
  step_fore :: "optimizer \<Rightarrow> gparams \<Rightarrow> gparams \<Rightarrow> gparams \<times> real list"
  step_weight :: "optimizer \<Rightarrow> mparams \<Rightarrow> mparams \<Rightarrow> mparams \<times> real list"

definition GRUModel_init :: "torch \<Rightarrow> nat \<Rightarrow> nat \<Rightarrow> nat \<Rightarrow> real \<Rightarrow> error + GRUModel" where
  "GRUModel_init env d_feat hidden_size num_layers dropout =
     bindE (GRU_new env d_feat hidden_size num_layers dropout) (\<lambda>ws.
       Inr \<lparr>rnn = \<lparr>input_size = d_feat, rnn_hidden_size = hidden_size,
                   rnn_num_layers = num_layers, rnn_dropout = dropout, rnn_weights = ws\<rparr>,
            fc_out = nn_Linear (fst (fc_init env) 0) (snd (fc_init env) 0) hidden_size 1,
            gm_d_feat = d_feat, gm_training = True, gm_requires_grad = True\<rparr>)"

text \<open>
  One row of \<open>d_feat * T\<close> entries, read as \<open>d_feat\<close> channels of \<open>T\<close> steps and
  permuted to \<open>T\<close> steps of \<open>d_feat\<close> channels. \<open>reshape\<close> raises when the row does not
  split into \<open>d_feat\<close> channels, and when it has no entry (\<open>-1\<close> is then ambiguous).
\<close>

definition reshape_permute :: "nat \<Rightarrow> real list \<Rightarrow> error + matrix" where
  "reshape_permute d row =
     (if d = 0 \<or> row = [] \<or> length row mod d \<noteq> 0 then Inl RuntimeError
      else Inr (map (\<lambda>t. map (\<lambda>f. row ! (f * (length row div d) + t)) [0..<d])
                  [0..<length row div d]))"

definition GRUModel_forward :: "torch \<Rightarrow> (nat \<Rightarrow> mask) \<Rightarrow> GRUModel \<Rightarrow> matrix \<Rightarrow> error + tensor" where
  "GRUModel_forward env keep g x =
     bindE (mapE (reshape_permute (gm_d_feat g)) x) (\<lambda>seqs.
     bindE (linear_forward (fc_out g)
              (map (\<lambda>(i, s). GRU_last env (rnn g) (gm_training g) (keep i) s) (enumerate 0 seqs)))
       (\<lambda>out. Inr (squeeze out)))"

definition gm_params :: "GRUModel \<Rightarrow> gparams" where
  "gm_params g = (rnn_weights (rnn g), lin_weight (fc_out g), lin_bias (fc_out g))"

definition gm_set_params :: "GRUModel \<Rightarrow> gparams \<Rightarrow> GRUModel" where
  "gm_set_params g p =
     g\<lparr>rnn := (rnn g)\<lparr>rnn_weights := fst p\<rparr>,
       fc_out := (fc_out g)\<lparr>lin_weight := fst (snd p), lin_bias := snd (snd p)\<rparr>\<rparr>"

fun layers_params :: "layer list \<Rightarrow> mparams" where
  "layers_params [] = []"
| "layers_params (Linear l # ls) = (lin_weight l, lin_bias l) # layers_params ls"
| "layers_params (_ # ls) = layers_params ls"

fun layers_set_params :: "layer list \<Rightarrow> mparams \<Rightarrow> layer list" where
  "layers_set_params [] ps = []"
| "layers_set_params (Linear l # ls) (p # ps) =
     Linear (l\<lparr>lin_weight := fst p, lin_bias := snd p\<rparr>) # layers_set_params ls ps"
| "layers_set_params (Linear l # ls) [] = Linear l # ls"
| "layers_set_params (l # ls) ps = l # layers_set_params ls ps"

definition mlp_params :: "MLPModel \<Rightarrow> mparams" where
  "mlp_params m = layers_params (mlp m)"

definition mlp_set_params :: "MLPModel \<Rightarrow> mparams \<Rightarrow> MLPModel" where
  "mlp_set_params m ps = m\<lparr>mlp := layers_set_params (mlp m) ps\<rparr>"

text \<open>\<open>torch.nn.utils.clip_grad_value_(params, c)\<close>: every gradient entry into \<open>[-c, c]\<close>.\<close>

definition clip :: "real \<Rightarrow> real \<Rightarrow> real" where
  "clip c v = max (- c) (min c v)"

definition clip_gparams :: "real \<Rightarrow> gparams \<Rightarrow> gparams" where
  "clip_gparams c p = (map (clip c) (fst p), map (map (clip c)) (fst (snd p)), map (clip c) (snd (snd p)))"

definition clip_mparams :: "real \<Rightarrow> mparams \<Rightarrow> mparams" where
  "clip_mparams c ps = map (\<lambda>(w, b). (map (map (clip c)) w, map (clip c) b)) ps"

section \<open>The model object and the memory it lives in\<close>

text \<open>
  The hyper-parameters of \<open>TCTS.__init__\<close>, with the names of its keyword
  arguments. Sizes and counts are natural numbers; \<open>range(n)\<close> of a negative \<open>n\<close>
  is empty, as that of \<open>0\<close>.
\<close>

record hyper =
  d_feat :: nat
  hidden_size :: nat
  num_layers :: nat
  dropout :: real
  n_epochs :: nat
  batch_size :: nat
  early_stop :: int
  loss_kind :: string
  seed :: "int option"
  output_dim :: nat
  fore_lr :: real
  weight_lr :: real
  steps :: nat
  target_label :: int

record args = hyper +
  fore_optimizer_name :: string
  weight_optimizer_name :: string

text \<open>
  The two networks are objects on a heap, and the model holds their addresses: the
  trainer copies the Forecast Network (\<open>copy.deepcopy\<close>) and updates it in place, so
  which object an update reaches is part of what the code does. \<open>gru_next\<close> and
  \<open>mlp_next\<close> count the networks allocated so far.
\<close>

record mem =
  gru_heap :: "nat \<Rightarrow> GRUModel"
  gru_next :: nat
  mlp_heap :: "nat \<Rightarrow> MLPModel"
  mlp_next :: nat
  rng_seed :: "int option"

record TCTS = hyper +
  fore_model :: nat
  weight_model :: nat
  fore_optimizer :: optimizer
  weight_optimizer :: optimizer
  fitted :: bool

definition new_gru :: "GRUModel \<Rightarrow> mem \<Rightarrow> nat \<times> mem" where
  "new_gru g m = (gru_next m, m\<lparr>gru_heap := (gru_heap m)(gru_next m := g), gru_next := Suc (gru_next m)\<rparr>)"

definition new_mlp :: "MLPModel \<Rightarrow> mem \<Rightarrow> nat \<times> mem" where
  "new_mlp w m = (mlp_next m, m\<lparr>mlp_heap := (mlp_heap m)(mlp_next m := w), mlp_next := Suc (mlp_next m)\<rparr>)"

text \<open>\<open>copy.deepcopy(self.fore_model)\<close>: a new object with the same contents.\<close>

definition deepcopy_gru :: "nat \<Rightarrow> mem \<Rightarrow> nat \<times> mem" where
  "deepcopy_gru a m = new_gru (gru_heap m a) m"

section \<open>Construction\<close>

text \<open>
  \<open>str.lower()\<close>. A string is a list of bytes here; outside ASCII no character
  lower-cases to one of the letters of \<open>adam\<close> and \<open>gd\<close>, so the bytes of such
  characters are left alone.
\<close>

definition lower_char :: "char \<Rightarrow> char" where
  "lower_char c =
     (case map_of (zip ''ABCDEFGHIJKLMNOPQRSTUVWXYZ'' ''abcdefghijklmnopqrstuvwxyz'') c of
        Some d \<Rightarrow> d | None \<Rightarrow> c)"

definition lower :: "string \<Rightarrow> string" where
  "lower s = map lower_char s"

text \<open>
  \<^verbatim>\<open>
  if fore_optimizer.lower() == "adam":
      self.fore_optimizer = optim.Adam(self.fore_model.parameters(), lr=self.fore_lr)
  elif fore_optimizer.lower() == "gd":
      self.fore_optimizer = optim.SGD(self.fore_model.parameters(), lr=self.fore_lr)
  else:
      raise NotImplementedError("optimizer {} is not supported!".format(fore_optimizer))
  \<close>
  The constructors \<open>optim.Adam\<close> and \<open>optim.SGD\<close> raise a ValueError for a negative
  learning rate.
\<close>

definition make_optimizer :: "string \<Rightarrow> real \<Rightarrow> nat \<Rightarrow> error + optimizer" where
  "make_optimizer name lr target =
     (if lower name = ''adam''
        then (if lr < 0 then Inl ValueError
              else Inr \<lparr>opt_kind = Adam, opt_lr = lr, opt_target = target, opt_state = []\<rparr>)
      else if lower name = ''gd''
        then (if lr < 0 then Inl ValueError
              else Inr \<lparr>opt_kind = SGD, opt_lr = lr, opt_target = target, opt_state = []\<rparr>)
      else Inl NotImplementedError)"

text \<open>
  \<open>TCTS.__init__\<close>, in the order of the source: the seeds, the Forecast Network, the
  Weight Network (of input width \<open>360 + 2 * output_dim + 1\<close>), the optimizer of the
  first, the optimizer of the second, the flag. The result is the memory as the call
  leaves it, with the new model or the exception.
\<close>

definition finish_init :: "args \<Rightarrow> nat \<Rightarrow> nat \<Rightarrow> error + TCTS" where
  "finish_init a fa wa =
     bindE (make_optimizer (fore_optimizer_name a) (fore_lr a) fa) (\<lambda>fo.
     bindE (make_optimizer (weight_optimizer_name a) (weight_lr a) wa) (\<lambda>wo.
       Inr (hyper.extend (hyper.truncate a) (TCTS.fields fa wa fo wo False))))"

definition build_weight_model :: "torch \<Rightarrow> args \<Rightarrow> nat \<Rightarrow> mem \<Rightarrow> mem \<times> (error + TCTS)" where
  "build_weight_model env a fa m =
     (case MLPModel_init (mlp_init env) (360 + 2 * output_dim a + 1) (hidden_size a)
             (num_layers a) (dropout a) (output_dim a) of
        Inl e \<Rightarrow> (m, Inl e)
      | Inr w \<Rightarrow> (snd (new_mlp w m), finish_init a fa (fst (new_mlp w m))))"

definition build_fore_model :: "torch \<Rightarrow> args \<Rightarrow> mem \<Rightarrow> mem \<times> (error + TCTS)" where
  "build_fore_model env a m =
     (case GRUModel_init env (d_feat a) (hidden_size a) (num_layers a) (dropout a) of
        Inl e \<Rightarrow> (m, Inl e)
      | Inr g \<Rightarrow> build_weight_model env a (fst (new_gru g m)) (snd (new_gru g m)))"

text \<open>
  \<^verbatim>\<open>
  if self.seed is not None:
      np.random.seed(self.seed)
      torch.manual_seed(self.seed)
  \<close>
  \<open>np.random.seed\<close> raises a ValueError for a seed outside \<open>[0, 2\<^sup>3\<^sup>2 - 1]\<close>;
  \<open>torch.manual_seed\<close> takes every seed of that range.
\<close>

definition set_seed :: "int option \<Rightarrow> mem \<Rightarrow> error + mem" where
  "set_seed sd m =
     (case sd of
        None \<Rightarrow> Inr m
      | Some s \<Rightarrow> if 0 \<le> s \<and> s < 2 ^ 32 then Inr (m\<lparr>rng_seed := Some s\<rparr>) else Inl ValueError)"

definition TCTS_init :: "torch \<Rightarrow> args \<Rightarrow> mem \<Rightarrow> mem \<times> (error + TCTS)" where
  "TCTS_init env a m =
     (case set_seed (seed a) m of
        Inl e \<Rightarrow> (m, Inl e)
      | Inr m1 \<Rightarrow> build_fore_model env a m1)"

section \<open>Batches\<close>

text \<open>
  \<open>range(n)[::bs]\<close>: the starts \<open>0, bs, 2 bs, \<dots>\<close> below \<open>n\<close>; a step of zero is a
  ValueError.
\<close>

definition range_step :: "nat \<Rightarrow> nat \<Rightarrow> error + nat list" where
  "range_step n bs =
     (if bs = 0 then Inl ValueError else Inr (map (\<lambda>k. k * bs) [0..<(n + bs - 1) div bs]))"

text \<open>
  The loop of the training, validation and test passes:
  \<^verbatim>\<open>
  for i in range(len(indices))[:: self.batch_size]:
      if len(indices) - i < self.batch_size:
          break
      body
  \<close>
\<close>

fun batch_loop :: "nat \<Rightarrow> nat \<Rightarrow> (nat \<Rightarrow> 's \<Rightarrow> error + 's) \<Rightarrow> nat list \<Rightarrow> 's \<Rightarrow> error + 's" where
  "batch_loop n bs body [] s = Inr s"
| "batch_loop n bs body (i # starts) s =
     (if n - i < bs then Inr s else bindE (body i s) (batch_loop n bs body starts))"

definition for_batches :: "nat \<Rightarrow> nat \<Rightarrow> (nat \<Rightarrow> 's \<Rightarrow> error + 's) \<Rightarrow> 's \<Rightarrow> error + 's" where
  "for_batches n bs body s = bindE (range_step n bs) (\<lambda>starts. batch_loop n bs body starts s)"

fun forE :: "'a list \<Rightarrow> ('a \<Rightarrow> 's \<Rightarrow> error + 's) \<Rightarrow> 's \<Rightarrow> error + 's" where
  "forE [] body s = Inr s"
| "forE (x # xs) body s = bindE (body x s) (forE xs body)"

text \<open>\<open>a[indices[i : i + bs]]\<close>: the rows (or entries) at the given positions.\<close>

definition slice :: "nat \<Rightarrow> nat \<Rightarrow> 'a list \<Rightarrow> 'a list" where
  "slice i j xs = take (j - i) (drop i xs)"

definition take_rows_mat :: "matrix \<Rightarrow> nat list \<Rightarrow> error + matrix" where
  "take_rows_mat m idx =
     (if list_all (\<lambda>j. j < length m) idx then Inr (map (\<lambda>j. m ! j) idx) else Inl IndexError)"

definition take_rows :: "tensor \<Rightarrow> nat list \<Rightarrow> error + tensor" where
  "take_rows t idx =
     (case t of
        T2 m \<Rightarrow> bindE (take_rows_mat m idx) (\<lambda>r. Inr (T2 r))
      | T1 xs \<Rightarrow> if list_all (\<lambda>j. j < length xs) idx then Inr (T1 (map (\<lambda>j. xs ! j) idx))
                 else Inl IndexError
      | T0 a \<Rightarrow> Inl IndexError)"

text \<open>\<open>label[:, k]\<close>: column \<open>k\<close> of a rank-2 tensor.\<close>

definition select_col :: "tensor \<Rightarrow> nat \<Rightarrow> error + tensor" where
  "select_col t k =
     (case t of
        T2 m \<Rightarrow> if list_all (\<lambda>r. k < length r) m then Inr (T1 (map (\<lambda>r. r ! k) m))
                else Inl IndexError
      | _ \<Rightarrow> Inl IndexError)"

text \<open>\<open>torch.cat(ts, 1)\<close> of rank-2 tensors: the rows side by side; the row counts agree.\<close>

fun torch_cat1 :: "matrix list \<Rightarrow> error + matrix" where
  "torch_cat1 [] = Inl RuntimeError"
| "torch_cat1 [m] = Inr m"
| "torch_cat1 (m # ms) =
     bindE (torch_cat1 ms) (\<lambda>r.
       if length m = length r then Inr (map (\<lambda>(a, b). a @ b) (zip m r)) else Inl RuntimeError)"

text \<open>
  \<open>np.random.shuffle(indices)\<close> of \<open>indices = np.arange(n)\<close>: the outcome \<open>p\<close> of the
  random draw is an argument, and is a permutation of the positions.
\<close>

definition shuffled :: "nat list \<Rightarrow> nat \<Rightarrow> nat list" where
  "shuffled p n = (if sort p = [0..<n] then p else [0..<n])"

section \<open>One epoch of training\<close>

text \<open>
  The random draws of one call of \<open>train_epoch\<close>: the two shuffles, and the dropout
  masks of each forward pass (of the reference copy, the live Forecast Network and the
  Weight Network at inner step \<open>k\<close> and batch start \<open>i\<close> of Phase A; of the two
  networks at batch start \<open>i\<close> of Phase B).
\<close>

record rand =
  perm_train :: "nat list"
  perm_valid :: "nat list"
  keep_init :: "nat \<Rightarrow> nat \<Rightarrow> nat \<Rightarrow> mask"
  keep_fore :: "nat \<Rightarrow> nat \<Rightarrow> nat \<Rightarrow> mask"
  keep_weight :: "nat \<Rightarrow> nat \<Rightarrow> nat \<Rightarrow> mask"
  keep_foreB :: "nat \<Rightarrow> nat \<Rightarrow> mask"
  keep_weightB :: "nat \<Rightarrow> nat \<Rightarrow> mask"

text \<open>
  The input of the Weight Network, built the same way in both phases from the
  features, the labels and a prediction \<open>p\<close>:
  \<^verbatim>\<open>
  dis = p - label.transpose(0, 1)
  weight_feature = torch.cat((feature, dis.transpose(0, 1), label, p.view(-1, 1)), 1)
  \<close>
\<close>

definition weight_input :: "matrix \<Rightarrow> tensor \<Rightarrow> tensor \<Rightarrow> error + matrix" where
  "weight_input feature label p =
     (case label of
        T2 l \<Rightarrow>
          bindE (transpose01 (T2 l)) (\<lambda>lt.
          bindE (t_sub p lt) (\<lambda>dis.
          bindE (transpose01 dis) (\<lambda>dist.
            case dist of T2 d \<Rightarrow> torch_cat1 [feature, d, l, view_col p]
                       | _ \<Rightarrow> Inl IndexError)))
      | _ \<Rightarrow> Inl IndexError)"

text \<open>
  The loss of Phase A as a function of the live Forecast Network's parameters, the
  labels and the weights held fixed: what \<open>loss.backward()\<close> differentiates.
\<close>

definition forecast_loss :: "torch \<Rightarrow> (nat \<Rightarrow> mask) \<Rightarrow> GRUModel \<Rightarrow> matrix \<Rightarrow> tensor \<Rightarrow> matrix \<Rightarrow> gparams \<Rightarrow> real" where
  "forecast_loss env keep g feature label weight p =
     (case bindE (GRUModel_forward env keep (gm_set_params g p) feature)
             (\<lambda>pred. loss_fn pred label weight) of
        Inr (Fin v) \<Rightarrow> v | _ \<Rightarrow> 0)"

text \<open>
  \<^verbatim>\<open>
  self.fore_optimizer.zero_grad()
  loss.backward()
  torch.nn.utils.clip_grad_value_(self.fore_model.parameters(), 3.0)
  self.fore_optimizer.step()
  \<close>
  \<open>backward\<close> raises when no parameter of the loss requires a gradient. The optimizer
  updates, in place, the parameters it was built on.
\<close>

definition fore_update :: "torch \<Rightarrow> (gparams \<Rightarrow> real) \<Rightarrow> TCTS \<times> mem \<Rightarrow> error + TCTS \<times> mem" where
  "fore_update env L st =
     (let self = fst st; m = snd st; fo = fore_optimizer self; g = gru_heap m (fore_model self) in
      if \<not> gm_requires_grad g then Inl RuntimeError
      else if opt_target fo \<noteq> fore_model self then Inr st
      else
        let r = step_fore env fo (gm_params g) (clip_gparams 3 (grad_fore env L (gm_params g)))
        in Inr (self\<lparr>fore_optimizer := fo\<lparr>opt_state := snd r\<rparr>\<rparr>,
                m\<lparr>gru_heap := (gru_heap m)(fore_model self := gm_set_params g (fst r))\<rparr>))"

text \<open>
  The body of the Phase A loop, at inner step \<open>k\<close> and batch start \<open>i\<close>:
  \<^verbatim>\<open>
  feature = torch.from_numpy(x_train_values[indices[i : i + self.batch_size]]).float().to(self.device)
  label = torch.from_numpy(y_train_values[indices[i : i + self.batch_size]]).float().to(self.device)
  init_pred = init_fore_model(feature)
  pred = self.fore_model(feature)
  dis = init_pred - label.transpose(0, 1)
  weight_feature = torch.cat((feature, dis.transpose(0, 1), label, init_pred.view(-1, 1)), 1)
  weight = self.weight_model(weight_feature)
  loss = self.loss_fn(pred, label, weight)  # hard
  \<close>
  followed by the update above.
\<close>

definition phaseA_forward :: "torch \<Rightarrow> rand \<Rightarrow> nat \<Rightarrow> nat \<Rightarrow> nat \<Rightarrow> matrix \<Rightarrow> tensor \<Rightarrow> TCTS \<times> mem \<Rightarrow> error + tensor \<times> matrix" where
  "phaseA_forward env rnd init_fore_model k i feature label st =
     (let self = fst st; m = snd st in
      bindE (GRUModel_forward env (keep_init rnd k i) (gru_heap m init_fore_model) feature) (\<lambda>init_pred.
      bindE (GRUModel_forward env (keep_fore rnd k i) (gru_heap m (fore_model self)) feature) (\<lambda>pred.
      bindE (weight_input feature label init_pred) (\<lambda>weight_feature.
      bindE (MLPModel_forward (keep_weight rnd k i) (mlp_heap m (weight_model self)) weight_feature) (\<lambda>weight.
        Inr (pred, weight))))))"


definition phaseA_step :: "torch \<Rightarrow> rand \<Rightarrow> nat \<Rightarrow> matrix \<Rightarrow> tensor \<Rightarrow> nat list \<Rightarrow> nat \<Rightarrow> nat \<Rightarrow> TCTS \<times> mem \<Rightarrow> error + TCTS \<times> mem" where
  "phaseA_step env rnd init_fore_model x y indices k i st =
     (let idx = slice i (i + batch_size (fst st)) indices in
      bindE (take_rows_mat x idx) (\<lambda>feature.
      bindE (take_rows y idx) (\<lambda>label.
      bindE (phaseA_forward env rnd init_fore_model k i feature label st) (\<lambda>r.
      bindE (loss_fn (fst r) label (snd r)) (\<lambda>loss.
        fore_update env
          (forecast_loss env (keep_fore rnd k i) (gru_heap (snd st) (fore_model (fst st)))
             feature label (snd r))
          st)))))"

text \<open>
  The loss of Phase B:
  \<^verbatim>\<open>
  loc = torch.argmax(weight, 1)
  valid_loss = torch.mean((pred - label[:, 0]) ** 2)
  loss = torch.mean(-valid_loss * torch.log(weight[np.arange(weight.shape[0]), loc]))
  \<close>
  The logarithm is taken of weights the softmax produced, which are positive.
\<close>

definition policy_loss :: "fl \<Rightarrow> nat list \<Rightarrow> matrix \<Rightarrow> error + fl" where
  "policy_loss valid_loss loc weight =
     bindE (index_rows (T2 weight) (length weight) loc) (\<lambda>w.
       Inr (case valid_loss of
              Fin v \<Rightarrow> torch_mean (t_map (\<lambda>p. - v * ln p) w)
            | _ \<Rightarrow> NaN))"


text \<open>
  The same loss as a function of the Weight Network's parameters, with the selected
  horizons \<open>loc\<close> and the value loss held fixed.
\<close>

definition weight_loss_of :: "(nat \<Rightarrow> mask) \<Rightarrow> MLPModel \<Rightarrow> matrix \<Rightarrow> fl \<Rightarrow> nat list \<Rightarrow> mparams \<Rightarrow> real" where
  "weight_loss_of keep w weight_feature valid_loss loc p =
     (case bindE (MLPModel_forward keep (mlp_set_params w p) weight_feature)
             (policy_loss valid_loss loc) of
        Inr (Fin v) \<Rightarrow> v | _ \<Rightarrow> 0)"

definition weight_update :: "torch \<Rightarrow> (mparams \<Rightarrow> real) \<Rightarrow> TCTS \<times> mem \<Rightarrow> error + TCTS \<times> mem" where
  "weight_update env L st =
     (let self = fst st; m = snd st; wo = weight_optimizer self; w = mlp_heap m (weight_model self) in
      if \<not> mlp_requires_grad w then Inl RuntimeError
      else if opt_target wo \<noteq> weight_model self then Inr st
      else
        let r = step_weight env wo (mlp_params w) (clip_mparams 3 (grad_weight env L (mlp_params w)))
        in Inr (self\<lparr>weight_optimizer := wo\<lparr>opt_state := snd r\<rparr>\<rparr>,
                m\<lparr>mlp_heap := (mlp_heap m)(weight_model self := mlp_set_params w (fst r))\<rparr>))"

definition phaseB_forward :: "torch \<Rightarrow> rand \<Rightarrow> nat \<Rightarrow> matrix \<Rightarrow> tensor \<Rightarrow> TCTS \<times> mem \<Rightarrow> error + tensor \<times> matrix \<times> matrix" where
  "phaseB_forward env rnd i feature label st =
     (let self = fst st; m = snd st in
      bindE (GRUModel_forward env (keep_foreB rnd i) (gru_heap m (fore_model self)) feature) (\<lambda>pred.
      bindE (weight_input feature label pred) (\<lambda>weight_feature.
      bindE (MLPModel_forward (keep_weightB rnd i) (mlp_heap m (weight_model self)) weight_feature) (\<lambda>weight.
        Inr (pred, weight_feature, weight)))))"


definition phaseB_step :: "torch \<Rightarrow> rand \<Rightarrow> matrix \<Rightarrow> tensor \<Rightarrow> nat list \<Rightarrow> nat \<Rightarrow> TCTS \<times> mem \<Rightarrow> error + TCTS \<times> mem" where
  "phaseB_step env rnd x y indices i st =
     (let idx = slice i (i + batch_size (fst st)) indices in
      bindE (take_rows_mat x idx) (\<lambda>feature.
      bindE (take_rows y idx) (\<lambda>label.
      bindE (phaseB_forward env rnd i feature label st) (\<lambda>r.
      bindE (torch_argmax1 (snd (snd r))) (\<lambda>loc.
      bindE (select_col label 0) (\<lambda>l0.
      bindE (t_sub (fst r) l0) (\<lambda>d.
      bindE (policy_loss (torch_mean (t_map (\<lambda>x. x ^ 2) d)) loc (snd (snd r))) (\<lambda>loss.
        weight_update env
          (weight_loss_of (keep_weightB rnd i) (mlp_heap (snd st) (weight_model (fst st)))
             (fst (snd r)) (torch_mean (t_map (\<lambda>x. x ^ 2) d)) loc)
          st))))))))"

text \<open>
  \<^verbatim>\<open>
  def train_epoch(self, x_train, y_train, x_valid, y_valid):
      x_train_values = x_train.values
      y_train_values = np.squeeze(y_train.values)
      indices = np.arange(len(x_train_values))
      np.random.shuffle(indices)
      init_fore_model = copy.deepcopy(self.fore_model)
      for p in init_fore_model.parameters():
          p.init_fore_model = False
      self.fore_model.train()
      self.weight_model.train()
      for p in self.weight_model.parameters():
          p.requires_grad = False
      for p in self.fore_model.parameters():
          p.requires_grad = True
      for i in range(self.steps):
          for i in range(len(indices))[:: self.batch_size]:
              ...
      x_valid_values = x_valid.values
      y_valid_values = np.squeeze(y_valid.values)
      indices = np.arange(len(x_valid_values))
      np.random.shuffle(indices)
      for p in self.weight_model.parameters():
          p.requires_grad = True
      for p in self.fore_model.parameters():
          p.requires_grad = False
      for i in range(len(indices))[:: self.batch_size]:
          ...
  \<close>
  The attribute \<open>init_fore_model\<close> the copy's parameters are given is read nowhere.
\<close>

definition set_fore_flags :: "nat \<Rightarrow> (GRUModel \<Rightarrow> GRUModel) \<Rightarrow> mem \<Rightarrow> mem" where
  "set_fore_flags a f m = m\<lparr>gru_heap := (gru_heap m)(a := f (gru_heap m a))\<rparr>"

definition set_weight_flags :: "nat \<Rightarrow> (MLPModel \<Rightarrow> MLPModel) \<Rightarrow> mem \<Rightarrow> mem" where
  "set_weight_flags a f m = m\<lparr>mlp_heap := (mlp_heap m)(a := f (mlp_heap m a))\<rparr>"

definition phaseA_begin :: "TCTS \<times> mem \<Rightarrow> nat \<times> (TCTS \<times> mem)" where
  "phaseA_begin st =
     (let self = fst st;
          r = deepcopy_gru (fore_model self) (snd st);
          m1 = set_fore_flags (fore_model self) (\<lambda>g. g\<lparr>gm_training := True\<rparr>) (snd r);
          m2 = set_weight_flags (weight_model self) (\<lambda>w. w\<lparr>mlp_training := True\<rparr>) m1;
          m3 = set_weight_flags (weight_model self) (\<lambda>w. w\<lparr>mlp_requires_grad := False\<rparr>) m2;
          m4 = set_fore_flags (fore_model self) (\<lambda>g. g\<lparr>gm_requires_grad := True\<rparr>) m3
      in (fst r, (self, m4)))"

definition phaseA :: "torch \<Rightarrow> rand \<Rightarrow> nat \<Rightarrow> matrix \<Rightarrow> matrix \<Rightarrow> TCTS \<times> mem \<Rightarrow> error + TCTS \<times> mem" where
  "phaseA env rnd init_fore_model x_train y_train st =
     (let indices = shuffled (perm_train rnd) (length x_train) in
      forE [0..<steps (fst st)]
        (\<lambda>k. for_batches (length indices) (batch_size (fst st))
                (phaseA_step env rnd init_fore_model x_train (squeeze y_train) indices k))
        st)"

definition phaseB :: "torch \<Rightarrow> rand \<Rightarrow> matrix \<Rightarrow> matrix \<Rightarrow> TCTS \<times> mem \<Rightarrow> error + TCTS \<times> mem" where
  "phaseB env rnd x_valid y_valid st =
     (let self = fst st;
          indices = shuffled (perm_valid rnd) (length x_valid);
          m1 = set_weight_flags (weight_model self) (\<lambda>w. w\<lparr>mlp_requires_grad := True\<rparr>) (snd st);
          m2 = set_fore_flags (fore_model self) (\<lambda>g. g\<lparr>gm_requires_grad := False\<rparr>) m1
      in for_batches (length indices) (batch_size self)
           (phaseB_step env rnd x_valid (squeeze y_valid) indices) (self, m2))"

definition train_epoch :: "torch \<Rightarrow> rand \<Rightarrow> matrix \<Rightarrow> matrix \<Rightarrow> matrix \<Rightarrow> matrix \<Rightarrow> TCTS \<times> mem \<Rightarrow> error + TCTS \<times> mem" where
  "train_epoch env rnd x_train y_train x_valid y_valid st =
     (let r = phaseA_begin st in
      bindE (phaseA env rnd (fst r) x_train y_train (snd r)) (phaseB env rnd x_valid y_valid))"

text \<open>
  The states Phase A passes through, from the state \<open>st\<close> it starts in: each is
  reached from the one before by one run of the loop body, at some inner step \<open>k\<close>
  and batch start \<open>i\<close>.
\<close>

inductive phaseA_reaches :: "torch \<Rightarrow> rand \<Rightarrow> nat \<Rightarrow> matrix \<Rightarrow> tensor \<Rightarrow> nat list \<Rightarrow> TCTS \<times> mem \<Rightarrow> TCTS \<times> mem \<Rightarrow> bool"
  for env rnd init_fore_model x y indices st
where
  start: "phaseA_reaches env rnd init_fore_model x y indices st st"
| step: "phaseA_reaches env rnd init_fore_model x y indices st s \<Longrightarrow>
         phaseA_step env rnd init_fore_model x y indices k i s = Inr s' \<Longrightarrow>
         phaseA_reaches env rnd init_fore_model x y indices st s'"

section \<open>Evaluation, fitting and prediction\<close>

text \<open>
  \<^verbatim>\<open>
  def test_epoch(self, data_x, data_y):
      x_values = data_x.values
      y_values = np.squeeze(data_y.values)
      self.fore_model.eval()
      scores = []
      losses = []
      indices = np.arange(len(x_values))
      for i in range(len(indices))[:: self.batch_size]:
          if len(indices) - i < self.batch_size:
              break
          feature = torch.from_numpy(x_values[indices[i : i + self.batch_size]]).float().to(self.device)
          label = torch.from_numpy(y_values[indices[i : i + self.batch_size]]).float().to(self.device)
          pred = self.fore_model(feature)
          loss = torch.mean((pred - label[:, abs(self.target_label)]) ** 2)
          losses.append(loss.item())
      return np.mean(losses)
  \<close>
  In evaluation mode a forward pass draws nothing at random, so the pass has no mask
  among its arguments (the encoder is handed the constant one). A forward pass records
  a gradient graph when gradient mode is on (it is, outside \<open>torch.no_grad()\<close>) and a
  parameter of the network requires a gradient.
\<close>

definition no_mask :: "nat \<Rightarrow> mask" where
  "no_mask i = (\<lambda>j k. True)"

definition records_graph :: "bool \<Rightarrow> GRUModel \<Rightarrow> bool" where
  "records_graph no_grad g = (\<not> no_grad \<and> gm_requires_grad g)"

text \<open>
  The loss of a batch, \<open>torch.mean((pred - label[:, k]) ** 2)\<close>, is a float32. The
  squares and the sum that the mean divides are at most \<open>float32_max\<close>, the largest
  finite float32, or they are \<open>inf\<close>; no square is negative, so one of them is beyond
  that range only if their sum is. Within the range the arithmetic is exact: rounding
  is not modelled.
\<close>

definition float32_max :: real where
  "float32_max = (2 - 1 / 2 ^ 23) * 2 ^ 127"

definition float32_mean_squares :: "tensor \<Rightarrow> fl" where
  "float32_mean_squares d =
     (if float32_max < sum_list (t_elems (t_map (\<lambda>x. x ^ 2) d)) then PosInf
      else torch_mean (t_map (\<lambda>x. x ^ 2) d))"

definition squared_error :: "tensor \<Rightarrow> tensor \<Rightarrow> nat \<Rightarrow> error + fl" where
  "squared_error pred label k =
     bindE (select_col label k) (\<lambda>col.
     bindE (t_sub pred col) (\<lambda>d.
       Inr (float32_mean_squares d)))"

definition test_batch :: "torch \<Rightarrow> TCTS \<Rightarrow> mem \<Rightarrow> matrix \<Rightarrow> tensor \<Rightarrow> nat list \<Rightarrow> nat \<Rightarrow> fl list \<Rightarrow> error + fl list" where
  "test_batch env self m x y indices i losses =
     (let idx = slice i (i + batch_size self) indices in
      bindE (take_rows_mat x idx) (\<lambda>feature.
      bindE (take_rows y idx) (\<lambda>label.
      bindE (GRUModel_forward env no_mask (gru_heap m (fore_model self)) feature) (\<lambda>pred.
      bindE (squared_error pred label (nat \<bar>target_label self\<bar>)) (\<lambda>loss.
        Inr (losses @ [loss]))))))"

text \<open>
  \<open>np.mean\<close> of a list of floats: NaN when the list is empty or holds a NaN, and
  \<open>inf\<close> when it holds an \<open>inf\<close> and no NaN.
\<close>

fun fl_reals :: "fl list \<Rightarrow> real list option" where
  "fl_reals [] = Some []"
| "fl_reals (Fin v # ls) = (case fl_reals ls of Some vs \<Rightarrow> Some (v # vs) | None \<Rightarrow> None)"
| "fl_reals (_ # ls) = None"

definition np_mean :: "fl list \<Rightarrow> fl" where
  "np_mean losses =
     (case fl_reals losses of
        Some vs \<Rightarrow> mean vs
      | None \<Rightarrow> if NaN \<in> set losses then NaN else PosInf)"

definition test_epoch :: "torch \<Rightarrow> TCTS \<Rightarrow> matrix \<Rightarrow> matrix \<Rightarrow> mem \<Rightarrow> error + fl \<times> mem" where
  "test_epoch env self data_x data_y m =
     (let m1 = set_fore_flags (fore_model self) (\<lambda>g. g\<lparr>gm_training := False\<rparr>) m;
          indices = [0..<length data_x]
      in bindE (for_batches (length indices) (batch_size self)
                  (test_batch env self m1 data_x (squeeze data_y) indices) [])
           (\<lambda>losses. Inr (np_mean losses, m1)))"

text \<open>
  The checkpoint files: \<open>torch.save\<close> writes a network's parameters under a path,
  \<open>torch.load\<close> reads them back or raises when the path has no file, and
  \<open>load_state_dict\<close> stores them into the network's own parameters, raising when they
  are another network's.
\<close>

datatype state_dict = SD_gru gparams | SD_mlp mparams

type_synonym files = "string \<Rightarrow> state_dict option"

definition torch_load :: "files \<Rightarrow> string \<Rightarrow> error + state_dict" where
  "torch_load fs path = (case fs path of None \<Rightarrow> Inl FileNotFoundError | Some d \<Rightarrow> Inr d)"

definition gru_load_state_dict :: "nat \<Rightarrow> state_dict \<Rightarrow> mem \<Rightarrow> error + mem" where
  "gru_load_state_dict a d m =
     (case d of SD_gru p \<Rightarrow> Inr (set_fore_flags a (\<lambda>g. gm_set_params g p) m)
              | SD_mlp p \<Rightarrow> Inl RuntimeError)"

definition mlp_load_state_dict :: "nat \<Rightarrow> state_dict \<Rightarrow> mem \<Rightarrow> error + mem" where
  "mlp_load_state_dict a d m =
     (case d of SD_mlp p \<Rightarrow> Inr (set_weight_flags a (\<lambda>w. mlp_set_params w p) m)
              | SD_gru p \<Rightarrow> Inl RuntimeError)"

record dataset =
  x_train :: matrix
  y_train :: matrix
  x_valid :: matrix
  y_valid :: matrix
  x_test :: matrix
  y_test :: matrix

text \<open>
  \<^verbatim>\<open>
  best_loss = np.inf
  best_epoch = 0
  stop_round = 0
  for epoch in range(self.n_epochs):
      self.train_epoch(x_train, y_train, x_valid, y_valid)
      val_loss = self.test_epoch(x_valid, y_valid)
      test_loss = self.test_epoch(x_test, y_test)
      if val_loss < best_loss:
          best_loss = val_loss
          stop_round = 0
          best_epoch = epoch
          torch.save(copy.deepcopy(self.fore_model.state_dict()), save_path + "_fore_model.bin")
          torch.save(copy.deepcopy(self.weight_model.state_dict()), save_path + "_weight_model.bin")
      else:
          stop_round += 1
          if stop_round >= self.early_stop:
              break
  best_param = torch.load(save_path + "_fore_model.bin")
  self.fore_model.load_state_dict(best_param)
  best_param = torch.load(save_path + "_weight_model.bin")
  self.weight_model.load_state_dict(best_param)
  self.fitted = True
  \<close>
  \<open>save_path\<close> is the path after \<open>create_save_path\<close>; \<open>rnd epoch\<close> are the random
  draws of that epoch's training.
\<close>

record fit_state =
  cur :: "TCTS \<times> mem"
  disk :: files
  best_loss :: fl
  best_epoch :: nat
  stop_round :: int

definition fore_path :: "string \<Rightarrow> string" where
  "fore_path save_path = save_path @ ''_fore_model.bin''"

definition weight_path :: "string \<Rightarrow> string" where
  "weight_path save_path = save_path @ ''_weight_model.bin''"

definition save_both :: "string \<Rightarrow> TCTS \<times> mem \<Rightarrow> files \<Rightarrow> files" where
  "save_both save_path st fs =
     (fs(fore_path save_path := Some (SD_gru (gm_params (gru_heap (snd st) (fore_model (fst st))))))
       )(weight_path save_path := Some (SD_mlp (mlp_params (mlp_heap (snd st) (weight_model (fst st))))))"

definition run_epoch :: "torch \<Rightarrow> rand \<Rightarrow> dataset \<Rightarrow> TCTS \<times> mem \<Rightarrow> error + fl \<times> (TCTS \<times> mem)" where
  "run_epoch env rnd ds st =
     bindE (train_epoch env rnd (x_train ds) (y_train ds) (x_valid ds) (y_valid ds) st) (\<lambda>st1.
     bindE (test_epoch env (fst st1) (x_valid ds) (y_valid ds) (snd st1)) (\<lambda>v.
     bindE (test_epoch env (fst st1) (x_test ds) (y_test ds) (snd v)) (\<lambda>t.
       Inr (fst v, (fst st1, snd t)))))"

fun fit_loop :: "torch \<Rightarrow> (nat \<Rightarrow> rand) \<Rightarrow> dataset \<Rightarrow> string \<Rightarrow> nat list \<Rightarrow> fit_state \<Rightarrow> error + fit_state" where
  "fit_loop env rnd ds save_path [] s = Inr s"
| "fit_loop env rnd ds save_path (epoch # rest) s =
     bindE (run_epoch env (rnd epoch) ds (cur s)) (\<lambda>r.
       if fl_less (fst r) (best_loss s) then
         fit_loop env rnd ds save_path rest
           \<lparr>cur = snd r, disk = save_both save_path (snd r) (disk s),
            best_loss = fst r, best_epoch = epoch, stop_round = 0\<rparr>
       else if early_stop (fst (snd r)) \<le> stop_round s + 1 then
         Inr (s\<lparr>cur := snd r, stop_round := stop_round s + 1\<rparr>)
       else
         fit_loop env rnd ds save_path rest (s\<lparr>cur := snd r, stop_round := stop_round s + 1\<rparr>))"

definition reload :: "string \<Rightarrow> fit_state \<Rightarrow> error + (TCTS \<times> mem) \<times> files" where
  "reload save_path s =
     (let self = fst (cur s) in
      bindE (torch_load (disk s) (fore_path save_path)) (\<lambda>best_param.
      bindE (gru_load_state_dict (fore_model self) best_param (snd (cur s))) (\<lambda>m1.
      bindE (torch_load (disk s) (weight_path save_path)) (\<lambda>best_param.
      bindE (mlp_load_state_dict (weight_model self) best_param m1) (\<lambda>m2.
        Inr ((self\<lparr>fitted := True\<rparr>, m2), disk s))))))"

definition fit :: "torch \<Rightarrow> (nat \<Rightarrow> rand) \<Rightarrow> dataset \<Rightarrow> string \<Rightarrow> TCTS \<times> mem \<Rightarrow> files \<Rightarrow> error + (TCTS \<times> mem) \<times> files" where
  "fit env rnd ds save_path st fs =
     bindE (fit_loop env rnd ds save_path [0..<n_epochs (fst st)]
              \<lparr>cur = st, disk = fs, best_loss = PosInf, best_epoch = 0, stop_round = 0\<rparr>)
       (reload save_path)"

text \<open>
  \<^verbatim>\<open>
  def predict(self, dataset):
      if not self.fitted:
          raise ValueError("model is not fitted yet!")
      x_test = dataset.prepare("test", col_set="feature")
      index = x_test.index
      self.fore_model.eval()
      x_values = x_test.values
      sample_num = x_values.shape[0]
      preds = []
      for begin in range(sample_num)[:: self.batch_size]:
          if sample_num - begin < self.batch_size:
              end = sample_num
          else:
              end = begin + self.batch_size
          x_batch = torch.from_numpy(x_values[begin:end]).float().to(self.device)
          with torch.no_grad():
              pred = self.fore_model(x_batch).detach().numpy()
          preds.append(pred)
      return pd.Series(np.concatenate(preds), index=index)
  \<close>
  The test features are the rows of a data frame, each with its index key.
  \<open>np.concatenate\<close> joins arrays of rank 1; it raises a ValueError on an empty list
  and on an array of rank 0. \<open>pd.Series\<close> needs as many values as index keys.
\<close>

fun np_concatenate :: "tensor list \<Rightarrow> error + real list" where
  "np_concatenate [] = Inl ValueError"
| "np_concatenate [T1 xs] = Inr xs"
| "np_concatenate (T1 xs # ts) = bindE (np_concatenate ts) (\<lambda>r. Inr (xs @ r))"
| "np_concatenate (_ # ts) = Inl ValueError"

definition pd_Series :: "real list \<Rightarrow> 'k list \<Rightarrow> error + ('k \<times> real) list" where
  "pd_Series vs index = (if length vs = length index then Inr (zip index vs) else Inl ValueError)"

definition predict_batch :: "torch \<Rightarrow> TCTS \<Rightarrow> mem \<Rightarrow> matrix \<Rightarrow> nat \<Rightarrow> error + tensor" where
  "predict_batch env self m x_values begin =
     (let sample_num = length x_values;
          stop = (if sample_num - begin < batch_size self then sample_num
                  else begin + batch_size self)
      in GRUModel_forward env no_mask (gru_heap m (fore_model self)) (slice begin stop x_values))"

definition predict :: "torch \<Rightarrow> TCTS \<Rightarrow> ('k \<times> real list) list \<Rightarrow> mem \<Rightarrow> error + ('k \<times> real) list \<times> mem" where
  "predict env self frame m =
     (if \<not> fitted self then Inl ValueError
      else
        let index = map fst frame; x_values = map snd frame;
            m1 = set_fore_flags (fore_model self) (\<lambda>g. g\<lparr>gm_training := False\<rparr>) m
        in bindE (range_step (length x_values) (batch_size self)) (\<lambda>begins.
           bindE (mapE (predict_batch env self m1 x_values) begins) (\<lambda>preds.
           bindE (np_concatenate preds) (\<lambda>vs.
           bindE (pd_Series vs index) (\<lambda>series.
             Inr (series, m1))))))"

section \<open>The online-model tags\<close>

text \<open>
  Modelled from the spec: the recorder store behind \<open>Recorder.set_tags\<close>,
  \<open>Recorder.list_tags\<close> and \<open>list_recorders\<close>, which \<open>OnlineToolR\<close> calls and which are
  defined in modules that are not among the sources. A recorder is known by its
  experiment and its id; the store holds the tags of every recorder, in the order
  \<open>list_recorders\<close> reports them; \<open>list_recorders(exp_name, f)\<close> gives the recorders
  of that experiment that pass the filter \<open>f\<close>.
\<close>

record recorder =
  rec_experiment :: string
  rec_id :: string

type_synonym tags = "string \<Rightarrow> string option"

type_synonym store = "(recorder \<times> tags) list"

definition set_tags :: "recorder \<Rightarrow> string \<Rightarrow> string \<Rightarrow> store \<Rightarrow> store" where
  "set_tags r k v st = map (\<lambda>(r', t). if r' = r then (r', t(k := Some v)) else (r', t)) st"

definition list_tags :: "recorder \<Rightarrow> store \<Rightarrow> tags" where
  "list_tags r st = (case map_of st r of Some t \<Rightarrow> t | None \<Rightarrow> (\<lambda>k. None))"

definition list_recorders :: "string \<Rightarrow> (recorder \<Rightarrow> bool) \<Rightarrow> store \<Rightarrow> recorder list" where
  "list_recorders exp_name f st = filter (\<lambda>r. rec_experiment r = exp_name \<and> f r) (map fst st)"

text \<open>
  \<^verbatim>\<open>
  class OnlineToolR(OnlineTool):
      def set_online_tag(self, tag, recorder: Union[Recorder, List]):
          if isinstance(recorder, Recorder):
              recorder = [recorder]
          for rec in recorder:
              rec.set_tags(**{self.ONLINE_KEY: tag})

      def get_online_tag(self, recorder: Recorder) -> str:
          tags = recorder.list_tags()
          return tags.get(self.ONLINE_KEY, self.OFFLINE_TAG)

      def reset_online_tag(self, recorder: Union[Recorder, List]):
          if isinstance(recorder, Recorder):
              recorder = [recorder]
          recs = list_recorders(self.exp_name)
          self.set_online_tag(self.OFFLINE_TAG, list(recs.values()))
          self.set_online_tag(self.ONLINE_TAG, recorder)

      def online_models(self) -> list:
          return list(list_recorders(self.exp_name,
                      lambda rec: self.get_online_tag(rec) == self.ONLINE_TAG).values())
  \<close>
\<close>

definition ONLINE_KEY :: string where
  "ONLINE_KEY = ''online_status''"

definition ONLINE_TAG :: string where
  "ONLINE_TAG = ''online''"

definition OFFLINE_TAG :: string where
  "OFFLINE_TAG = ''offline''"

datatype recorders = One recorder | Many "recorder list"

fun as_list :: "recorders \<Rightarrow> recorder list" where
  "as_list (One r) = [r]"
| "as_list (Many rs) = rs"

definition set_online_tag :: "string \<Rightarrow> recorders \<Rightarrow> store \<Rightarrow> store" where
  "set_online_tag tag rs st = fold (\<lambda>r. set_tags r ONLINE_KEY tag) (as_list rs) st"

definition get_online_tag :: "recorder \<Rightarrow> store \<Rightarrow> string" where
  "get_online_tag r st = (case list_tags r st ONLINE_KEY of Some t \<Rightarrow> t | None \<Rightarrow> OFFLINE_TAG)"

definition reset_online_tag :: "string \<Rightarrow> recorders \<Rightarrow> store \<Rightarrow> store" where
  "reset_online_tag exp_name rs st =
     set_online_tag ONLINE_TAG (Many (as_list rs))
       (set_online_tag OFFLINE_TAG (Many (list_recorders exp_name (\<lambda>r. True) st)) st)"

definition online_models :: "string \<Rightarrow> store \<Rightarrow> recorder list" where
  "online_models exp_name st =
     list_recorders exp_name (\<lambda>r. get_online_tag r st = ONLINE_TAG) st"

section \<open>The losses in the words of the specification\<close>

text \<open>
  The mean over the \<open>n\<close> samples of a batch; the value loss, the mean squared error of
  a forecast \<open>p\<close> against the labels \<open>l\<close> at horizon \<open>h\<close>; and the mean over the
  samples of minus the logarithm of the largest weight of the sample's row.
\<close>

definition mean_over :: "nat \<Rightarrow> (nat \<Rightarrow> real) \<Rightarrow> real" where
  "mean_over n f = (\<Sum>j<n. f j) / real n"

definition mse_at :: "nat \<Rightarrow> real list \<Rightarrow> matrix \<Rightarrow> nat \<Rightarrow> real" where
  "mse_at n p l h = mean_over n (\<lambda>k. (p ! k - l ! k ! h) ^ 2)"


section \<open>Early stopping in the words of the specification\<close>

text \<open>
  The validation loss and the state at the end of epoch \<open>e\<close>, when the epochs run one
  after the other from the state \<open>st\<close>, whatever the early stopping decides about
  them; and the state in which epoch \<open>j\<close> starts.
\<close>

fun epoch_result :: "torch \<Rightarrow> (nat \<Rightarrow> rand) \<Rightarrow> dataset \<Rightarrow> TCTS \<times> mem \<Rightarrow> nat \<Rightarrow> error + fl \<times> (TCTS \<times> mem)" where
  "epoch_result env rnd ds st 0 = run_epoch env (rnd 0) ds st"
| "epoch_result env rnd ds st (Suc e) =
     bindE (epoch_result env rnd ds st e) (\<lambda>r. run_epoch env (rnd (Suc e)) ds (snd r))"

definition before_epoch :: "torch \<Rightarrow> (nat \<Rightarrow> rand) \<Rightarrow> dataset \<Rightarrow> TCTS \<times> mem \<Rightarrow> nat \<Rightarrow> error + TCTS \<times> mem" where
  "before_epoch env rnd ds st j =
     (case j of 0 \<Rightarrow> Inr st
      | Suc e \<Rightarrow> bindE (epoch_result env rnd ds st e) (\<lambda>r. Inr (snd r)))"

text \<open>
  Epoch \<open>b\<close> is the first of the epochs \<open>0, \<dots>, j - 1\<close> with the least validation
  loss \<open>v\<close>: no epoch has a loss below \<open>v\<close>, and none before \<open>b\<close> has the loss \<open>v\<close>.
\<close>

definition best_so_far :: "(nat \<Rightarrow> error + fl \<times> 'a) \<Rightarrow> nat \<Rightarrow> nat \<Rightarrow> real \<Rightarrow> bool" where
  "best_so_far R j b v =
     (b < j \<and> (\<exists>s. R b = Inr (Fin v, s)) \<and>
      (\<forall>e<j. \<exists>u s. R e = Inr (u, s) \<and> \<not> fl_less u (Fin v)) \<and>
      (\<forall>e<b. \<exists>u s. R e = Inr (u, s) \<and> u \<noteq> Fin v))"

text \<open>
  After every epoch \<open>e\<close> between \<open>b\<close> and \<open>j\<close> the stall counter, \<open>e - b\<close>, was still
  below the threshold.
\<close>

definition stall_below :: "nat \<Rightarrow> nat \<Rightarrow> int \<Rightarrow> bool" where
  "stall_below j b threshold = (\<forall>e. b < e \<and> e < j \<longrightarrow> int (e - b) < threshold)"

text \<open>The two checkpoint files hold the parameters the networks have in the state \<open>st\<close>.\<close>

definition holds_checkpoint :: "string \<Rightarrow> TCTS \<times> mem \<Rightarrow> files \<Rightarrow> bool" where
  "holds_checkpoint save_path st fs =
     (fs (fore_path save_path) = Some (SD_gru (gm_params (gru_heap (snd st) (fore_model (fst st))))) \<and>
      fs (weight_path save_path) = Some (SD_mlp (mlp_params (mlp_heap (snd st) (weight_model (fst st))))))"

text \<open>
  The model objects of two states agree in their hyper-parameters and in the addresses
  of their networks.
\<close>

definition same_self :: "TCTS \<times> mem \<Rightarrow> TCTS \<times> mem \<Rightarrow> bool" where
  "same_self st st' =
     (hyper.truncate (fst st') = hyper.truncate (fst st) \<and> fore_model (fst st') = fore_model (fst st) \<and>
      weight_model (fst st') = weight_model (fst st))"

text \<open>
  The Weight Networks of two states, at the same address, have the same sequence of
  modules: linear layers at the same places.
\<close>

fun is_Linear :: "layer \<Rightarrow> bool" where
  "is_Linear (Linear l) = True"
| "is_Linear _ = False"

definition same_net :: "TCTS \<times> mem \<Rightarrow> TCTS \<times> mem \<Rightarrow> bool" where
  "same_net st st' =
     (weight_model (fst st') = weight_model (fst st) \<and>
      map is_Linear (mlp (mlp_heap (snd st') (weight_model (fst st')))) =
        map is_Linear (mlp (mlp_heap (snd st) (weight_model (fst st)))))"

text \<open>
  The two situations the epoch loop of \<open>fit\<close> can be in when epoch \<open>j\<close> is about to
  start. Either no epoch has had a validation loss below infinity: then the best loss
  is still infinity and nothing was written to the disk. Or some epoch has: then
  \<open>best_epoch\<close> is the first epoch with the least validation loss so far, the disk
  holds the parameters of the end of that epoch, and the stall counter is the number
  of epochs since.
\<close>

definition no_improvement :: "torch \<Rightarrow> (nat \<Rightarrow> rand) \<Rightarrow> dataset \<Rightarrow> TCTS \<times> mem \<Rightarrow> files \<Rightarrow> nat \<Rightarrow> fit_state \<Rightarrow> bool" where
  "no_improvement env rnd ds st0 fs0 j s =
     (best_loss s = PosInf \<and> disk s = fs0 \<and> before_epoch env rnd ds st0 j = Inr (cur s) \<and>
      same_self st0 (cur s) \<and>
      (\<forall>e<j. \<exists>u st. epoch_result env rnd ds st0 e = Inr (u, st) \<and> \<not> fl_less u PosInf))"

definition improved :: "torch \<Rightarrow> (nat \<Rightarrow> rand) \<Rightarrow> dataset \<Rightarrow> TCTS \<times> mem \<Rightarrow> string \<Rightarrow> nat \<Rightarrow> fit_state \<Rightarrow> bool" where
  "improved env rnd ds st0 sp j s =
     (\<exists>v stb u. 0 < j \<and> best_so_far (epoch_result env rnd ds st0) j (best_epoch s) v \<and>
        epoch_result env rnd ds st0 (best_epoch s) = Inr (Fin v, stb) \<and> best_loss s = Fin v \<and>
        holds_checkpoint sp stb (disk s) \<and>
        epoch_result env rnd ds st0 (j - 1) = Inr (u, cur s) \<and> same_self st0 (cur s) \<and>
        stop_round s = int (j - 1 - best_epoch s) \<and>
        stall_below (j - 1) (best_epoch s) (early_stop (fst st0)))"

section \<open>A small instance\<close>

text \<open>
  A model small enough to run by hand, used to instantiate the theorems below: one
  feature and one time step per sample, two horizons, batches of two samples. Its
  encoder sums the inputs of a sample; its Weight Network is one linear layer with
  zero weights, so every horizon gets the weight one half.
\<close>

definition tiny_env :: torch where
  "tiny_env =
     \<lparr>GRU_new = (\<lambda>d h n p. Inr []),
      GRU_last = (\<lambda>g training keep s. [sum_list (concat s)]),
      fc_init = ((\<lambda>k i j. 1), (\<lambda>k i. 0)),
      mlp_init = ((\<lambda>k i j. 0), (\<lambda>k i. 0)),
      grad_fore = (\<lambda>L p. p),
      grad_weight = (\<lambda>L p. p),
      step_fore = (\<lambda>opt p g. ((fst p, map (map (\<lambda>v. v + 1)) (fst (snd p)), snd (snd p)), [])),
      step_weight = (\<lambda>opt p g. (map (\<lambda>(w, b). (w, map (\<lambda>v. v + 1) b)) p, []))\<rparr>"

definition tiny_gru :: GRUModel where
  "tiny_gru =
     \<lparr>rnn = \<lparr>input_size = 1, rnn_hidden_size = 1, rnn_num_layers = 1, rnn_dropout = 0, rnn_weights = []\<rparr>,
      fc_out = \<lparr>in_features = 1, out_features = 1, lin_weight = [[1]], lin_bias = [0]\<rparr>,
      gm_d_feat = 1, gm_training = True, gm_requires_grad = True\<rparr>"

definition tiny_mlp :: MLPModel where
  "tiny_mlp =
     \<lparr>mlp = [Linear \<lparr>in_features = 6, out_features = 2,
                     lin_weight = [[0, 0, 0, 0, 0, 0], [0, 0, 0, 0, 0, 0]], lin_bias = [0, 0]\<rparr>],
      mlp_training = True, mlp_requires_grad = True\<rparr>"

definition tiny_mem :: mem where
  "tiny_mem =
     \<lparr>gru_heap = (\<lambda>a. tiny_gru), gru_next = 1, mlp_heap = (\<lambda>a. tiny_mlp), mlp_next = 1,
      rng_seed = None\<rparr>"

definition tiny_self :: TCTS where
  "tiny_self =
     \<lparr>d_feat = 1, hidden_size = 1, num_layers = 1, dropout = 0, n_epochs = 1, batch_size = 2,
      early_stop = 1, loss_kind = ''mse'', seed = None, output_dim = 2, fore_lr = 1, weight_lr = 1,
      steps = 1, target_label = 0, fore_model = 0, weight_model = 0,
      fore_optimizer = \<lparr>opt_kind = SGD, opt_lr = 1, opt_target = 0, opt_state = []\<rparr>,
      weight_optimizer = \<lparr>opt_kind = SGD, opt_lr = 1, opt_target = 0, opt_state = []\<rparr>,
      fitted = False\<rparr>"

definition tiny_args :: args where
  "tiny_args =
     \<lparr>d_feat = 1, hidden_size = 1, num_layers = 1, dropout = 0, n_epochs = 1, batch_size = 2,
      early_stop = 1, loss_kind = ''mse'', seed = None, output_dim = 2, fore_lr = 1, weight_lr = 1,
      steps = 1, target_label = 0, fore_optimizer_name = ''adam'', weight_optimizer_name = ''gd''\<rparr>"

definition tiny_rand :: rand where
  "tiny_rand =
     \<lparr>perm_train = [1, 0], perm_valid = [0, 1],
      keep_init = (\<lambda>k i r a b. True), keep_fore = (\<lambda>k i r a b. True),
      keep_weight = (\<lambda>k i r a b. True), keep_foreB = (\<lambda>i r a b. True),
      keep_weightB = (\<lambda>i r a b. True)\<rparr>"

text \<open>
  The memory of the small instance when Phase A begins, and its Forecast Network after
  one step of the optimizer.
\<close>

definition tiny_begin_mem :: mem where
  "tiny_begin_mem =
     \<lparr>gru_heap = (\<lambda>a. tiny_gru)(1 := tiny_gru, 0 := tiny_gru\<lparr>gm_training := True, gm_requires_grad := True\<rparr>),
      gru_next = 2,
      mlp_heap = (\<lambda>a. tiny_mlp)(0 := tiny_mlp\<lparr>mlp_training := True, mlp_requires_grad := False\<rparr>),
      mlp_next = 1, rng_seed = None\<rparr>"

definition tiny_stepped_gru :: GRUModel where
  "tiny_stepped_gru =
     \<lparr>rnn = \<lparr>input_size = 1, rnn_hidden_size = 1, rnn_num_layers = 1, rnn_dropout = 0, rnn_weights = []\<rparr>,
      fc_out = \<lparr>in_features = 1, out_features = 1, lin_weight = [[2]], lin_bias = [0]\<rparr>,
      gm_d_feat = 1, gm_training = True, gm_requires_grad = True\<rparr>"

definition tiny_fitted :: TCTS where
  "tiny_fitted = tiny_self\<lparr>fitted := True\<rparr>"

definition tiny_eval_mem :: mem where
  "tiny_eval_mem = set_fore_flags 0 (\<lambda>g. g\<lparr>gm_training := False\<rparr>) tiny_mem"

text \<open>
  The same networks with another weight of the output layer, another bias of the
  Weight Network and other flags; the model with \<open>N\<close> epochs to run; a memory with
  given networks at address \<open>0\<close>; and the data: three splits of two samples (one
  batch), or a validation split of one sample (no full batch).
\<close>

definition tiny_gru_at :: "real \<Rightarrow> bool \<Rightarrow> bool \<Rightarrow> GRUModel" where
  "tiny_gru_at w t r =
     \<lparr>rnn = \<lparr>input_size = 1, rnn_hidden_size = 1, rnn_num_layers = 1, rnn_dropout = 0, rnn_weights = []\<rparr>,
      fc_out = \<lparr>in_features = 1, out_features = 1, lin_weight = [[w]], lin_bias = [0]\<rparr>,
      gm_d_feat = 1, gm_training = t, gm_requires_grad = r\<rparr>"

definition tiny_mlp_at :: "real \<Rightarrow> bool \<Rightarrow> bool \<Rightarrow> MLPModel" where
  "tiny_mlp_at b t r =
     \<lparr>mlp = [Linear \<lparr>in_features = 6, out_features = 2,
                     lin_weight = [[0, 0, 0, 0, 0, 0], [0, 0, 0, 0, 0, 0]], lin_bias = [b, b]\<rparr>],
      mlp_training = t, mlp_requires_grad = r\<rparr>"

definition tiny_long :: "nat \<Rightarrow> TCTS" where
  "tiny_long N = tiny_self\<lparr>n_epochs := N\<rparr>"

definition tiny_heap :: "GRUModel \<Rightarrow> (nat \<Rightarrow> GRUModel) \<Rightarrow> nat \<Rightarrow> MLPModel \<Rightarrow> mem" where
  "tiny_heap g old n w =
     \<lparr>gru_heap = old(0 := g), gru_next = n, mlp_heap = (\<lambda>a. tiny_mlp)(0 := w), mlp_next = 1,
      rng_seed = None\<rparr>"

definition tiny_ds :: dataset where
  "tiny_ds =
     \<lparr>x_train = [[1], [2]], y_train = [[0, 1], [0, 3]],
      x_valid = [[1], [2]], y_valid = [[0, 1], [0, 3]],
      x_test = [[1], [2]], y_test = [[0, 1], [0, 3]]\<rparr>"

definition tiny_short_ds :: dataset where
  "tiny_short_ds = tiny_ds\<lparr>x_valid := [[1]], y_valid := [[0, 1]]\<rparr>"

text \<open>
  The states at the end of the first two epochs of a fit of the small instance, and a
  disk with no file.
\<close>

definition tiny_epoch0 :: "TCTS \<times> mem" where
  "tiny_epoch0 =
     (tiny_long 3, tiny_heap (tiny_gru_at 2 False False) ((\<lambda>a. tiny_gru)(1 := tiny_gru_at 1 True True)) 2
                     (tiny_mlp_at 1 True True))"

definition tiny_epoch1 :: "TCTS \<times> mem" where
  "tiny_epoch1 =
     (tiny_long 3, tiny_heap (tiny_gru_at 3 False False)
                     ((\<lambda>a. tiny_gru)(1 := tiny_gru_at 1 True True, 2 := tiny_gru_at 2 False False)) 3
                     (tiny_mlp_at 2 True True))"

definition tiny_disk :: files where
  "tiny_disk = (\<lambda>path. None)"

text \<open>
  A store of three recorders: two of experiment \<open>A\<close>, the second of them online, and
  one of experiment \<open>B\<close>.
\<close>

definition rec_a1 :: recorder where
  "rec_a1 = \<lparr>rec_experiment = ''A'', rec_id = ''1''\<rparr>"

definition rec_a2 :: recorder where
  "rec_a2 = \<lparr>rec_experiment = ''A'', rec_id = ''2''\<rparr>"

definition rec_b1 :: recorder where
  "rec_b1 = \<lparr>rec_experiment = ''B'', rec_id = ''1''\<rparr>"

definition tiny_store :: store where
  "tiny_store =
     [(rec_a1, (\<lambda>k. None)),
      (rec_a2, (\<lambda>k. if k = ''online_status'' then Some ''online'' else None)),
      (rec_b1, (\<lambda>k. None))]"

section \<open>Properties of the tensor operations\<close>

lemma bindE_Inr [simp]: "bindE (Inr x) f = f x"
  by (simp add: bindE_def)

lemma bindE_Inl [simp]: "bindE (Inl e) f = Inl e"
  by (simp add: bindE_def)

lemma bindE_eq_Inr: "bindE m f = Inr y \<longleftrightarrow> (\<exists>x. m = Inr x \<and> f x = Inr y)"
  by (cases m) simp_all

lemma is_matrix_nth: "is_matrix n d m \<Longrightarrow> j < n \<Longrightarrow> length (m ! j) = d"
  by (auto simp: is_matrix_def list_all_length)

lemma is_matrix_length: "is_matrix n d m \<Longrightarrow> length m = n"
  by (simp add: is_matrix_def)







lemma mean_map_upt:
  assumes "0 < n"
  shows "mean (map f [0..<n]) = Fin ((\<Sum>j<n. f j) / real n)"
proof -
  have "sum_list (map f [0..<n]) = (\<Sum>j<n. f j)"
    by (simp add: sum_list_sum_nth atLeast0LessThan)
  then show ?thesis using assms by (simp add: mean_def)
qed


section \<open>The small instance, evaluated\<close>

lemma upt2: "[0..<2] = [0, 1]"
  by (simp add: upt_rec numeral_2_eq_2)


lemma tiny_weight_input:
  "weight_input [[1], [2]] (T2 [[0, 1], [0, 3]]) (T1 [1, 2]) =
     Inr [[1, 1, 0, 0, 1, 1], [2, 2, -1, 0, 3, 2]]"
  by (simp add: weight_input_def transpose01_def ncols_def t_sub_def bc_vec_def upt2)



section \<open>Phase A: the loss that trains the Forecast Network\<close>



section \<open>The Weight Network's forward pass\<close>

lemma layer_forward_length: "layer_forward tr keep l x = Inr y \<Longrightarrow> length y = length x"
  by (cases l) (auto simp: linear_forward_def dropout_train_def split: if_splits)

lemma Sequential_forward_length:
  "Sequential_forward tr keep k ls x = Inr y \<Longrightarrow> length y = length x"
proof (induction ls arbitrary: k x)
  case Nil
  then show ?case by simp
next
  case (Cons l ls)
  then obtain z where z: "layer_forward tr (keep k) l x = Inr z"
    and r: "Sequential_forward tr keep (Suc k) ls z = Inr y"
    by (auto simp: bindE_eq_Inr)
  show ?case using Cons.IH [OF r] layer_forward_length [OF z] by simp
qed

lemma squeeze_single_row: "length m = 1 \<Longrightarrow> squeeze m \<noteq> T2 m'"
  by (auto simp: squeeze_def split: list.splits)

lemma squeeze_T2: "squeeze m = T2 m' \<Longrightarrow> m' = m \<and> length m \<noteq> 1 \<and> \<not> list_all (\<lambda>r. length r = 1) m"
  by (auto simp: squeeze_def split: if_splits list.splits)

lemma Softmax_dim1_Inr: "Softmax_dim1 t = Inr w \<longleftrightarrow> (\<exists>m. t = T2 m \<and> w = map softmax_row m)"
  by (cases t) (auto simp: Softmax_dim1_def)

lemma Softmax_dim1_error: "Softmax_dim1 t = Inl e \<Longrightarrow> e = IndexError"
  by (cases t) (auto simp: Softmax_dim1_def)

lemma MLPModel_forward_Inr:
  "MLPModel_forward keep m x = Inr w \<longleftrightarrow>
     (\<exists>out. Sequential_forward (mlp_training m) keep 0 (mlp m) x = Inr out \<and>
            squeeze out = T2 out \<and> w = map softmax_row out)"
  using squeeze_T2 by (auto simp: MLPModel_forward_def bindE_eq_Inr Softmax_dim1_Inr)

lemma MLPModel_forward_single_sample: "MLPModel_forward keep m [r] \<noteq> Inr w"
proof
  assume "MLPModel_forward keep m [r] = Inr w"
  then obtain out where o: "Sequential_forward (mlp_training m) keep 0 (mlp m) [r] = Inr out"
    and s: "squeeze out = T2 out"
    by (auto simp: MLPModel_forward_Inr)
  have "length out = 1" using Sequential_forward_length [OF o] by simp
  then show False using s squeeze_single_row by blast
qed







lemma tiny_mlp_init:
  "MLPModel_init (mlp_init tiny_env) 3 2 1 0 2 =
     Inr \<lparr>mlp = [Linear \<lparr>in_features = 3, out_features = 2,
                          lin_weight = [[0, 0, 0], [0, 0, 0]], lin_bias = [0, 0]\<rparr>,
                  ReLU,
                  Linear \<lparr>in_features = 2, out_features = 2,
                          lin_weight = [[0, 0], [0, 0]], lin_bias = [0, 0]\<rparr>],
          mlp_training = True, mlp_requires_grad = True\<rparr>"
  by (simp add: MLPModel_init_def mlp_block_def nn_Linear_def tiny_env_def upt_rec numeral_2_eq_2 numeral_3_eq_3)

text \<open>
  Claim C6. For any input batch the Weight Network returns a probability distribution
  per sample. The forward pass squeezes the output of the last layer before the
  softmax over dimension 1, so a batch of one sample reaches the softmax as a tensor
  of rank 1 and the pass raises an IndexError: the first equation runs
  \<open>MLPModel(d_feat=3, hidden_size=2, num_layers=1, dropout=0.0, output_dim=2)\<close> on the
  batch \<open>[[1, 2, 3]]\<close>, the second on a batch of two samples, where it returns the
  distribution \<open>(1/2, 1/2)\<close> for each. The lemmas above give the general facts: no
  batch of one sample gets an answer, and every answer is a distribution.
\<close>

theorem MLPModel_forward_one_sample_fails:
  "bindE (MLPModel_init (mlp_init tiny_env) 3 2 1 0 2) (\<lambda>m. MLPModel_forward no_mask m [[1, 2, 3]])
     = Inl IndexError \<and>
   bindE (MLPModel_init (mlp_init tiny_env) 3 2 1 0 2) (\<lambda>m. MLPModel_forward no_mask m [[1, 2, 3], [4, 5, 6]])
     = Inr [[1 / 2, 1 / 2], [1 / 2, 1 / 2]]"
  unfolding tiny_mlp_init bindE_Inr
  by (simp add: MLPModel_forward_def linear_forward_def dot_def squeeze_def
      Softmax_dim1_def softmax_row_def)

section \<open>The width of the Weight Network's input\<close>

lemma mapE_Inr:
  "mapE f xs = Inr ys \<Longrightarrow> length ys = length xs \<and> (\<forall>i<length xs. f (xs ! i) = Inr (ys ! i))"
proof (induction xs arbitrary: ys)
  case Nil
  then show ?case by simp
next
  case (Cons x xs)
  then obtain y ys' where y: "f x = Inr y" and r: "mapE f xs = Inr ys'" and ys: "ys = y # ys'"
    by (auto simp: bindE_eq_Inr)
  show ?case using Cons.IH [OF r] y ys by (auto simp: nth_Cons split: nat.splits)
qed

lemma is_matrix_ncols: "is_matrix n d m \<Longrightarrow> 0 < n \<Longrightarrow> ncols m = d"
  by (cases m) (auto simp: is_matrix_def ncols_def)

lemma is_matrixI: "length m = n \<Longrightarrow> (\<And>i. i < n \<Longrightarrow> length (m ! i) = d) \<Longrightarrow> is_matrix n d m"
  by (auto simp: is_matrix_def list_all_length)

lemma torch_cat1_two:
  "torch_cat1 [a, b] = Inr r \<Longrightarrow> length a = length b \<and> r = map (\<lambda>(x, y). x @ y) (zip a b)"
  by (auto split: if_splits)

lemma torch_cat1_four:
  assumes "torch_cat1 [a, b, c, e] = Inr r"
  shows "length r = length a \<and> length b = length a \<and> length c = length a \<and> length e = length a \<and>
         (\<forall>i<length a. r ! i = a ! i @ b ! i @ c ! i @ e ! i)"
proof -
  obtain r1 where r1: "torch_cat1 [b, c, e] = Inr r1" and a: "length a = length r1"
    and r: "r = map (\<lambda>(x, y). x @ y) (zip a r1)"
    using assms by (auto simp: bindE_eq_Inr split: if_splits)
  obtain r2 where r2: "torch_cat1 [c, e] = Inr r2" and b: "length b = length r2"
    and r1': "r1 = map (\<lambda>(x, y). x @ y) (zip b r2)"
    using r1 by (auto simp: bindE_eq_Inr split: if_splits)
  have c: "length c = length e" and r2': "r2 = map (\<lambda>(x, y). x @ y) (zip c e)"
    using torch_cat1_two [OF r2] by auto
  show ?thesis using a b c r r1' r2' by auto
qed

lemma transpose01_T2:
  "transpose01 (T2 m) = Inr (T2 (map (\<lambda>j. map (\<lambda>r. r ! j) m) [0..<ncols m]))"
  by (simp add: transpose01_def)

lemma view_col_rows: "r \<in> set (view_col p) \<Longrightarrow> length r = 1"
  by (cases p) auto

lemma t_sub_rank2_rows:
  assumes "t_sub p (T2 m) = Inr dis" and "\<forall>pm. p \<noteq> T2 pm"
  shows "\<exists>dm. dis = T2 dm \<and> length dm = length m"
proof (cases p)
  case (T0 a)
  then show ?thesis using assms by (auto simp: t_sub_def)
next
  case (T1 xs)
  then obtain dm where "mapE (bc_vec (\<lambda>x y. x - y) xs) m = Inr dm" and "dis = T2 dm"
    using assms by (auto simp: t_sub_def bindE_eq_Inr)
  then show ?thesis using mapE_Inr by blast
next
  case (T2 pm)
  then show ?thesis using assms by simp
qed

lemma weight_input_width:
  assumes feat: "is_matrix n f feature" and lab: "is_matrix n d l" and n: "0 < n"
      and p: "\<forall>pm. p \<noteq> T2 pm"
      and wi: "weight_input feature (T2 l) p = Inr wx"
  shows "is_matrix n (f + 2 * d + 1) wx"
proof -
  let ?lt = "map (\<lambda>j. map (\<lambda>r. r ! j) l) [0..<ncols l]"
  have nc: "ncols l = d" using is_matrix_ncols [OF lab n] .
  obtain dis dist where dis: "t_sub p (T2 ?lt) = Inr dis" and dist: "transpose01 dis = Inr dist"
    and cat: "(case dist of T2 dd \<Rightarrow> torch_cat1 [feature, dd, l, view_col p] | _ \<Rightarrow> Inl IndexError) = Inr wx"
    using wi by (auto simp: weight_input_def transpose01_T2 bindE_eq_Inr simp del: torch_cat1.simps)
  obtain dm where dm: "dis = T2 dm" and ldm: "length dm = d"
    using t_sub_rank2_rows [OF dis p] nc by auto
  let ?dd = "map (\<lambda>j. map (\<lambda>r. r ! j) dm) [0..<ncols dm]"
  have dist': "dist = T2 ?dd" using dist dm by (simp add: transpose01_T2)
  have cat': "torch_cat1 [feature, ?dd, l, view_col p] = Inr wx"
    using cat dist' by (simp del: torch_cat1.simps)
  have lens: "length wx = length feature" "length ?dd = length feature" "length (view_col p) = length feature"
    and rows: "\<forall>i<length feature. wx ! i = feature ! i @ ?dd ! i @ l ! i @ view_col p ! i"
    using torch_cat1_four [OF cat'] by auto
  have lf: "length feature = n" using feat by (simp add: is_matrix_def)
  show ?thesis
  proof (rule is_matrixI)
    show "length wx = n" using lens lf by simp
  next
    fix i assume i: "i < n"
    have a: "length (feature ! i) = f" using is_matrix_nth [OF feat i] .
    have b: "length (?dd ! i) = d" using i lens lf ldm by simp
    have c: "length (l ! i) = d" using is_matrix_nth [OF lab i] .
    have "view_col p ! i \<in> set (view_col p)" using i lens lf by simp
    then have e: "length (view_col p ! i) = 1" by (rule view_col_rows)
    show "length (wx ! i) = f + 2 * d + 1" using rows i lf a b c e by simp
  qed
qed

lemma MLPModel_init_first_layer:
  assumes "MLPModel_init rnd df h (Suc k) p od = Inr w"
  shows "\<exists>l ls. mlp w = Linear l # ls \<and> in_features l = df"
proof -
  obtain blocks where b: "mapE (mlp_block rnd df h p) [0..<Suc k] = Inr blocks"
    and w: "mlp w = concat blocks @ [Linear (nn_Linear (fst rnd (Suc k)) (snd rnd (Suc k)) h od)]"
    using assms by (auto simp: MLPModel_init_def bindE_eq_Inr)
  have "[0..<Suc k] = 0 # [1..<Suc k]" by (simp add: upt_rec)
  then obtain bs where "blocks = [Linear (nn_Linear (fst rnd 0) (snd rnd 0) df h), ReLU] # bs"
    using b by (auto simp: bindE_eq_Inr mlp_block_def)
  then show ?thesis using w by (simp add: nn_Linear_def)
qed

lemma MLPModel_forward_wrong_width:
  assumes "mlp w = Linear l # ls" and "x \<noteq> []" and "\<forall>r \<in> set x. length r \<noteq> in_features l"
  shows "MLPModel_forward keep w x = Inl RuntimeError"
proof -
  obtain r rs where "x = r # rs" using assms(2) by (cases x) auto
  then have "linear_forward l x = Inl RuntimeError"
    using assms(3) by (simp add: linear_forward_def)
  then show ?thesis using assms(1) by (simp add: MLPModel_forward_def)
qed

section \<open>Construction fixes the width of the Weight Network\<close>

lemma make_optimizer_target: "make_optimizer name lr t = Inr opt \<Longrightarrow> opt_target opt = t"
  by (auto simp: make_optimizer_def split: if_splits)

lemma finish_init_Inr:
  assumes "finish_init a fa wa = Inr self"
  shows "fore_model self = fa \<and> weight_model self = wa \<and> \<not> fitted self \<and>
         opt_target (fore_optimizer self) = fa \<and> opt_target (weight_optimizer self) = wa \<and>
         hyper.truncate self = hyper.truncate a"
  using assms make_optimizer_target
  by (auto simp: finish_init_def bindE_eq_Inr hyper.extend_def hyper.truncate_def TCTS.fields_def)

lemma TCTS_init_Inr:
  assumes "TCTS_init env a m0 = (m, Inr self)"
  shows "\<exists>g w. GRUModel_init env (d_feat a) (hidden_size a) (num_layers a) (dropout a) = Inr g \<and>
           MLPModel_init (mlp_init env) (360 + 2 * output_dim a + 1) (hidden_size a)
             (num_layers a) (dropout a) (output_dim a) = Inr w \<and>
           fore_model self = gru_next m0 \<and> weight_model self = mlp_next m0 \<and>
           gru_heap m (fore_model self) = g \<and> mlp_heap m (weight_model self) = w \<and>
           gru_next m = Suc (gru_next m0) \<and> mlp_next m = Suc (mlp_next m0) \<and>
           finish_init a (gru_next m0) (mlp_next m0) = Inr self"
proof -
  obtain m1 where seed: "set_seed (seed a) m0 = Inr m1" and b: "build_fore_model env a m1 = (m, Inr self)"
    using assms by (auto simp: TCTS_init_def split: sum.splits)
  have n: "gru_next m1 = gru_next m0" "mlp_next m1 = mlp_next m0"
    using seed by (auto simp: set_seed_def split: option.splits if_splits)
  obtain g where g: "GRUModel_init env (d_feat a) (hidden_size a) (num_layers a) (dropout a) = Inr g"
    and bw: "build_weight_model env a (fst (new_gru g m1)) (snd (new_gru g m1)) = (m, Inr self)"
    using b by (auto simp: build_fore_model_def split: sum.splits)
  obtain w where w: "MLPModel_init (mlp_init env) (360 + 2 * output_dim a + 1) (hidden_size a)
             (num_layers a) (dropout a) (output_dim a) = Inr w"
    and m: "m = snd (new_mlp w (snd (new_gru g m1)))"
    and f: "finish_init a (fst (new_gru g m1)) (fst (new_mlp w (snd (new_gru g m1)))) = Inr self"
    using bw by (auto simp: build_weight_model_def split: sum.splits)
  have f': "finish_init a (gru_next m0) (mlp_next m0) = Inr self"
    using f n by (simp add: new_gru_def new_mlp_def)
  show ?thesis
    using g w f' finish_init_Inr [OF f'] by (simp add: m new_gru_def new_mlp_def n)
qed

text \<open>
  Claim C10. Whatever the configuration, and whatever its feature dimension \<open>d_feat\<close>,
  the constructor gives the Weight Network the input width \<open>360 + 2 * output_dim + 1\<close>,
  while the trainer feeds it rows made of the \<open>f\<close> raw features of a sample, its
  \<open>output_dim\<close> residuals, its \<open>output_dim\<close> labels and one prediction: rows of
  width \<open>f + 2 * output_dim + 1\<close>. So the forward pass of the Weight Network of a
  newly constructed model raises (a RuntimeError, at its first linear layer) on every
  batch whose feature width \<open>f\<close> is not 360. The network has at least one hidden
  layer (\<open>num_layers\<close> is positive, as the recurrent encoder needs), \<open>p\<close> is a
  prediction (rank 0 or 1), and the label rows have \<open>output_dim\<close> entries.
\<close>

theorem weight_network_needs_width_360:
  assumes init: "TCTS_init env a m0 = (m, Inr self)"
      and layers: "0 < num_layers a"
      and feat: "is_matrix n f feature" and lab: "is_matrix n (output_dim a) l" and n: "0 < n"
      and p: "\<forall>pm. p \<noteq> T2 pm"
      and wi: "weight_input feature (T2 l) p = Inr wx"
  shows "is_matrix n (f + 2 * output_dim a + 1) wx \<and>
         (f \<noteq> 360 \<longrightarrow> MLPModel_forward keep (mlp_heap m (weight_model self)) wx = Inl RuntimeError)"
proof
  show w: "is_matrix n (f + 2 * output_dim a + 1) wx"
    using weight_input_width [OF feat lab n p wi] .
  show "f \<noteq> 360 \<longrightarrow> MLPModel_forward keep (mlp_heap m (weight_model self)) wx = Inl RuntimeError"
  proof
    assume f: "f \<noteq> 360"
    obtain k where k: "num_layers a = Suc k" using layers by (cases "num_layers a") auto
    obtain wm where wm: "MLPModel_init (mlp_init env) (360 + 2 * output_dim a + 1) (hidden_size a)
             (Suc k) (dropout a) (output_dim a) = Inr wm"
      and heap: "mlp_heap m (weight_model self) = wm"
      using TCTS_init_Inr [OF init] k by auto
    obtain ly ls where ly: "mlp wm = Linear ly # ls" "in_features ly = 360 + 2 * output_dim a + 1"
      using MLPModel_init_first_layer [OF wm] by auto
    have ne: "wx \<noteq> []" using w n by (auto simp: is_matrix_def)
    have "\<forall>r \<in> set wx. length r \<noteq> in_features ly"
      using w f ly by (auto simp: is_matrix_def list_all_iff)
    then show "MLPModel_forward keep (mlp_heap m (weight_model self)) wx = Inl RuntimeError"
      using MLPModel_forward_wrong_width [OF ly(1) ne] heap by simp
  qed
qed

lemma lower_adam: "lower ''adam'' = ''adam''" and lower_gd: "lower ''gd'' = ''gd''"
  by (simp_all add: lower_def lower_char_def)

lemma tiny_init_ok: "\<exists>m self. TCTS_init tiny_env tiny_args tiny_mem = (m, Inr self)"
  by (simp add: TCTS_init_def build_fore_model_def build_weight_model_def GRUModel_init_def
      MLPModel_init_def mlp_block_def finish_init_def make_optimizer_def lower_adam lower_gd
      tiny_env_def tiny_args_def set_seed_def)

theorem weight_network_needs_width_360_witness:
  "\<exists>m self. TCTS_init tiny_env tiny_args tiny_mem = (m, Inr self) \<and>
     is_matrix 2 6 [[1, 1, 0, 0, 1, 1], [2, 2, -1, 0, 3, 2]] \<and>
     MLPModel_forward no_mask (mlp_heap m (weight_model self))
       [[1, 1, 0, 0, 1, 1], [2, 2, -1, 0, 3, 2]] = Inl RuntimeError"
proof -
  obtain m self where init: "TCTS_init tiny_env tiny_args tiny_mem = (m, Inr self)"
    using tiny_init_ok by blast
  have a: "0 < num_layers tiny_args" "output_dim tiny_args = 2" by (simp_all add: tiny_args_def)
  have feat: "is_matrix 2 1 [[1], [2::real]]" by (simp add: is_matrix_def)
  have lab: "is_matrix 2 (output_dim tiny_args) [[0, 1], [0, 3::real]]"
    by (simp add: is_matrix_def a)
  have p: "\<forall>pm. T1 [1, 2] \<noteq> T2 pm" by simp
  show ?thesis
    using weight_network_needs_width_360 [OF init a(1) feat lab _ p tiny_weight_input, of no_mask] init a(2)
    by auto
qed

section \<open>Phase B: the loss that trains the Weight Network\<close>

lemma select_col_matrix:
  assumes "is_matrix n d l" "h < d"
  shows "select_col (T2 l) h = Inr (T1 (map (\<lambda>j. l ! j ! h) [0..<n]))"
proof -
  have len: "length l = n" using assms by (simp add: is_matrix_def)
  have "list_all (\<lambda>r. h < length r) l" using assms by (auto simp: is_matrix_def list_all_iff)
  moreover have "map (\<lambda>r. r ! h) l = map (\<lambda>j. l ! j ! h) [0..<n]"
    using len by (intro nth_equalityI) auto
  ultimately show ?thesis by (simp add: select_col_def)
qed

lemma t_sub_vectors:
  assumes "length p = n"
  shows "t_sub (T1 p) (T1 (map f [0..<n])) = Inr (T1 (map (\<lambda>j. p ! j - f j) [0..<n]))"
proof -
  have "map (\<lambda>(x, y). x - y) (zip p (map f [0..<n])) = map (\<lambda>j. p ! j - f j) [0..<n]"
    using assms by (intro nth_equalityI) auto
  then show ?thesis using assms by (simp add: t_sub_def bc_vec_def)
qed

lemma float32_max_ge: "2 ^ 127 \<le> float32_max"
proof -
  have "(1::real) \<le> 2 - 1 / 2 ^ 23" by simp
  then have "1 * (2::real) ^ 127 \<le> (2 - 1 / 2 ^ 23) * 2 ^ 127"
    by (intro mult_right_mono) simp_all
  then show ?thesis by (simp add: float32_max_def)
qed

lemma float32_small: "x \<le> 1000 \<Longrightarrow> x \<le> float32_max"
proof -
  assume "x \<le> 1000"
  moreover have "(1000::real) \<le> 2 ^ 127" by simp
  ultimately show ?thesis using float32_max_ge by linarith
qed


lemma float32_mean_squares_upt:
  assumes "0 < n"
  shows "float32_mean_squares (T1 (map f [0..<n])) =
           (if float32_max < (\<Sum>j<n. (f j) ^ 2) then PosInf else Fin ((\<Sum>j<n. (f j) ^ 2) / real n))"
proof -
  have "sum_list (map (\<lambda>j. (f j) ^ 2) [0..<n]) = (\<Sum>j<n. (f j) ^ 2)"
    by (simp add: sum_list_sum_nth atLeast0LessThan)
  then show ?thesis
    using mean_map_upt [OF assms, of "\<lambda>j. (f j) ^ 2"]
    by (simp add: float32_mean_squares_def torch_mean_def comp_def)
qed

lemma squared_error_value:
  assumes p: "length p = n" and l: "is_matrix n d l" and h: "h < d" and n: "0 < n"
  shows "squared_error (T1 p) (T2 l) h =
           Inr (if float32_max < (\<Sum>j<n. (p ! j - l ! j ! h) ^ 2) then PosInf
                else Fin (mse_at n p l h))"
  using select_col_matrix [OF l h] t_sub_vectors [OF p, of "\<lambda>j. l ! j ! h"]
    float32_mean_squares_upt [OF n, of "\<lambda>j. p ! j - l ! j ! h"]
  by (simp add: squared_error_def mse_at_def mean_over_def)

lemma squared_error_eq:
  assumes p: "length p = n" and l: "is_matrix n d l" and h: "h < d" and n: "0 < n"
      and r: "(\<Sum>j<n. (p ! j - l ! j ! h) ^ 2) \<le> float32_max"
  shows "squared_error (T1 p) (T2 l) h = Inr (Fin (mse_at n p l h))"
  using squared_error_value [OF p l h n] r by simp











lemma lessThan_2: "{..<2::nat} = {0, 1}"
  by auto




section \<open>Construction with an unsupported optimizer\<close>

lemma make_optimizer_unsupported:
  "lower name \<notin> {''adam'', ''gd''} \<Longrightarrow> make_optimizer name lr t = Inl NotImplementedError"
  by (simp add: make_optimizer_def)

lemma make_optimizer_supported:
  "lower name \<in> {''adam'', ''gd''} \<Longrightarrow> 0 \<le> lr \<Longrightarrow> \<exists>opt. make_optimizer name lr t = Inr opt"
  by (auto simp: make_optimizer_def)

lemma make_optimizer_negative:
  "lower name \<in> {''adam'', ''gd''} \<Longrightarrow> lr < 0 \<Longrightarrow> make_optimizer name lr t = Inl ValueError"
  by (auto simp: make_optimizer_def)

lemma make_optimizer_names:
  "make_optimizer name lr t = Inr opt \<Longrightarrow> lower name \<in> {''adam'', ''gd''}"
  by (auto simp: make_optimizer_def split: if_splits)

lemma finish_init_fails:
  assumes "lower (fore_optimizer_name a) \<notin> {''adam'', ''gd''} \<or>
           lower (weight_optimizer_name a) \<notin> {''adam'', ''gd''}"
  shows "isl (finish_init a fa wa)"
proof (cases "finish_init a fa wa")
  case (Inl e)
  then show ?thesis by simp
next
  case (Inr self)
  then obtain fo wo where "make_optimizer (fore_optimizer_name a) (fore_lr a) fa = Inr fo"
    and "make_optimizer (weight_optimizer_name a) (weight_lr a) wa = Inr wo"
    by (auto simp: finish_init_def bindE_eq_Inr)
  then show ?thesis using assms make_optimizer_names by blast
qed

lemma finish_init_unsupported:
  assumes "lower (fore_optimizer_name a) \<notin> {''adam'', ''gd''} \<or>
           lower (weight_optimizer_name a) \<notin> {''adam'', ''gd''}"
      and "lower (fore_optimizer_name a) \<in> {''adam'', ''gd''} \<longrightarrow> 0 \<le> fore_lr a"
  shows "finish_init a fa wa = Inl NotImplementedError"
proof (cases "lower (fore_optimizer_name a) \<in> {''adam'', ''gd''}")
  case False
  then show ?thesis
    using make_optimizer_unsupported [of "fore_optimizer_name a"] by (simp add: finish_init_def)
next
  case True
  then obtain fo where "make_optimizer (fore_optimizer_name a) (fore_lr a) fa = Inr fo"
    using assms(2) make_optimizer_supported by blast
  moreover have "lower (weight_optimizer_name a) \<notin> {''adam'', ''gd''}"
    using assms(1) True by blast
  ultimately show ?thesis
    using make_optimizer_unsupported [of "weight_optimizer_name a"] by (simp add: finish_init_def)
qed

lemma finish_init_negative_lr:
  assumes "lower (fore_optimizer_name a) \<in> {''adam'', ''gd''}" and "fore_lr a < 0"
  shows "finish_init a fa wa = Inl ValueError"
  using make_optimizer_negative [OF assms] by (simp add: finish_init_def)

lemma TCTS_init_built:
  assumes "set_seed (seed a) m0 = Inr m1"
      and "GRUModel_init env (d_feat a) (hidden_size a) (num_layers a) (dropout a) = Inr g"
      and "MLPModel_init (mlp_init env) (360 + 2 * output_dim a + 1) (hidden_size a)
             (num_layers a) (dropout a) (output_dim a) = Inr w"
  shows "TCTS_init env a m0 =
           (snd (new_mlp w (snd (new_gru g m1))), finish_init a (gru_next m0) (mlp_next m0))"
proof -
  have "gru_next m1 = gru_next m0" "mlp_next m1 = mlp_next m0"
    using assms(1) by (auto simp: set_seed_def split: option.splits if_splits)
  then show ?thesis
    using assms
    by (simp add: TCTS_init_def build_fore_model_def build_weight_model_def new_gru_def new_mlp_def)
qed

lemma TCTS_init_fails:
  assumes "lower (fore_optimizer_name a) \<notin> {''adam'', ''gd''} \<or>
           lower (weight_optimizer_name a) \<notin> {''adam'', ''gd''}"
  shows "isl (snd (TCTS_init env a m0))"
  using finish_init_fails [OF assms]
  by (auto simp: TCTS_init_def build_fore_model_def build_weight_model_def
      split: sum.splits)

text \<open>
  Claim C3, as amended. When the name of either optimizer, in lower case, is neither
  \<open>adam\<close> nor \<open>gd\<close>, the constructor raises and returns no model. The check comes
  after the seeding and after the two networks are built, and the check of the second
  name after the first optimizer is built. So the exception is the
  NotImplementedError whenever the steps before the failing check succeed: the seed
  is accepted, both network constructors succeed and, if the first name is a supported
  one, its learning rate is not negative. The memory the failed call then leaves
  behind holds the seed and the two networks it allocated on the way.
\<close>

theorem TCTS_init_unsupported_optimizer:
  assumes "lower (fore_optimizer_name a) \<notin> {''adam'', ''gd''} \<or>
           lower (weight_optimizer_name a) \<notin> {''adam'', ''gd''}"
  shows "isl (snd (TCTS_init env a m0)) \<and>
         (\<forall>m1 g w. set_seed (seed a) m0 = Inr m1 \<and>
                GRUModel_init env (d_feat a) (hidden_size a) (num_layers a) (dropout a) = Inr g \<and>
                MLPModel_init (mlp_init env) (360 + 2 * output_dim a + 1) (hidden_size a)
                  (num_layers a) (dropout a) (output_dim a) = Inr w \<and>
                (lower (fore_optimizer_name a) \<in> {''adam'', ''gd''} \<longrightarrow> 0 \<le> fore_lr a) \<longrightarrow>
                snd (TCTS_init env a m0) = Inl NotImplementedError \<and>
                fst (TCTS_init env a m0) = snd (new_mlp w (snd (new_gru g m1))) \<and>
                gru_next (fst (TCTS_init env a m0)) = Suc (gru_next m0) \<and>
                mlp_next (fst (TCTS_init env a m0)) = Suc (mlp_next m0) \<and>
                gru_heap (fst (TCTS_init env a m0)) (gru_next m0) = g \<and>
                mlp_heap (fst (TCTS_init env a m0)) (mlp_next m0) = w)"
proof (intro conjI allI impI)
  show "isl (snd (TCTS_init env a m0))" using TCTS_init_fails [OF assms] .
next
  fix m1 g w
  assume h: "set_seed (seed a) m0 = Inr m1 \<and>
     GRUModel_init env (d_feat a) (hidden_size a) (num_layers a) (dropout a) = Inr g \<and>
     MLPModel_init (mlp_init env) (360 + 2 * output_dim a + 1) (hidden_size a)
       (num_layers a) (dropout a) (output_dim a) = Inr w \<and>
     (lower (fore_optimizer_name a) \<in> {''adam'', ''gd''} \<longrightarrow> 0 \<le> fore_lr a)"
  then have seed: "set_seed (seed a) m0 = Inr m1" by blast
  have n: "gru_next m1 = gru_next m0" "mlp_next m1 = mlp_next m0"
    using seed by (auto simp: set_seed_def split: option.splits if_splits)
  have r: "TCTS_init env a m0 = (snd (new_mlp w (snd (new_gru g m1))), Inl NotImplementedError)"
    using TCTS_init_built [of a m0 m1 env g w] finish_init_unsupported [OF assms] h by simp
  show "snd (TCTS_init env a m0) = Inl NotImplementedError" by (simp add: r)
  show "fst (TCTS_init env a m0) = snd (new_mlp w (snd (new_gru g m1)))" by (simp add: r)
  show "gru_next (fst (TCTS_init env a m0)) = Suc (gru_next m0)"
    by (simp add: r new_gru_def new_mlp_def n)
  show "mlp_next (fst (TCTS_init env a m0)) = Suc (mlp_next m0)"
    by (simp add: r new_gru_def new_mlp_def n)
  show "gru_heap (fst (TCTS_init env a m0)) (gru_next m0) = g"
    by (simp add: r new_gru_def new_mlp_def n)
  show "mlp_heap (fst (TCTS_init env a m0)) (mlp_next m0) = w"
    by (simp add: r new_gru_def new_mlp_def n)
qed

text \<open>
  A step before the check of the names can fail first, and then the exception is that
  step's: an unsupported second name is not reached when the first optimizer refuses
  its learning rate, and no name is reached when the seed is refused.
\<close>

lemma TCTS_init_negative_lr:
  assumes "set_seed (seed a) m0 = Inr m1"
      and "GRUModel_init env (d_feat a) (hidden_size a) (num_layers a) (dropout a) = Inr g"
      and "MLPModel_init (mlp_init env) (360 + 2 * output_dim a + 1) (hidden_size a)
             (num_layers a) (dropout a) (output_dim a) = Inr w"
      and "lower (fore_optimizer_name a) \<in> {''adam'', ''gd''}" and "fore_lr a < 0"
  shows "snd (TCTS_init env a m0) = Inl ValueError"
  using TCTS_init_built [OF assms(1-3)] finish_init_negative_lr [OF assms(4,5)] by simp

lemma TCTS_init_bad_seed:
  assumes "seed a = Some s" and "s < 0 \<or> 2 ^ 32 \<le> s"
  shows "TCTS_init env a m0 = (m0, Inl ValueError)"
  using assms by (auto simp: TCTS_init_def set_seed_def)

lemma tiny_GRUModel_init:
  "GRUModel_init tiny_env 1 1 1 0 =
     Inr \<lparr>rnn = \<lparr>input_size = 1, rnn_hidden_size = 1, rnn_num_layers = 1, rnn_dropout = 0, rnn_weights = []\<rparr>,
          fc_out = nn_Linear (\<lambda>i j. 1) (\<lambda>i. 0) 1 1,
          gm_d_feat = 1, gm_training = True, gm_requires_grad = True\<rparr>"
  by (simp add: GRUModel_init_def tiny_env_def)

lemma tiny_MLPModel_init:
  "MLPModel_init (mlp_init tiny_env) (360 + 2 * 2 + 1) 1 1 0 2 =
     Inr \<lparr>mlp = [Linear (nn_Linear (\<lambda>i j. 0) (\<lambda>i. 0) 365 1), ReLU,
                  Linear (nn_Linear (\<lambda>i j. 0) (\<lambda>i. 0) 1 2)],
          mlp_training = True, mlp_requires_grad = True\<rparr>"
  by (simp add: MLPModel_init_def mlp_block_def tiny_env_def)

theorem TCTS_init_unsupported_optimizer_witness:
  "snd (TCTS_init tiny_env (tiny_args\<lparr>weight_optimizer_name := ''rmsprop''\<rparr>) tiny_mem)
     = Inl NotImplementedError \<and>
   gru_next (fst (TCTS_init tiny_env (tiny_args\<lparr>weight_optimizer_name := ''rmsprop''\<rparr>) tiny_mem)) = 2 \<and>
   mlp_next (fst (TCTS_init tiny_env (tiny_args\<lparr>weight_optimizer_name := ''rmsprop''\<rparr>) tiny_mem)) = 2"
proof -
  let ?a = "tiny_args\<lparr>weight_optimizer_name := ''rmsprop''\<rparr>"
  have h: "lower (fore_optimizer_name ?a) \<notin> {''adam'', ''gd''} \<or>
           lower (weight_optimizer_name ?a) \<notin> {''adam'', ''gd''}"
    by (simp add: tiny_args_def lower_def lower_char_def)
  have g: "GRUModel_init tiny_env (d_feat ?a) (hidden_size ?a) (num_layers ?a) (dropout ?a) =
             Inr \<lparr>rnn = \<lparr>input_size = 1, rnn_hidden_size = 1, rnn_num_layers = 1, rnn_dropout = 0, rnn_weights = []\<rparr>,
                  fc_out = nn_Linear (\<lambda>i j. 1) (\<lambda>i. 0) 1 1,
                  gm_d_feat = 1, gm_training = True, gm_requires_grad = True\<rparr>"
    using tiny_GRUModel_init by (simp add: tiny_args_def)
  have w: "MLPModel_init (mlp_init tiny_env) (360 + 2 * output_dim ?a + 1) (hidden_size ?a)
             (num_layers ?a) (dropout ?a) (output_dim ?a) =
           Inr \<lparr>mlp = [Linear (nn_Linear (\<lambda>i j. 0) (\<lambda>i. 0) 365 1), ReLU,
                  Linear (nn_Linear (\<lambda>i j. 0) (\<lambda>i. 0) 1 2)],
          mlp_training = True, mlp_requires_grad = True\<rparr>"
    using tiny_MLPModel_init by (simp add: tiny_args_def)
  have sd: "set_seed (seed ?a) tiny_mem = Inr tiny_mem"
    by (simp add: set_seed_def tiny_args_def)
  have lr: "lower (fore_optimizer_name ?a) \<in> {''adam'', ''gd''} \<longrightarrow> 0 \<le> fore_lr ?a"
    by (simp add: tiny_args_def)
  have "snd (TCTS_init tiny_env ?a tiny_mem) = Inl NotImplementedError \<and>
        gru_next (fst (TCTS_init tiny_env ?a tiny_mem)) = Suc (gru_next tiny_mem) \<and>
        mlp_next (fst (TCTS_init tiny_env ?a tiny_mem)) = Suc (mlp_next tiny_mem)"
    using TCTS_init_unsupported_optimizer [OF h, of tiny_env tiny_mem] sd g w lr by blast
  moreover have "gru_next tiny_mem = 1" "mlp_next tiny_mem = 1" by (simp_all add: tiny_mem_def)
  ultimately show ?thesis by simp
qed

text \<open>
  The claim as stated fails twice. The name \<open>Adam\<close> is outside the set of \<open>adam\<close>
  and \<open>gd\<close> and is accepted, the comparison being made in lower case. And with the
  unsupported name \<open>sgd\<close> the call raises only after both networks were allocated:
  each heap holds one network more than before.
\<close>

theorem TCTS_init_unsupported_optimizer_counterexample:
  "''Adam'' \<notin> {''adam'', ''gd''} \<and>
   \<not> isl (snd (TCTS_init tiny_env (tiny_args\<lparr>fore_optimizer_name := ''Adam''\<rparr>) tiny_mem)) \<and>
   ''sgd'' \<notin> {''adam'', ''gd''} \<and>
   snd (TCTS_init tiny_env (tiny_args\<lparr>fore_optimizer_name := ''sgd''\<rparr>) tiny_mem)
     = Inl NotImplementedError \<and>
   gru_next tiny_mem = 1 \<and> mlp_next tiny_mem = 1 \<and>
   gru_next (fst (TCTS_init tiny_env (tiny_args\<lparr>fore_optimizer_name := ''sgd''\<rparr>) tiny_mem)) = 2 \<and>
   mlp_next (fst (TCTS_init tiny_env (tiny_args\<lparr>fore_optimizer_name := ''sgd''\<rparr>) tiny_mem)) = 2"
  by (simp add: TCTS_init_def build_fore_model_def build_weight_model_def GRUModel_init_def
      MLPModel_init_def mlp_block_def finish_init_def make_optimizer_def lower_def lower_char_def
      tiny_env_def tiny_args_def tiny_mem_def set_seed_def new_gru_def new_mlp_def)

text \<open>
  On the small instance, with the unsupported second name \<open>rmsprop\<close>: a negative
  learning rate of the first optimizer, or a negative seed, raises the ValueError
  before the name is looked at.
\<close>

lemma TCTS_init_earlier_failures:
  "snd (TCTS_init tiny_env (tiny_args\<lparr>fore_lr := - 1, weight_optimizer_name := ''rmsprop''\<rparr>) tiny_mem)
     = Inl ValueError \<and>
   TCTS_init tiny_env (tiny_args\<lparr>seed := Some (- 1), weight_optimizer_name := ''rmsprop''\<rparr>) tiny_mem
     = (tiny_mem, Inl ValueError)"
  by (simp add: TCTS_init_def build_fore_model_def build_weight_model_def GRUModel_init_def
      MLPModel_init_def mlp_block_def finish_init_def make_optimizer_def lower_def lower_char_def
      tiny_env_def tiny_args_def tiny_mem_def set_seed_def new_gru_def new_mlp_def)

section \<open>Resetting the online tags\<close>

lemma map_fst_set_tags [simp]: "map fst (set_tags r k v st) = map fst st"
  by (induction st) (auto simp: set_tags_def)

lemma map_fst_fold_set_tags [simp]: "map fst (fold (\<lambda>r. set_tags r k v) rs st) = map fst st"
  by (induction rs arbitrary: st) simp_all

lemma map_of_set_tags:
  "map_of (set_tags r k v st) q =
     (case map_of st q of None \<Rightarrow> None | Some t \<Rightarrow> Some (if q = r then t(k := Some v) else t))"
  by (induction st) (auto simp: set_tags_def)

lemma list_tags_set_tags:
  "q \<in> fst ` set st \<Longrightarrow>
     list_tags q (set_tags r k v st) k = (if q = r then Some v else list_tags q st k)"
  by (auto simp: list_tags_def map_of_set_tags split: option.splits dest: weak_map_of_SomeI
      simp: map_of_eq_None_iff)

lemma in_store_set_tags [simp]: "fst ` set (set_tags r k v st) = fst ` set st"
  using map_fst_set_tags [of r k v st] by (metis set_map)

lemma in_store_fold [simp]: "fst ` set (fold (\<lambda>r. set_tags r k v) rs st) = fst ` set st"
  using map_fst_fold_set_tags [of k v rs st] by (metis set_map)

lemma list_tags_fold_set_tags:
  "q \<in> fst ` set st \<Longrightarrow>
     list_tags q (fold (\<lambda>r. set_tags r k v) rs st) k =
       (if q \<in> set rs then Some v else list_tags q st k)"
proof (induction rs arbitrary: st)
  case Nil
  then show ?case by simp
next
  case (Cons r rs)
  have q: "q \<in> fst ` set (set_tags r k v st)" using Cons.prems by simp
  have one: "list_tags q (set_tags r k v st) k = (if q = r then Some v else list_tags q st k)"
    using list_tags_set_tags [OF Cons.prems] .
  show ?case using Cons.IH [OF q] one by (cases "q = r") auto
qed

lemma get_online_tag_set:
  "q \<in> fst ` set st \<Longrightarrow>
     get_online_tag q (set_online_tag tag rs st) =
       (if q \<in> set (as_list rs) then tag else get_online_tag q st)"
  by (simp add: get_online_tag_def set_online_tag_def list_tags_fold_set_tags)

lemma get_online_tag_reset:
  assumes "q \<in> fst ` set st"
  shows "get_online_tag q (reset_online_tag exp_name rs st) =
           (if q \<in> set (as_list rs) then ONLINE_TAG
            else if rec_experiment q = exp_name then OFFLINE_TAG
            else get_online_tag q st)"
proof -
  let ?off = "set_online_tag OFFLINE_TAG (Many (list_recorders exp_name (\<lambda>r. True) st)) st"
  have "q \<in> fst ` set ?off" using assms by (simp add: set_online_tag_def)
  then show ?thesis
    using assms by (auto simp: reset_online_tag_def get_online_tag_set list_recorders_def)
qed

lemma ONLINE_neq_OFFLINE: "OFFLINE_TAG \<noteq> ONLINE_TAG"
  by (simp add: ONLINE_TAG_def OFFLINE_TAG_def)

text \<open>
  Claim C9, as amended. \<open>reset_online_tag\<close> first tags every recorder of the tool's
  experiment offline and then tags the given recorders online: afterwards a recorder
  of the store is online when it was given, offline when it was not given and belongs
  to the experiment, and keeps its tag otherwise; and \<open>online_models\<close> returns the
  recorders of the experiment that were given, in the order \<open>list_recorders\<close> reports
  them. A given recorder of another experiment is tagged online and is not returned.
\<close>

theorem reset_online_tag_online_models:
  "online_models exp_name (reset_online_tag exp_name rs st) =
     filter (\<lambda>r. r \<in> set (as_list rs)) (list_recorders exp_name (\<lambda>r. True) st) \<and>
   (\<forall>q \<in> fst ` set st.
      get_online_tag q (reset_online_tag exp_name rs st) =
        (if q \<in> set (as_list rs) then ONLINE_TAG
         else if rec_experiment q = exp_name then OFFLINE_TAG
         else get_online_tag q st))"
proof
  have keys: "map fst (reset_online_tag exp_name rs st) = map fst st"
    by (simp add: reset_online_tag_def set_online_tag_def)
  show "online_models exp_name (reset_online_tag exp_name rs st) =
     filter (\<lambda>r. r \<in> set (as_list rs)) (list_recorders exp_name (\<lambda>r. True) st)"
    unfolding online_models_def list_recorders_def keys filter_filter
    by (rule filter_cong [OF refl])
       (use get_online_tag_reset ONLINE_neq_OFFLINE in \<open>auto simp: image_iff\<close>)
  show "\<forall>q \<in> fst ` set st.
      get_online_tag q (reset_online_tag exp_name rs st) =
        (if q \<in> set (as_list rs) then ONLINE_TAG
         else if rec_experiment q = exp_name then OFFLINE_TAG
         else get_online_tag q st)"
    using get_online_tag_reset by blast
qed

lemmas tiny_store_defs = tiny_store_def rec_a1_def rec_a2_def rec_b1_def

theorem reset_online_tag_online_models_witness:
  "online_models ''A'' (reset_online_tag ''A'' (One rec_a1) tiny_store) = [rec_a1] \<and>
   get_online_tag rec_a2 (reset_online_tag ''A'' (One rec_a1) tiny_store) = OFFLINE_TAG \<and>
   get_online_tag rec_b1 (reset_online_tag ''A'' (One rec_a1) tiny_store) = OFFLINE_TAG"
proof -
  have l: "list_recorders ''A'' (\<lambda>r. True) tiny_store = [rec_a1, rec_a2]"
    by (simp add: list_recorders_def tiny_store_defs)
  have m: "rec_a2 \<in> fst ` set tiny_store" "rec_b1 \<in> fst ` set tiny_store" "rec_a2 \<noteq> rec_a1"
    "rec_b1 \<noteq> rec_a1" "rec_experiment rec_a2 = ''A''" "rec_experiment rec_b1 \<noteq> ''A''"
    by (simp_all add: tiny_store_defs)
  have b: "get_online_tag rec_b1 tiny_store = OFFLINE_TAG"
    by (simp add: get_online_tag_def list_tags_def tiny_store_defs ONLINE_KEY_def)
  note T = reset_online_tag_online_models [of "''A''" "One rec_a1" tiny_store]
  have t1: "online_models ''A'' (reset_online_tag ''A'' (One rec_a1) tiny_store) = [rec_a1]"
    using T l m by simp
  have all: "\<And>q. q \<in> fst ` set tiny_store \<Longrightarrow>
      get_online_tag q (reset_online_tag ''A'' (One rec_a1) tiny_store) =
        (if q \<in> set (as_list (One rec_a1)) then ONLINE_TAG
         else if rec_experiment q = ''A'' then OFFLINE_TAG
         else get_online_tag q tiny_store)"
    using T by blast
  show ?thesis using t1 all [OF m(1)] all [OF m(2)] m b by simp
qed

text \<open>
  The claim as stated, that \<open>online_models\<close> then returns exactly the given recorders,
  fails when a given recorder belongs to another experiment: the tool of experiment
  \<open>A\<close>, reset to the recorder of experiment \<open>B\<close>, reports no online model, and the
  recorder is online in \<open>B\<close>.
\<close>

theorem reset_online_tag_other_experiment_counterexample:
  "online_models ''A'' (reset_online_tag ''A'' (One rec_b1) tiny_store) = [] \<and>
   get_online_tag rec_b1 (reset_online_tag ''A'' (One rec_b1) tiny_store) = ONLINE_TAG \<and>
   online_models ''B'' (reset_online_tag ''A'' (One rec_b1) tiny_store) = [rec_b1]"
  by (simp add: online_models_def reset_online_tag_def set_online_tag_def list_recorders_def
      set_tags_def get_online_tag_def list_tags_def tiny_store_defs
      ONLINE_KEY_def ONLINE_TAG_def OFFLINE_TAG_def)

section \<open>Prediction in batches\<close>

lemma tiny_forward_eval:
  "GRUModel_forward tiny_env no_mask (tiny_gru\<lparr>gm_training := False\<rparr>) [[a], [b]] = Inr (T1 [a, b])"
  "GRUModel_forward tiny_env no_mask (tiny_gru\<lparr>gm_training := False\<rparr>) [[a]] = Inr (T0 a)"
  by (simp_all add: GRUModel_forward_def tiny_gru_def tiny_env_def reshape_permute_def
      linear_forward_def dot_def squeeze_def enumerate_eq_zip upt_rec)

lemma range_step_3_2: "range_step (Suc (Suc (Suc 0))) 2 = Inr [0, 2]"
proof -
  have "(Suc (Suc (Suc 0)) + 2 - 1) div 2 = (2::nat)" by simp
  then show ?thesis by (simp add: range_step_def upt2)
qed

lemma range_step_4_2: "range_step (Suc (Suc (Suc (Suc 0)))) 2 = Inr [0, 2]"
proof -
  have "(Suc (Suc (Suc (Suc 0))) + 2 - 1) div 2 = (2::nat)" by simp
  then show ?thesis by (simp add: range_step_def upt2)
qed

lemma tiny_fitted_fields:
  "fitted tiny_fitted" "batch_size tiny_fitted = 2" "fore_model tiny_fitted = 0"
  by (simp_all add: tiny_fitted_def tiny_self_def)

lemma tiny_eval_heap: "gru_heap tiny_eval_mem 0 = tiny_gru\<lparr>gm_training := False\<rparr>"
  by (simp add: tiny_eval_mem_def set_fore_flags_def tiny_mem_def)

lemma tiny_predict_batch:
  "predict_batch tiny_env tiny_fitted tiny_eval_mem [[1], [2], [3]] 0 = Inr (T1 [1, 2])"
  "predict_batch tiny_env tiny_fitted tiny_eval_mem [[1], [2], [3]] 2 = Inr (T0 3)"
  "predict_batch tiny_env tiny_fitted tiny_eval_mem [[1], [2], [3], [4]] 0 = Inr (T1 [1, 2])"
  "predict_batch tiny_env tiny_fitted tiny_eval_mem [[1], [2], [3], [4]] 2 = Inr (T1 [3, 4])"
  by (simp_all add: predict_batch_def tiny_fitted_fields tiny_eval_heap slice_def tiny_forward_eval)

text \<open>
  Claim C4. Prediction sizes the trailing batch to the rows that remain, so that every
  row of the input gets an output. When one row remains, the Forecast Network squeezes
  its output of one row and one column to a tensor of rank 0, which \<open>np.concatenate\<close>
  refuses: with three rows and batches of two, \<open>predict\<close> raises a ValueError and
  returns no series. With four rows it returns one value per row, keyed by the index
  in its order.
\<close>

theorem predict_trailing_single_row_fails:
  "predict tiny_env tiny_fitted [(10::nat, [1]), (20, [2]), (30, [3])] tiny_mem = Inl ValueError \<and>
   predict tiny_env tiny_fitted [(10::nat, [1]), (20, [2]), (30, [3]), (40, [4])] tiny_mem
     = Inr ([(10, 1), (20, 2), (30, 3), (40, 4)], tiny_eval_mem)"
  by (simp add: predict_def tiny_fitted_fields tiny_eval_mem_def [symmetric] range_step_3_2
      range_step_4_2 tiny_predict_batch pd_Series_def)

section \<open>Loops over batches\<close>

lemma forE_invariant:
  assumes "\<And>x s s'. x \<in> set xs \<Longrightarrow> body x s = Inr s' \<Longrightarrow> P s \<Longrightarrow> P s'"
      and "P s" and "forE xs body s = Inr s'"
  shows "P s'"
  using assms
proof (induction xs arbitrary: s)
  case Nil
  then show ?case by simp
next
  case (Cons x xs)
  obtain s1 where s1: "body x s = Inr s1" and r: "forE xs body s1 = Inr s'"
    using Cons.prems(3) by (auto simp: bindE_eq_Inr)
  have "P s1" using Cons.prems(1) [OF _ s1 Cons.prems(2)] by simp
  then show ?case using Cons.IH [OF _ _ r] Cons.prems(1) by auto
qed

lemma batch_loop_invariant:
  assumes "\<And>i s s'. body i s = Inr s' \<Longrightarrow> P s \<Longrightarrow> P s'"
      and "P s" and "batch_loop n bs body starts s = Inr s'"
  shows "P s'"
  using assms(2,3)
proof (induction starts arbitrary: s)
  case Nil
  then show ?case by simp
next
  case (Cons i starts)
  show ?case
  proof (cases "n - i < bs")
    case True
    then show ?thesis using Cons.prems by simp
  next
    case False
    then obtain s1 where s1: "body i s = Inr s1" and r: "batch_loop n bs body starts s1 = Inr s'"
      using Cons.prems(2) by (auto simp: bindE_eq_Inr)
    show ?thesis using Cons.IH [OF assms(1) [OF s1 Cons.prems(1)] r] .
  qed
qed

lemma for_batches_invariant:
  assumes step: "\<And>i s s'. body i s = Inr s' \<Longrightarrow> P s \<Longrightarrow> P s'"
      and "P s" and "for_batches n bs body s = Inr s'"
  shows "P s'"
proof -
  obtain starts where "batch_loop n bs body starts s = Inr s'"
    using assms(3) by (auto simp: for_batches_def bindE_eq_Inr)
  then show ?thesis
    using batch_loop_invariant [where P = P and body = body] step assms(2) by blast
qed

text \<open>The training, validation and test passes visit the full batches only.\<close>

lemma full_batch_iff:
  fixes n k bs :: nat
  assumes "0 < bs"
  shows "n - k * bs < bs \<longleftrightarrow> n div bs \<le> k"
proof -
  have "n div bs < Suc k \<longleftrightarrow> n < Suc k * bs"
    using assms by (rule div_less_iff_less_mult)
  moreover have "n - k * bs < bs \<longleftrightarrow> n < Suc k * bs" using assms by auto
  ultimately show ?thesis by auto
qed

lemma batch_loop_full:
  assumes bs: "0 < bs"
  shows "batch_loop n bs body (map (\<lambda>k. k * bs) [j..<c]) s =
           forE (map (\<lambda>k. k * bs) [j..<min c (n div bs)]) body s"
proof (induction "c - j" arbitrary: j s)
  case 0
  then show ?case by simp
next
  case (Suc d)
  then have jc: "j < c" by simp
  then have l: "[j..<c] = j # [Suc j..<c]" by (simp add: upt_rec)
  show ?case
  proof (cases "j < n div bs")
    case True
    then have r: "[j..<min c (n div bs)] = j # [Suc j..<min c (n div bs)]"
      using jc by (simp add: upt_rec)
    have nb: "\<not> n - j * bs < bs" using full_batch_iff [OF bs, of n j] True by simp
    have d: "d = c - Suc j" using Suc.hyps(2) by simp
    have "batch_loop n bs body (map (\<lambda>k. k * bs) [Suc j..<c]) =
          forE (map (\<lambda>k. k * bs) [Suc j..<min c (n div bs)]) body"
      by (rule ext) (rule Suc.hyps(1) [OF d])
    then show ?thesis using nb by (simp add: l r)
  next
    case False
    then have r: "[j..<min c (n div bs)] = []" by simp
    have "n - j * bs < bs" using full_batch_iff [OF bs, of n j] False by simp
    then show ?thesis by (simp add: l r)
  qed
qed

lemma ceil_ge_floor: "0 < bs \<Longrightarrow> n div bs \<le> (n + bs - 1) div (bs::nat)"
  by (intro div_le_mono) simp

lemma for_batches_full:
  assumes "0 < bs"
  shows "for_batches n bs body s = forE (map (\<lambda>k. k * bs) [0..<n div bs]) body s"
  using batch_loop_full [OF assms, of n body 0 "(n + bs - 1) div bs" s] ceil_ge_floor [OF assms, of n] assms
  by (simp add: for_batches_def range_step_def min_absorb2)

text \<open>
  Prediction visits \<open>\<lceil>n / bs\<rceil>\<close> batches, training \<open>\<lfloor>n / bs\<rfloor>\<close>: at most one more.
\<close>

lemma batch_counts:
  assumes "0 < bs"
  shows "range_step n bs = Inr (map (\<lambda>k. k * bs) [0..<(n + bs - 1) div bs]) \<and>
         n div bs \<le> (n + bs - 1) div bs \<and> (n + bs - 1) div bs \<le> n div bs + 1"
proof -
  have "(n + bs - 1) div bs \<le> (n + bs) div bs" by (intro div_le_mono) simp
  also have "\<dots> = n div bs + 1" using assms by simp
  finally show ?thesis using assms ceil_ge_floor [OF assms, of n] by (simp add: range_step_def)
qed

section \<open>Phase A: the reference copy of the Forecast Network\<close>

lemma gm_params_set [simp]: "gm_params (gm_set_params g p) = p"
  by (simp add: gm_params_def gm_set_params_def)

lemma fore_update_frame:
  assumes "fore_update env L st = Inr st'"
  shows "fore_model (fst st') = fore_model (fst st) \<and> weight_model (fst st') = weight_model (fst st) \<and>
         hyper.truncate (fst st') = hyper.truncate (fst st) \<and>
         opt_target (fore_optimizer (fst st')) = opt_target (fore_optimizer (fst st)) \<and>
         weight_optimizer (fst st') = weight_optimizer (fst st) \<and>
         gru_next (snd st') = gru_next (snd st) \<and> mlp_next (snd st') = mlp_next (snd st) \<and>
         mlp_heap (snd st') = mlp_heap (snd st) \<and>
         (\<forall>a. a \<noteq> fore_model (fst st) \<longrightarrow> gru_heap (snd st') a = gru_heap (snd st) a)"
  using assms
  by (auto simp: fore_update_def Let_def hyper.truncate_def split: if_splits)

lemma fore_update_live:
  assumes "fore_update env L st = Inr st'"
      and "opt_target (fore_optimizer (fst st)) = fore_model (fst st)"
  shows "gru_heap (snd st') (fore_model (fst st)) =
           gm_set_params (gru_heap (snd st) (fore_model (fst st)))
             (fst (step_fore env (fore_optimizer (fst st)) (gm_params (gru_heap (snd st) (fore_model (fst st))))
                (clip_gparams 3 (grad_fore env L (gm_params (gru_heap (snd st) (fore_model (fst st))))))))"
  using assms by (auto simp: fore_update_def Let_def split: if_splits)

lemma phaseA_step_update:
  assumes "phaseA_step env rnd a x y indices k i st = Inr st'"
  shows "\<exists>L. fore_update env L st = Inr st'"
  using assms by (auto simp: phaseA_step_def Let_def bindE_eq_Inr)

lemma phaseA_begin_facts:
  assumes "fore_model (fst st0) < gru_next (snd st0)"
  shows "fst (phaseA_begin st0) = gru_next (snd st0) \<and>
         fst (snd (phaseA_begin st0)) = fst st0 \<and>
         gru_next (snd (snd (phaseA_begin st0))) = Suc (gru_next (snd st0)) \<and>
         mlp_next (snd (snd (phaseA_begin st0))) = mlp_next (snd st0) \<and>
         gru_heap (snd (snd (phaseA_begin st0))) (gru_next (snd st0)) = gru_heap (snd st0) (fore_model (fst st0)) \<and>
         gru_heap (snd (snd (phaseA_begin st0))) (fore_model (fst st0)) =
           (gru_heap (snd st0) (fore_model (fst st0)))\<lparr>gm_training := True, gm_requires_grad := True\<rparr>"
  using assms
  by (simp add: phaseA_begin_def Let_def deepcopy_gru_def new_gru_def set_fore_flags_def
      set_weight_flags_def)

lemma phaseA_reaches_invariant:
  assumes live: "fore_model (fst st0) < gru_next (snd st0)"
      and reach: "phaseA_reaches env rnd (fst (phaseA_begin st0)) x y indices (snd (phaseA_begin st0)) s"
  shows "fore_model (fst s) = fore_model (fst st0) \<and>
         gru_next (snd s) = Suc (gru_next (snd st0)) \<and>
         gru_heap (snd s) (gru_next (snd st0)) = gru_heap (snd st0) (fore_model (fst st0))"
  using reach
proof (induction rule: phaseA_reaches.induct)
  case start
  then show ?case using phaseA_begin_facts [OF live] by simp
next
  case (step s k i s')
  obtain L where "fore_update env L s = Inr s'" using phaseA_step_update [OF step.hyps(2)] by blast
  then show ?case using fore_update_frame [of env L s s'] step.IH live by auto
qed

lemma phaseA_final_reached:
  assumes "phaseA env rnd a xt yt st = Inr st1"
  shows "phaseA_reaches env rnd a xt (squeeze yt)
           (shuffled (perm_train rnd) (length xt)) st st1"
proof -
  let ?R = "phaseA_reaches env rnd a xt (squeeze yt)
              (shuffled (perm_train rnd) (length xt)) st"
  let ?ind = "shuffled (perm_train rnd) (length xt)"
  have run: "forE [0..<steps (fst st)]
        (\<lambda>k. for_batches (length ?ind) (batch_size (fst st))
                (phaseA_step env rnd a xt (squeeze yt) ?ind k)) st = Inr st1"
    using assms by (simp add: phaseA_def Let_def)
  show ?thesis
  proof (rule forE_invariant [where P = ?R, OF _ _ run])
    show "?R st" by (rule phaseA_reaches.start)
  next
    fix k s s'
    assume b: "for_batches (length ?ind) (batch_size (fst st))
                 (phaseA_step env rnd a xt (squeeze yt) ?ind k) s = Inr s'"
      and r: "?R s"
    show "?R s'"
    proof (rule for_batches_invariant [where P = ?R, OF _ r b])
      fix i t t'
      assume "phaseA_step env rnd a xt (squeeze yt) ?ind k i t = Inr t'" and "?R t"
      then show "?R t'" using phaseA_reaches.step by blast
    qed
  qed
qed

text \<open>
  Claim C8. \<open>train_epoch\<close> copies the Forecast Network once, before the loops of
  Phase A (\<open>phaseA_begin\<close>): the copy is a new object, at an address of its own, with
  the contents the live network had at that moment. In every state Phase A passes
  through, and after every further run of its loop body, the copy still has those
  contents, while the run stores into the live network the parameters the optimizer's
  step returns for it. The live network is an allocated object, and the optimizer is
  the one built on it, as the constructor leaves them.
\<close>

theorem reference_snapshot_frozen:
  assumes live: "fore_model (fst st0) < gru_next (snd st0)"
      and opt: "opt_target (fore_optimizer (fst st0)) = fore_model (fst st0)"
      and reach: "phaseA_reaches env rnd (fst (phaseA_begin st0)) x y indices (snd (phaseA_begin st0)) s"
  shows "fst (phaseA_begin st0) = gru_next (snd st0) \<and>
         fst (phaseA_begin st0) \<noteq> fore_model (fst s) \<and>
         gru_heap (snd s) (fst (phaseA_begin st0)) = gru_heap (snd st0) (fore_model (fst st0)) \<and>
         (\<forall>k i s'. phaseA_step env rnd (fst (phaseA_begin st0)) x y indices k i s = Inr s' \<longrightarrow>
            gru_heap (snd s') (fst (phaseA_begin st0)) = gru_heap (snd st0) (fore_model (fst st0)) \<and>
            (\<exists>L. gm_params (gru_heap (snd s') (fore_model (fst s'))) =
                   fst (step_fore env (fore_optimizer (fst s))
                          (gm_params (gru_heap (snd s) (fore_model (fst s))))
                          (clip_gparams 3 (grad_fore env L (gm_params (gru_heap (snd s) (fore_model (fst s)))))))))"
proof -
  note b = phaseA_begin_facts [OF live]
  note inv = phaseA_reaches_invariant [OF live reach]
  have target: "opt_target (fore_optimizer (fst s)) = fore_model (fst s)"
    using reach
  proof (induction rule: phaseA_reaches.induct)
    case start
    then show ?case using b opt by simp
  next
    case (step s k i s')
    obtain L where "fore_update env L s = Inr s'" using phaseA_step_update [OF step.hyps(2)] by blast
    then show ?case using fore_update_frame [of env L s s'] step.IH by simp
  qed
  have steps: "\<forall>k i s'. phaseA_step env rnd (fst (phaseA_begin st0)) x y indices k i s = Inr s' \<longrightarrow>
            gru_heap (snd s') (fst (phaseA_begin st0)) = gru_heap (snd st0) (fore_model (fst st0)) \<and>
            (\<exists>L. gm_params (gru_heap (snd s') (fore_model (fst s'))) =
                   fst (step_fore env (fore_optimizer (fst s))
                          (gm_params (gru_heap (snd s) (fore_model (fst s))))
                          (clip_gparams 3 (grad_fore env L (gm_params (gru_heap (snd s) (fore_model (fst s))))))))"
  proof (intro allI impI)
    fix k i s'
    assume st: "phaseA_step env rnd (fst (phaseA_begin st0)) x y indices k i s = Inr s'"
    have r': "phaseA_reaches env rnd (fst (phaseA_begin st0)) x y indices (snd (phaseA_begin st0)) s'"
      using phaseA_reaches.step [OF reach st] .
    obtain L where L: "fore_update env L s = Inr s'" using phaseA_step_update [OF st] by blast
    have same: "fore_model (fst s') = fore_model (fst s)" using fore_update_frame [OF L] by simp
    have "gm_params (gru_heap (snd s') (fore_model (fst s'))) =
                   fst (step_fore env (fore_optimizer (fst s))
                          (gm_params (gru_heap (snd s) (fore_model (fst s))))
                          (clip_gparams 3 (grad_fore env L (gm_params (gru_heap (snd s) (fore_model (fst s)))))))"
      using fore_update_live [OF L target] same by simp
    then show "gru_heap (snd s') (fst (phaseA_begin st0)) = gru_heap (snd st0) (fore_model (fst st0)) \<and>
            (\<exists>L. gm_params (gru_heap (snd s') (fore_model (fst s'))) =
                   fst (step_fore env (fore_optimizer (fst s))
                          (gm_params (gru_heap (snd s) (fore_model (fst s))))
                          (clip_gparams 3 (grad_fore env L (gm_params (gru_heap (snd s) (fore_model (fst s))))))))"
      using phaseA_reaches_invariant [OF live r'] b by auto
  qed
  show ?thesis using b inv live steps by auto
qed

lemma tiny_gru_forward_flags:
  "GRUModel_forward tiny_env keep (tiny_gru\<lparr>gm_training := t, gm_requires_grad := r\<rparr>) [[a], [b]]
     = Inr (T1 [a, b])"
  by (simp add: GRUModel_forward_def tiny_gru_def tiny_env_def reshape_permute_def
      linear_forward_def dot_def squeeze_def enumerate_eq_zip upt2)

lemma tiny_gru_forward_any:
  "GRUModel_forward tiny_env keep tiny_gru [[a], [b]] = Inr (T1 [a, b])"
  by (simp add: GRUModel_forward_def tiny_gru_def tiny_env_def reshape_permute_def
      linear_forward_def dot_def squeeze_def enumerate_eq_zip upt2)

lemma tiny_phaseA_begin: "phaseA_begin (tiny_self, tiny_mem) = (1, (tiny_self, tiny_begin_mem))"
  by (simp add: phaseA_begin_def Let_def deepcopy_gru_def new_gru_def set_fore_flags_def
      set_weight_flags_def tiny_self_def tiny_mem_def tiny_begin_mem_def tiny_mlp_def fun_upd_twist)

lemma tiny_shuffled: "shuffled (perm_train tiny_rand) (length [[1], [2::real]]) = [1, 0]"
  by (simp add: shuffled_def tiny_rand_def upt2)

lemma tiny_squeeze_labels: "squeeze [[0, 1], [0, 3]] = T2 [[0, 1], [0, 3]]"
  by (simp add: squeeze_def)

lemma tiny_weight_input_A:
  "weight_input [[2], [1]] (T2 [[0, 3], [0, 1]]) (T1 [2, 1]) =
     Inr [[2, 2, -1, 0, 3, 2], [1, 1, 0, 0, 1, 1]]"
  by (simp add: weight_input_def transpose01_def ncols_def t_sub_def bc_vec_def upt2)

lemma tiny_mlp_forward_flags:
  "MLPModel_forward keep (tiny_mlp\<lparr>mlp_training := t, mlp_requires_grad := r\<rparr>)
     [[a1, a2, a3, a4, a5, a6], [b1, b2, b3, b4, b5, b6]] =
     Inr [[1 / 2, 1 / 2], [1 / 2, 1 / 2]]"
  by (simp add: MLPModel_forward_def tiny_mlp_def linear_forward_def dot_def squeeze_def
      Softmax_dim1_def softmax_row_def)

lemma tiny_phaseA_forward_A:
  "phaseA_forward tiny_env tiny_rand 1 k i [[2], [1]] (T2 [[0, 3], [0, 1]]) (tiny_self, tiny_begin_mem) =
     Inr (T1 [2, 1], [[1 / 2, 1 / 2], [1 / 2, 1 / 2]])"
  by (simp add: phaseA_forward_def tiny_self_def tiny_begin_mem_def tiny_gru_forward_any
      tiny_gru_forward_flags tiny_weight_input_A tiny_mlp_forward_flags)

lemma tiny_loss_fn_A:
  "loss_fn (T1 [2, 1]) (T2 [[0, 3], [0, 1]]) [[1 / 2, 1 / 2], [1 / 2, 1 / 2]] = Inr (Fin (5 / 2))"
  by (simp add: loss_fn_def torch_argmax1_def argmax_row_def index_rows_def upt2 t_sub_def
      bc_vec_def torch_mean_def mean_def power2_eq_square)

lemma tiny_fore_update:
  "fore_update tiny_env L (tiny_self, tiny_begin_mem) =
     Inr (tiny_self, tiny_begin_mem\<lparr>gru_heap := (gru_heap tiny_begin_mem)(0 := tiny_stepped_gru)\<rparr>)"
  by (simp add: fore_update_def Let_def tiny_self_def tiny_begin_mem_def tiny_env_def tiny_gru_def
      gm_params_def gm_set_params_def tiny_stepped_gru_def clip_gparams_def)

lemma tiny_phaseA_step:
  "phaseA_step tiny_env tiny_rand a1 [[1], [2]] (T2 [[0, 1], [0, 3]]) [Suc 0, 0] k 0 (tiny_self, tiny_begin_mem) =
     Inr (tiny_self, tiny_begin_mem\<lparr>gru_heap := (gru_heap tiny_begin_mem)(0 := tiny_stepped_gru)\<rparr>)"
  if "a1 = 1"
proof -
  have b: "batch_size tiny_self = 2" by (simp add: tiny_self_def)
  have f: "take_rows_mat [[1], [2]] [Suc 0, 0] = Inr [[2], [1]]"
    by (simp add: take_rows_mat_def)
  have l: "take_rows (T2 [[0, 1], [0, 3]]) [Suc 0, 0] = Inr (T2 [[0, 3], [0, 1]])"
    by (simp add: take_rows_def take_rows_mat_def)
  have s: "slice 0 (0 + batch_size tiny_self) [Suc 0, 0] = [Suc 0, 0]" by (simp add: slice_def b)
  show ?thesis
    unfolding phaseA_step_def Let_def fst_conv snd_conv s that
    by (simp only: f l bindE_Inr tiny_phaseA_forward_A tiny_loss_fn_A tiny_fore_update fst_conv snd_conv)
qed

lemma tiny_phaseA:
  "phaseA tiny_env tiny_rand 1 [[1], [2]] [[0, 1], [0, 3]] (tiny_self, tiny_begin_mem) =
     Inr (tiny_self, tiny_begin_mem\<lparr>gru_heap := (gru_heap tiny_begin_mem)(0 := tiny_stepped_gru)\<rparr>)"
proof -
  have s: "steps tiny_self = 1" "batch_size tiny_self = 2" by (simp_all add: tiny_self_def)
  have r: "range_step (Suc (Suc 0)) 2 = Inr [0]" by (simp add: range_step_def)
  have sh: "shuffled (perm_train tiny_rand) (length [[1], [2::real]]) = [Suc 0, 0]"
    using tiny_shuffled by simp
  show ?thesis
    unfolding phaseA_def Let_def sh tiny_squeeze_labels
    by (simp add: s for_batches_def r tiny_phaseA_step)
qed

theorem reference_snapshot_frozen_witness:
  "phaseA tiny_env tiny_rand 1 [[1], [2]] [[0, 1], [0, 3]] (snd (phaseA_begin (tiny_self, tiny_mem))) =
     Inr (tiny_self, tiny_begin_mem\<lparr>gru_heap := (gru_heap tiny_begin_mem)(0 := tiny_stepped_gru)\<rparr>) \<and>
   gru_heap (tiny_begin_mem\<lparr>gru_heap := (gru_heap tiny_begin_mem)(0 := tiny_stepped_gru)\<rparr>) 1 = tiny_gru \<and>
   lin_weight (fc_out (gru_heap tiny_mem 0)) = [[1]] \<and>
   lin_weight (fc_out (gru_heap (tiny_begin_mem\<lparr>gru_heap := (gru_heap tiny_begin_mem)(0 := tiny_stepped_gru)\<rparr>) 0)) = [[2]]"
proof -
  let ?s = "(tiny_self, tiny_begin_mem\<lparr>gru_heap := (gru_heap tiny_begin_mem)(0 := tiny_stepped_gru)\<rparr>)"
  have run: "phaseA tiny_env tiny_rand (fst (phaseA_begin (tiny_self, tiny_mem))) [[1], [2]] [[0, 1], [0, 3]]
               (snd (phaseA_begin (tiny_self, tiny_mem))) = Inr ?s"
    by (simp add: tiny_phaseA_begin tiny_phaseA [unfolded One_nat_def])
  have live: "fore_model (fst (tiny_self, tiny_mem)) < gru_next (snd (tiny_self, tiny_mem))"
    and opt: "opt_target (fore_optimizer (fst (tiny_self, tiny_mem))) = fore_model (fst (tiny_self, tiny_mem))"
    by (simp_all add: tiny_self_def tiny_mem_def)
  have "gru_heap (snd ?s) (fst (phaseA_begin (tiny_self, tiny_mem))) =
          gru_heap (snd (tiny_self, tiny_mem)) (fore_model (fst (tiny_self, tiny_mem)))"
    using reference_snapshot_frozen [OF live opt phaseA_final_reached [OF run]] by blast
  moreover have "fst (phaseA_begin (tiny_self, tiny_mem)) = 1" by (simp add: tiny_phaseA_begin)
  moreover have "gru_heap (snd (tiny_self, tiny_mem)) (fore_model (fst (tiny_self, tiny_mem))) = tiny_gru"
    by (simp add: tiny_mem_def)
  ultimately have "gru_heap (snd ?s) 1 = tiny_gru" by (simp only:)
  moreover have "lin_weight (fc_out (gru_heap tiny_mem 0)) = [[1]]"
    by (simp add: tiny_mem_def tiny_gru_def)
  moreover have "lin_weight (fc_out (gru_heap (snd ?s) 0)) = [[2]]"
    by (simp add: tiny_stepped_gru_def)
  ultimately show ?thesis using run by (simp add: tiny_phaseA_begin del: One_nat_def)
qed

section \<open>Evaluation after the two phases\<close>

lemma weight_update_frame:
  assumes "weight_update env L st = Inr st'"
  shows "fore_model (fst st') = fore_model (fst st) \<and> weight_model (fst st') = weight_model (fst st) \<and>
         hyper.truncate (fst st') = hyper.truncate (fst st) \<and>
         fore_optimizer (fst st') = fore_optimizer (fst st) \<and>
         gru_next (snd st') = gru_next (snd st) \<and> mlp_next (snd st') = mlp_next (snd st) \<and>
         gru_heap (snd st') = gru_heap (snd st)"
  using assms
  by (auto simp: weight_update_def Let_def hyper.truncate_def split: if_splits)

lemma phaseB_step_update:
  assumes "phaseB_step env rnd x y indices i st = Inr st'"
  shows "\<exists>L. weight_update env L st = Inr st'"
  using assms by (auto simp: phaseB_step_def Let_def bindE_eq_Inr)

lemma phaseB_fore_frozen:
  assumes "phaseB env rnd xv yv st = Inr st'"
  shows "fore_model (fst st') = fore_model (fst st) \<and>
         gru_heap (snd st') = (gru_heap (snd st))
           (fore_model (fst st) := (gru_heap (snd st) (fore_model (fst st)))\<lparr>gm_requires_grad := False\<rparr>)"
proof -
  let ?m2 = "set_fore_flags (fore_model (fst st)) (\<lambda>g. g\<lparr>gm_requires_grad := False\<rparr>)
               (set_weight_flags (weight_model (fst st)) (\<lambda>w. w\<lparr>mlp_requires_grad := True\<rparr>) (snd st))"
  let ?P = "\<lambda>s. fore_model (fst s) = fore_model (fst st) \<and> gru_heap (snd s) = gru_heap ?m2"
  obtain n bs body where run: "for_batches n bs (phaseB_step env rnd xv (squeeze yv) body) (fst st, ?m2) = Inr st'"
    using assms by (auto simp: phaseB_def Let_def)
  have "?P st'"
  proof (rule for_batches_invariant [where P = ?P, OF _ _ run])
    show "?P (fst st, ?m2)" by simp
  next
    fix i s s'
    assume "phaseB_step env rnd xv (squeeze yv) body i s = Inr s'" and "?P s"
    then show "?P s'" using phaseB_step_update weight_update_frame by metis
  qed
  then show ?thesis by (simp add: set_fore_flags_def set_weight_flags_def)
qed

lemma train_epoch_fore_frozen:
  assumes "train_epoch env rnd xt yt xv yv st0 = Inr (self, m)"
  shows "\<not> gm_requires_grad (gru_heap m (fore_model self))"
proof -
  obtain st1 where "phaseB env rnd xv yv st1 = Inr (self, m)"
    using assms by (auto simp: train_epoch_def Let_def bindE_eq_Inr)
  then show ?thesis using phaseB_fore_frozen [of env rnd xv yv st1 "(self, m)"] by simp
qed

lemma slice_upt: "i + bs \<le> n \<Longrightarrow> slice i (i + bs) [0..<n] = [i..<i + bs]"
  by (simp add: slice_def take_upt)

lemma take_rows_mat_upt:
  assumes "i + bs \<le> length x"
  shows "take_rows_mat x [i..<i + bs] = Inr (slice i (i + bs) x)"
proof -
  have "map (\<lambda>j. x ! j) [i..<i + bs] = take bs (drop i x)"
    using assms by (intro nth_equalityI) (auto simp: add.commute)
  moreover have "list_all (\<lambda>j. j < length x) [i..<i + bs]"
    using assms by (auto simp: list_all_iff)
  ultimately show ?thesis by (simp add: take_rows_mat_def slice_def)
qed

lemma squeeze_matrix: "is_matrix n d m \<Longrightarrow> 2 \<le> n \<Longrightarrow> 2 \<le> d \<Longrightarrow> squeeze m = T2 m"
proof -
  assume m: "is_matrix n d m" and n: "2 \<le> n" and d: "2 \<le> d"
  then obtain r rs where "m = r # rs" "length r = d" by (cases m) (auto simp: is_matrix_def)
  then have "\<not> list_all (\<lambda>r. length r = 1) m" using d by auto
  then show ?thesis using m n by (auto simp: squeeze_def is_matrix_def)
qed

lemma is_matrix_slice:
  "is_matrix n d m \<Longrightarrow> i + bs \<le> n \<Longrightarrow> is_matrix bs d (slice i (i + bs) m)"
  by (auto simp: is_matrix_def slice_def list_all_iff dest: in_set_takeD in_set_dropD)

lemma squeeze_predictions:
  assumes "rows \<noteq> []"
  shows "squeeze (map (\<lambda>r. [pr r]) rows) = (if length rows = 1 then T0 (pr (hd rows)) else T1 (map pr rows))"
proof (cases "length rows = 1")
  case True
  then obtain r where "rows = [r]" by (cases rows) auto
  then show ?thesis by (simp add: squeeze_def)
next
  case False
  have "list_all (\<lambda>r. length r = 1) (map (\<lambda>r. [pr r]) rows)" by (simp add: list_all_iff)
  then show ?thesis using False by (simp add: squeeze_def comp_def)
qed

lemma squared_error_batch:
  assumes rows: "length rows = bs" and l: "is_matrix bs d l" and h: "h < d" and bs: "0 < bs"
  shows "squared_error (squeeze (map (\<lambda>r. [pr r]) rows)) (T2 l) h =
           Inr (if float32_max < (\<Sum>j<bs. (pr (rows ! j) - l ! j ! h) ^ 2) then PosInf
                else Fin (mse_at bs (map pr rows) l h))"
proof (cases "bs = 1")
  case True
  then obtain r where r: "rows = [r]" using rows by (cases rows) auto
  obtain lr where lr: "l = [lr]" "h < length lr"
    using l True h by (cases l) (auto simp: is_matrix_def)
  show ?thesis
    using True r lr
    by (simp add: squeeze_def squared_error_def select_col_def t_sub_def torch_mean_def mean_def
        mse_at_def mean_over_def float32_mean_squares_def)
next
  case False
  have ne: "rows \<noteq> []" using rows bs by auto
  have sq: "squeeze (map (\<lambda>r. [pr r]) rows) = T1 (map pr rows)"
    using squeeze_predictions [OF ne] False rows by simp
  have "(\<Sum>j<bs. (map pr rows ! j - l ! j ! h) ^ 2) = (\<Sum>j<bs. (pr (rows ! j) - l ! j ! h) ^ 2)"
    using rows by (intro sum.cong) simp_all
  then show ?thesis
    using squared_error_value [of "map pr rows" bs d l h] rows l h bs by (simp add: sq)
qed

lemma forE_collect:
  assumes "\<And>k acc. k \<in> set ks \<Longrightarrow> body k acc = Inr (acc @ [f k])"
  shows "forE ks body acc = Inr (acc @ map f ks)"
  using assms by (induction ks arbitrary: acc) simp_all

lemma fl_reals_Fin: "fl_reals (map (\<lambda>k. Fin (f k)) ks) = Some (map f ks)"
  by (induction ks) simp_all

lemma mse_blocks:
  assumes bs: "0 < bs" and q: "0 < q"
  shows "(\<Sum>k<q. (\<Sum>j<bs. e (k * bs + j)) / real bs) / real q = (\<Sum>j<q * bs. e j) / real (q * bs)"
proof -
  have "(\<Sum>k<q. (\<Sum>j<bs. e (k * bs + j))) = (\<Sum>k<q. sum e {k * bs..<k * bs + bs})"
  proof (rule sum.cong [OF refl])
    fix k
    have "sum e {0 + k * bs..<bs + k * bs} = (\<Sum>j = 0..<bs. e (j + k * bs))"
      by (rule sum.shift_bounds_nat_ivl)
    then show "(\<Sum>j<bs. e (k * bs + j)) = sum e {k * bs..<k * bs + bs}"
      by (simp add: atLeast0LessThan add.commute)
  qed
  also have "\<dots> = (\<Sum>j<q * bs. e j)" by (rule sum.nat_group)
  finally have "(\<Sum>k<q. (\<Sum>j<bs. e (k * bs + j))) = (\<Sum>j<q * bs. e j)" .
  then show ?thesis by (simp add: sum_divide_distrib [symmetric])
qed

lemma slice_nth: "i + bs \<le> length xs \<Longrightarrow> j < bs \<Longrightarrow> slice i (i + bs) xs ! j = xs ! (i + j)"
  by (simp add: slice_def)

lemma slice_length: "i + bs \<le> length xs \<Longrightarrow> length (slice i (i + bs) xs) = bs"
  by (simp add: slice_def)

lemma mse_at_slice:
  assumes "i + bs \<le> length x" "i + bs \<le> length y"
  shows "mse_at bs (map pr (slice i (i + bs) x)) (slice i (i + bs) y) h =
           (\<Sum>j<bs. (pr (x ! (i + j)) - y ! (i + j) ! h) ^ 2) / real bs"
  unfolding mse_at_def mean_over_def
  using assms by (simp add: slice_nth slice_length)

lemma test_batch_value:
  assumes bs: "0 < batch_size self" and i: "i + batch_size self \<le> n"
      and x: "length data_x = n" and y: "is_matrix n d data_y" and h: "nat \<bar>target_label self\<bar> < d"
      and fwd: "GRUModel_forward env no_mask (gru_heap m1 (fore_model self))
                  (slice i (i + batch_size self) data_x) =
                Inr (squeeze (map (\<lambda>r. [pr r]) (slice i (i + batch_size self) data_x)))"
  shows "test_batch env self m1 data_x (T2 data_y) [0..<n] i losses =
           Inr (losses @
             [if float32_max < (\<Sum>j<batch_size self.
                   (pr (data_x ! (i + j)) - data_y ! (i + j) ! nat \<bar>target_label self\<bar>) ^ 2)
              then PosInf
              else Fin ((\<Sum>j<batch_size self.
                   (pr (data_x ! (i + j)) - data_y ! (i + j) ! nat \<bar>target_label self\<bar>) ^ 2)
                 / real (batch_size self))])"
proof -
  let ?bs = "batch_size self"
  let ?h = "nat \<bar>target_label self\<bar>"
  have ly: "length data_y = n" using y by (simp add: is_matrix_def)
  have idx: "slice i (i + ?bs) [0..<n] = [i..<i + ?bs]" using slice_upt [OF i] .
  have f: "take_rows_mat data_x [i..<i + ?bs] = Inr (slice i (i + ?bs) data_x)"
    using take_rows_mat_upt [of i ?bs data_x] i x by simp
  have l: "take_rows (T2 data_y) [i..<i + ?bs] = Inr (T2 (slice i (i + ?bs) data_y))"
    using take_rows_mat_upt [of i ?bs data_y] i ly by (simp add: take_rows_def)
  have s: "(\<Sum>j<?bs. (pr (slice i (i + ?bs) data_x ! j) - slice i (i + ?bs) data_y ! j ! ?h) ^ 2) =
           (\<Sum>j<?bs. (pr (data_x ! (i + j)) - data_y ! (i + j) ! ?h) ^ 2)"
    using i x ly by (intro sum.cong) (simp_all add: slice_nth)
  have e: "squared_error (squeeze (map (\<lambda>r. [pr r]) (slice i (i + ?bs) data_x)))
             (T2 (slice i (i + ?bs) data_y)) ?h =
           Inr (if float32_max < (\<Sum>j<?bs. (pr (data_x ! (i + j)) - data_y ! (i + j) ! ?h) ^ 2) then PosInf
                else Fin (mse_at ?bs (map pr (slice i (i + ?bs) data_x)) (slice i (i + ?bs) data_y) ?h))"
    using squared_error_batch [OF _ is_matrix_slice [OF y i] h bs, of "slice i (i + ?bs) data_x" pr]
      slice_length [of i ?bs data_x] i x
    by (simp add: s)
  show ?thesis
    using mse_at_slice [of i ?bs data_x data_y pr] i x ly
    by (simp add: test_batch_def Let_def idx f l fwd e)
qed

lemma test_batch_full:
  assumes bs: "0 < batch_size self" and i: "i + batch_size self \<le> n"
      and x: "length data_x = n" and y: "is_matrix n d data_y" and h: "nat \<bar>target_label self\<bar> < d"
      and fwd: "GRUModel_forward env no_mask (gru_heap m1 (fore_model self))
                  (slice i (i + batch_size self) data_x) =
                Inr (squeeze (map (\<lambda>r. [pr r]) (slice i (i + batch_size self) data_x)))"
      and r: "(\<Sum>j<batch_size self.
                 (pr (data_x ! (i + j)) - data_y ! (i + j) ! nat \<bar>target_label self\<bar>) ^ 2) \<le> float32_max"
  shows "test_batch env self m1 data_x (T2 data_y) [0..<n] i losses =
           Inr (losses @ [Fin ((\<Sum>j<batch_size self.
                   (pr (data_x ! (i + j)) - data_y ! (i + j) ! nat \<bar>target_label self\<bar>) ^ 2)
                 / real (batch_size self))])"
  using test_batch_value [OF bs i x y h fwd, of losses] r by simp

lemma test_epoch_value:
  assumes bs: "0 < batch_size self" and full: "batch_size self \<le> n"
      and x: "length data_x = n" and y: "is_matrix n d data_y"
      and n: "2 \<le> n" and d: "2 \<le> d" and h: "nat \<bar>target_label self\<bar> < d"
      and fwd: "\<forall>k < n div batch_size self.
                  GRUModel_forward env no_mask ((gru_heap m (fore_model self))\<lparr>gm_training := False\<rparr>)
                    (slice (k * batch_size self) (k * batch_size self + batch_size self) data_x) =
                  Inr (squeeze (map (\<lambda>r. [pr r])
                    (slice (k * batch_size self) (k * batch_size self + batch_size self) data_x)))"
      and range: "\<forall>k < n div batch_size self.
                  (\<Sum>j<batch_size self. (pr (data_x ! (k * batch_size self + j)) -
                      data_y ! (k * batch_size self + j) ! nat \<bar>target_label self\<bar>) ^ 2) \<le> float32_max"
  shows "test_epoch env self data_x data_y m =
           Inr (Fin (mse_at (n div batch_size self * batch_size self) (map pr data_x) data_y
                       (nat \<bar>target_label self\<bar>)),
                set_fore_flags (fore_model self) (\<lambda>g. g\<lparr>gm_training := False\<rparr>) m)"
proof -
  let ?bs = "batch_size self"
  let ?q = "n div ?bs"
  let ?h = "nat \<bar>target_label self\<bar>"
  let ?m1 = "set_fore_flags (fore_model self) (\<lambda>g. g\<lparr>gm_training := False\<rparr>) m"
  let ?e = "\<lambda>j. (pr (data_x ! j) - data_y ! j ! ?h) ^ 2"
  let ?f = "\<lambda>i. Fin ((\<Sum>j<?bs. ?e (i + j)) / real ?bs)"
  have heap: "gru_heap ?m1 (fore_model self) = (gru_heap m (fore_model self))\<lparr>gm_training := False\<rparr>"
    by (simp add: set_fore_flags_def)
  have q: "0 < ?q" using bs full by (simp add: div_greater_zero_iff)
  have sq: "squeeze data_y = T2 data_y" using squeeze_matrix [OF y n d] .
  have body: "test_batch env self ?m1 data_x (T2 data_y) [0..<n] i acc = Inr (acc @ [?f i])"
    if mem: "i \<in> set (map (\<lambda>k. k * ?bs) [0..<?q])" for i acc
  proof -
    obtain k where k: "k < ?q" "i = k * ?bs" using mem by auto
    have "Suc k * ?bs \<le> ?q * ?bs" using k by (intro mult_le_mono1) simp
    also have "\<dots> \<le> n" by simp
    finally have i: "i + ?bs \<le> n" using k by (simp add: add.commute)
    have f: "GRUModel_forward env no_mask (gru_heap ?m1 (fore_model self)) (slice i (i + ?bs) data_x) =
               Inr (squeeze (map (\<lambda>r. [pr r]) (slice i (i + ?bs) data_x)))"
      using fwd k heap by simp
    have r: "(\<Sum>j<?bs. (pr (data_x ! (i + j)) - data_y ! (i + j) ! ?h) ^ 2) \<le> float32_max"
      using range k by simp
    show ?thesis using test_batch_full [OF bs i x y h f r] .
  qed
  have run: "for_batches (length [0..<n]) ?bs (test_batch env self ?m1 data_x (T2 data_y) [0..<n]) [] =
               Inr (map ?f (map (\<lambda>k. k * ?bs) [0..<?q]))"
    using forE_collect [of "map (\<lambda>k. k * ?bs) [0..<?q]"
        "test_batch env self ?m1 data_x (T2 data_y) [0..<n]" ?f "[]"] body
    by (simp add: for_batches_full [OF bs])
  have "np_mean (map ?f (map (\<lambda>k. k * ?bs) [0..<?q])) =
          mean (map (\<lambda>k. (\<Sum>j<?bs. ?e (k * ?bs + j)) / real ?bs) [0..<?q])"
    using fl_reals_Fin [of "\<lambda>k. (\<Sum>j<?bs. ?e (k * ?bs + j)) / real ?bs" "[0..<?q]"]
    by (simp add: np_mean_def comp_def)
  also have "\<dots> = Fin ((\<Sum>k<?q. (\<Sum>j<?bs. ?e (k * ?bs + j)) / real ?bs) / real ?q)"
    by (rule mean_map_upt [OF q])
  also have "\<dots> = Fin ((\<Sum>j<?q * ?bs. ?e j) / real (?q * ?bs))"
    using mse_blocks [OF bs q, of ?e] by simp
  also have "(\<Sum>j<?q * ?bs. ?e j) = (\<Sum>j<?q * ?bs. (map pr data_x ! j - data_y ! j ! ?h) ^ 2)"
  proof (rule sum.cong [OF refl])
    fix j assume "j \<in> {..<?q * ?bs}"
    then have "j < ?q * ?bs" by simp
    also have "\<dots> \<le> n" by simp
    finally show "?e j = (map pr data_x ! j - data_y ! j ! ?h) ^ 2" using x by simp
  qed
  finally have loss: "np_mean (map ?f (map (\<lambda>k. k * ?bs) [0..<?q])) =
      Fin (mse_at (?q * ?bs) (map pr data_x) data_y ?h)"
    by (simp add: mse_at_def mean_over_def)
  show ?thesis using run loss by (simp add: test_epoch_def Let_def sq x)
qed

lemma set_fore_flags_eval_twice:
  "set_fore_flags a (\<lambda>g. g\<lparr>gm_training := False\<rparr>) (set_fore_flags a (\<lambda>g. g\<lparr>gm_training := False\<rparr>) m) =
     set_fore_flags a (\<lambda>g. g\<lparr>gm_training := False\<rparr>) m"
  by (simp add: set_fore_flags_def)

text \<open>
  Claim C7, as amended. After the two phases of an epoch, each of the two calls of
  \<open>test_epoch\<close>, the one on the validation split in the memory \<open>m\<close> that the training
  left and the one on the test split in the memory that the first call left, puts the
  Forecast Network in evaluation mode and returns the mean squared error of its
  predictions against the labels at horizon \<open>abs(target_label)\<close>, over the rows of the
  full batches; the Weight Network takes no part. The forward passes record no
  gradient graph, since Phase B left every parameter of the Forecast Network with
  \<open>requires_grad = False\<close>, and draw nothing at random. This holds for a split of \<open>n\<close>
  rows with at least one full batch (without one the loss is NaN), with at least two
  rows and labels of \<open>d\<close>, at least two, horizons (with one row or one horizon
  \<open>np.squeeze\<close> drops a dimension of the labels and the indexing of the labels
  raises), and whose batches have sums of squared errors within the range of a float32
  (beyond it the loss is \<open>inf\<close>). Here \<open>pr\<close> is the prediction of the network, in
  evaluation mode, for one sample.
\<close>

theorem test_epoch_mse:
  assumes tr: "train_epoch env rnd xt yt xv yv st0 = Inr (self, m)"
      and mem: "m' = m \<or> m' = set_fore_flags (fore_model self) (\<lambda>g. g\<lparr>gm_training := False\<rparr>) m"
      and bs: "0 < batch_size self" and full: "batch_size self \<le> n"
      and x: "length data_x = n" and y: "is_matrix n d data_y"
      and n: "2 \<le> n" and d: "2 \<le> d" and h: "nat \<bar>target_label self\<bar> < d"
      and fwd: "\<forall>k < n div batch_size self.
                  GRUModel_forward env no_mask ((gru_heap m (fore_model self))\<lparr>gm_training := False\<rparr>)
                    (slice (k * batch_size self) (k * batch_size self + batch_size self) data_x) =
                  Inr (squeeze (map (\<lambda>r. [pr r])
                    (slice (k * batch_size self) (k * batch_size self + batch_size self) data_x)))"
      and range: "\<forall>k < n div batch_size self.
                  (\<Sum>j<batch_size self. (pr (data_x ! (k * batch_size self + j)) -
                      data_y ! (k * batch_size self + j) ! nat \<bar>target_label self\<bar>) ^ 2) \<le> float32_max"
  shows "test_epoch env self data_x data_y m' =
           Inr (Fin (mse_at (n div batch_size self * batch_size self) (map pr data_x) data_y
                       (nat \<bar>target_label self\<bar>)),
                set_fore_flags (fore_model self) (\<lambda>g. g\<lparr>gm_training := False\<rparr>) m) \<and>
         \<not> gm_training (gru_heap (set_fore_flags (fore_model self) (\<lambda>g. g\<lparr>gm_training := False\<rparr>) m)
                          (fore_model self)) \<and>
         \<not> records_graph False (gru_heap (set_fore_flags (fore_model self) (\<lambda>g. g\<lparr>gm_training := False\<rparr>) m)
                                  (fore_model self))"
proof -
  let ?m1 = "set_fore_flags (fore_model self) (\<lambda>g. g\<lparr>gm_training := False\<rparr>) m"
  have heap: "gru_heap ?m1 (fore_model self) = (gru_heap m (fore_model self))\<lparr>gm_training := False\<rparr>"
    by (simp add: set_fore_flags_def)
  have fwd': "\<forall>k < n div batch_size self.
                  GRUModel_forward env no_mask ((gru_heap m' (fore_model self))\<lparr>gm_training := False\<rparr>)
                    (slice (k * batch_size self) (k * batch_size self + batch_size self) data_x) =
                  Inr (squeeze (map (\<lambda>r. [pr r])
                    (slice (k * batch_size self) (k * batch_size self + batch_size self) data_x)))"
    using mem fwd heap by auto
  have after: "set_fore_flags (fore_model self) (\<lambda>g. g\<lparr>gm_training := False\<rparr>) m' = ?m1"
    using mem set_fore_flags_eval_twice by auto
  have "test_epoch env self data_x data_y m' =
          Inr (Fin (mse_at (n div batch_size self * batch_size self) (map pr data_x) data_y
                      (nat \<bar>target_label self\<bar>)), ?m1)"
    using test_epoch_value [OF bs full x y n d h fwd' range] after by simp
  moreover have "\<not> gm_requires_grad (gru_heap m (fore_model self))"
    using train_epoch_fore_frozen [OF tr] .
  ultimately show ?thesis by (simp add: heap records_graph_def)
qed

text \<open>
  So the epoch of \<open>fit\<close> gets, as its validation loss, the mean squared error over the
  full batches of the validation split, when both splits are as above.
\<close>

lemma run_epoch_validation_loss:
  assumes tr: "train_epoch env rnd (x_train ds) (y_train ds) (x_valid ds) (y_valid ds) st0 = Inr (self, m)"
      and v: "test_epoch env self (x_valid ds) (y_valid ds) m =
                Inr (Fin lv, set_fore_flags (fore_model self) (\<lambda>g. g\<lparr>gm_training := False\<rparr>) m)"
      and t: "test_epoch env self (x_test ds) (y_test ds)
                (set_fore_flags (fore_model self) (\<lambda>g. g\<lparr>gm_training := False\<rparr>) m) =
                Inr (Fin lt, set_fore_flags (fore_model self) (\<lambda>g. g\<lparr>gm_training := False\<rparr>) m)"
  shows "run_epoch env rnd ds st0 =
           Inr (Fin lv, (self, set_fore_flags (fore_model self) (\<lambda>g. g\<lparr>gm_training := False\<rparr>) m))"
  by (simp add: run_epoch_def tr v t)

section \<open>Early stopping and the reloaded checkpoint\<close>

lemma same_self_refl [simp]: "same_self st st"
  by (simp add: same_self_def)

lemma same_self_trans: "same_self a b \<Longrightarrow> same_self b c \<Longrightarrow> same_self a c"
  by (simp add: same_self_def)

lemma same_self_early_stop: "same_self st st' \<Longrightarrow> early_stop (fst st') = early_stop (fst st)"
proof -
  assume "same_self st st'"
  then have "early_stop (hyper.truncate (fst st')) = early_stop (hyper.truncate (fst st))"
    by (simp add: same_self_def)
  then show ?thesis by (simp add: hyper.truncate_def)
qed

lemma phaseA_step_same: "phaseA_step env rnd a x y ind k i st = Inr st' \<Longrightarrow> same_self st st'"
  using phaseA_step_update fore_update_frame unfolding same_self_def by metis

lemma phaseB_step_same: "phaseB_step env rnd x y ind i st = Inr st' \<Longrightarrow> same_self st st'"
  using phaseB_step_update weight_update_frame unfolding same_self_def by metis

lemma phaseA_same:
  assumes "phaseA env rnd a xt yt st = Inr st'"
  shows "same_self st st'"
proof -
  let ?ind = "shuffled (perm_train rnd) (length xt)"
  have run: "forE [0..<steps (fst st)]
        (\<lambda>k. for_batches (length ?ind) (batch_size (fst st))
                (phaseA_step env rnd a xt (squeeze yt) ?ind k)) st = Inr st'"
    using assms by (simp add: phaseA_def Let_def)
  show ?thesis
  proof (rule forE_invariant [where P = "same_self st", OF _ _ run])
    show "same_self st st" by simp
  next
    fix k s s'
    assume b: "for_batches (length ?ind) (batch_size (fst st))
                 (phaseA_step env rnd a xt (squeeze yt) ?ind k) s = Inr s'"
      and r: "same_self st s"
    show "same_self st s'"
    proof (rule for_batches_invariant [where P = "same_self st", OF _ r b])
      fix i t t'
      assume "phaseA_step env rnd a xt (squeeze yt) ?ind k i t = Inr t'" and "same_self st t"
      then show "same_self st t'" using phaseA_step_same same_self_trans by blast
    qed
  qed
qed

lemma phaseB_same:
  assumes "phaseB env rnd xv yv st = Inr st'"
  shows "same_self st st'"
proof -
  obtain n bs ind m2 where run: "for_batches n bs (phaseB_step env rnd xv (squeeze yv) ind) (fst st, m2) = Inr st'"
    using assms by (auto simp: phaseB_def Let_def)
  show ?thesis
  proof (rule for_batches_invariant [where P = "same_self st", OF _ _ run])
    show "same_self st (fst st, m2)" by (simp add: same_self_def)
  next
    fix i t t'
    assume "phaseB_step env rnd xv (squeeze yv) ind i t = Inr t'" and "same_self st t"
    then show "same_self st t'" using phaseB_step_same same_self_trans by blast
  qed
qed

lemma train_epoch_same:
  assumes "train_epoch env rnd xt yt xv yv st = Inr st'"
  shows "same_self st st'"
proof -
  obtain st1 where a: "phaseA env rnd (fst (phaseA_begin st)) xt yt (snd (phaseA_begin st)) = Inr st1"
    and b: "phaseB env rnd xv yv st1 = Inr st'"
    using assms by (auto simp: train_epoch_def Let_def bindE_eq_Inr)
  have "same_self st (snd (phaseA_begin st))"
    by (simp add: same_self_def phaseA_begin_def Let_def)
  then show ?thesis using phaseA_same [OF a] phaseB_same [OF b] same_self_trans by blast
qed

lemma run_epoch_same:
  assumes "run_epoch env rnd ds st = Inr r"
  shows "same_self st (snd r)"
proof -
  obtain st1 where "train_epoch env rnd (x_train ds) (y_train ds) (x_valid ds) (y_valid ds) st = Inr st1"
    and "fst (snd r) = fst st1"
    using assms by (auto simp: run_epoch_def bindE_eq_Inr)
  then show ?thesis using train_epoch_same [of env rnd _ _ _ _ st st1] by (simp add: same_self_def)
qed

lemma paths_distinct: "fore_path sp \<noteq> weight_path sp"
  by (simp add: fore_path_def weight_path_def)

lemma holds_checkpoint_save: "holds_checkpoint sp st (save_both sp st fs)"
  using paths_distinct [of sp] by (auto simp: holds_checkpoint_def save_both_def)

lemma epoch_result_step:
  "before_epoch env rnd ds st0 j = Inr c \<Longrightarrow> epoch_result env rnd ds st0 j = run_epoch env (rnd j) ds c"
  by (cases j) (auto simp: before_epoch_def bindE_eq_Inr)

lemma before_epoch_Suc:
  "epoch_result env rnd ds st0 e = Inr (u, c) \<Longrightarrow> before_epoch env rnd ds st0 (Suc e) = Inr c"
  by (simp add: before_epoch_def)

lemma fl_less_PosInf: "fl_less u PosInf \<longleftrightarrow> (\<exists>v. u = Fin v)"
  by (cases u) simp_all

lemma fl_less_Fin: "fl_less u (Fin v) \<longleftrightarrow> (\<exists>w. u = Fin w \<and> w < v)"
  by (cases u) simp_all

lemma improved_after_improvement:
  assumes r: "epoch_result env rnd ds st0 j = Inr (Fin v', st1)"
      and lower: "\<forall>e<j. \<exists>u st. epoch_result env rnd ds st0 e = Inr (u, st) \<and> \<not> fl_less u (Fin v') \<and> u \<noteq> Fin v'"
      and same: "same_self st0 st1"
  shows "improved env rnd ds st0 sp (Suc j)
           \<lparr>cur = st1, disk = save_both sp st1 d, best_loss = Fin v', best_epoch = j, stop_round = 0\<rparr>"
proof -
  have "best_so_far (epoch_result env rnd ds st0) (Suc j) j v'"
    unfolding best_so_far_def using r lower by (auto simp: less_Suc_eq)
  then show ?thesis
    using r same holds_checkpoint_save [of sp st1 d]
    by (auto simp: improved_def stall_below_def)
qed

lemma improved_after_stall:
  assumes inv: "improved env rnd ds st0 sp j s"
      and r: "epoch_result env rnd ds st0 j = Inr (u, st1)"
      and no: "\<not> fl_less u (best_loss s)"
      and same: "same_self st0 st1"
      and below: "best_epoch s < j - 1 \<longrightarrow> stop_round s < early_stop (fst st0)"
  shows "improved env rnd ds st0 sp (Suc j) (s\<lparr>cur := st1, stop_round := stop_round s + 1\<rparr>)"
proof -
  let ?R = "epoch_result env rnd ds st0"
  let ?b = "best_epoch s"
  obtain v stb u0 where j: "0 < j" and best: "best_so_far ?R j ?b v"
    and rb: "?R ?b = Inr (Fin v, stb)" and bl: "best_loss s = Fin v"
    and cp: "holds_checkpoint sp stb (disk s)"
    and sr: "stop_round s = int (j - 1 - ?b)"
    and st: "stall_below (j - 1) ?b (early_stop (fst st0))"
    using inv unfolding improved_def by blast
  have bj: "?b < j" using best by (simp add: best_so_far_def)
  have best': "best_so_far ?R (Suc j) ?b v"
    using best r no bl unfolding best_so_far_def by (auto simp: less_Suc_eq)
  have sr': "stop_round s + 1 = int (Suc j - 1 - ?b)" using sr bj by simp
  have st': "stall_below (Suc j - 1) ?b (early_stop (fst st0))"
    unfolding stall_below_def
  proof (intro allI impI)
    fix e assume e: "?b < e \<and> e < Suc j - 1"
    show "int (e - ?b) < early_stop (fst st0)"
    proof (cases "e < j - 1")
      case True
      then show ?thesis using st e by (simp add: stall_below_def)
    next
      case False
      then have "e = j - 1" using e by arith
      then show ?thesis using below sr e by simp
    qed
  qed
  show ?thesis
    unfolding improved_def using best' rb bl cp r same sr' st' by auto
qed

lemma fit_loop_improved:
  assumes "fit_loop env rnd ds sp [j..<N] s = Inr s'"
      and "improved env rnd ds st0 sp j s" and "j \<le> N"
      and "best_epoch s < j - 1 \<longrightarrow> stop_round s < early_stop (fst st0)"
  shows "\<exists>J. j \<le> J \<and> J \<le> N \<and> improved env rnd ds st0 sp J s' \<and>
             (J = N \<or> early_stop (fst st0) \<le> stop_round s')"
  using assms
proof (induction "N - j" arbitrary: j s)
  case 0
  then show ?case by auto
next
  case (Suc k)
  let ?R = "epoch_result env rnd ds st0"
  have jN: "j < N" using Suc.hyps(2) by simp
  then have l: "[j..<N] = j # [Suc j..<N]" by (simp add: upt_rec)
  have k: "k = N - Suc j" using Suc.hyps(2) by simp
  obtain u c where "?R (j - 1) = Inr (u, c)" and "c = cur s" and j0: "0 < j" and same0: "same_self st0 (cur s)"
    using Suc.prems(2) unfolding improved_def by blast
  then have before: "before_epoch env rnd ds st0 j = Inr (cur s)"
    using before_epoch_Suc [of env rnd ds st0 "j - 1" u c] by simp
  obtain r where r: "run_epoch env (rnd j) ds (cur s) = Inr r"
    and rest: "(if fl_less (fst r) (best_loss s) then
         fit_loop env rnd ds sp [Suc j..<N]
           \<lparr>cur = snd r, disk = save_both sp (snd r) (disk s),
            best_loss = fst r, best_epoch = j, stop_round = 0\<rparr>
       else if early_stop (fst (snd r)) \<le> stop_round s + 1 then
         Inr (s\<lparr>cur := snd r, stop_round := stop_round s + 1\<rparr>)
       else
         fit_loop env rnd ds sp [Suc j..<N] (s\<lparr>cur := snd r, stop_round := stop_round s + 1\<rparr>)) = Inr s'"
    using Suc.prems(1) unfolding l by (auto simp: bindE_eq_Inr)
  have Rj: "?R j = Inr (fst r, snd r)" using epoch_result_step [OF before] r by simp
  have same: "same_self st0 (snd r)" using run_epoch_same [OF r] same0 same_self_trans by blast
  have es: "early_stop (fst (snd r)) = early_stop (fst st0)" using same_self_early_stop [OF same] .
  show ?case
  proof (cases "fl_less (fst r) (best_loss s)")
    case True
    obtain v where bl: "best_loss s = Fin v" and best: "best_so_far ?R j (best_epoch s) v"
      using Suc.prems(2) unfolding improved_def by blast
    obtain v' where v': "fst r = Fin v'" "v' < v" using True bl by (auto simp: fl_less_Fin)
    let ?s1 = "\<lparr>cur = snd r, disk = save_both sp (snd r) (disk s),
            best_loss = fst r, best_epoch = j, stop_round = 0\<rparr>"
    have lower: "\<forall>e<j. \<exists>u st. ?R e = Inr (u, st) \<and> \<not> fl_less u (Fin v') \<and> u \<noteq> Fin v'"
    proof (intro allI impI)
      fix e assume "e < j"
      then obtain u st where "?R e = Inr (u, st)" "\<not> fl_less u (Fin v)"
        using best unfolding best_so_far_def by blast
      then show "\<exists>u st. ?R e = Inr (u, st) \<and> \<not> fl_less u (Fin v') \<and> u \<noteq> Fin v'"
        using v' by (cases u) auto
    qed
    have inv1: "improved env rnd ds st0 sp (Suc j) ?s1"
      using improved_after_improvement [of env rnd ds st0 j v' "snd r" sp "disk s"] Rj v' lower same
      by simp
    have run1: "fit_loop env rnd ds sp [Suc j..<N] ?s1 = Inr s'" using rest True by simp
    obtain J where "Suc j \<le> J" "J \<le> N" "improved env rnd ds st0 sp J s'"
      "J = N \<or> early_stop (fst st0) \<le> stop_round s'"
      using Suc.hyps(1) [OF k run1 inv1] jN by auto
    then show ?thesis by (intro exI [of _ J]) auto
  next
    case False
    have inv2: "improved env rnd ds st0 sp (Suc j) (s\<lparr>cur := snd r, stop_round := stop_round s + 1\<rparr>)"
      using improved_after_stall [OF Suc.prems(2) Rj False same Suc.prems(4)] .
    show ?thesis
    proof (cases "early_stop (fst st0) \<le> stop_round s + 1")
      case True
      then have "s' = s\<lparr>cur := snd r, stop_round := stop_round s + 1\<rparr>"
        using rest False es by simp
      then show ?thesis using inv2 True jN by (intro exI [of _ "Suc j"]) auto
    next
      case stall: False
      have run2: "fit_loop env rnd ds sp [Suc j..<N] (s\<lparr>cur := snd r, stop_round := stop_round s + 1\<rparr>) = Inr s'"
        using rest False stall es by simp
      obtain J where "Suc j \<le> J" "J \<le> N" "improved env rnd ds st0 sp J s'"
        "J = N \<or> early_stop (fst st0) \<le> stop_round s'"
        using Suc.hyps(1) [OF k run2 inv2] jN stall by auto
      then show ?thesis by (intro exI [of _ J]) auto
    qed
  qed
qed

lemma fit_loop_none:
  assumes "fit_loop env rnd ds sp [j..<N] s = Inr s'"
      and "no_improvement env rnd ds st0 fs0 j s" and "j \<le> N"
  shows "(best_loss s' = PosInf \<and> disk s' = fs0) \<or>
         (\<exists>J. J \<le> N \<and> improved env rnd ds st0 sp J s' \<and>
              (J = N \<or> early_stop (fst st0) \<le> stop_round s'))"
  using assms
proof (induction "N - j" arbitrary: j s)
  case 0
  then show ?case by (auto simp: no_improvement_def)
next
  case (Suc k)
  let ?R = "epoch_result env rnd ds st0"
  have jN: "j < N" using Suc.hyps(2) by simp
  then have l: "[j..<N] = j # [Suc j..<N]" by (simp add: upt_rec)
  have k: "k = N - Suc j" using Suc.hyps(2) by simp
  have bl: "best_loss s = PosInf" and dk: "disk s = fs0"
    and before: "before_epoch env rnd ds st0 j = Inr (cur s)"
    and same0: "same_self st0 (cur s)"
    and none: "\<forall>e<j. \<exists>u st. ?R e = Inr (u, st) \<and> \<not> fl_less u PosInf"
    using Suc.prems(2) unfolding no_improvement_def by auto
  obtain r where r: "run_epoch env (rnd j) ds (cur s) = Inr r"
    and rest: "(if fl_less (fst r) (best_loss s) then
         fit_loop env rnd ds sp [Suc j..<N]
           \<lparr>cur = snd r, disk = save_both sp (snd r) (disk s),
            best_loss = fst r, best_epoch = j, stop_round = 0\<rparr>
       else if early_stop (fst (snd r)) \<le> stop_round s + 1 then
         Inr (s\<lparr>cur := snd r, stop_round := stop_round s + 1\<rparr>)
       else
         fit_loop env rnd ds sp [Suc j..<N] (s\<lparr>cur := snd r, stop_round := stop_round s + 1\<rparr>)) = Inr s'"
    using Suc.prems(1) unfolding l by (auto simp: bindE_eq_Inr)
  have Rj: "?R j = Inr (fst r, snd r)" using epoch_result_step [OF before] r by simp
  have same: "same_self st0 (snd r)" using run_epoch_same [OF r] same0 same_self_trans by blast
  show ?case
  proof (cases "fl_less (fst r) (best_loss s)")
    case True
    then obtain v' where v': "fst r = Fin v'" using bl by (auto simp: fl_less_PosInf)
    let ?s1 = "\<lparr>cur = snd r, disk = save_both sp (snd r) (disk s),
            best_loss = fst r, best_epoch = j, stop_round = 0\<rparr>"
    have lower: "\<forall>e<j. \<exists>u st. ?R e = Inr (u, st) \<and> \<not> fl_less u (Fin v') \<and> u \<noteq> Fin v'"
    proof (intro allI impI)
      fix e assume "e < j"
      then obtain u st where "?R e = Inr (u, st)" "\<not> fl_less u PosInf" using none by blast
      then show "\<exists>u st. ?R e = Inr (u, st) \<and> \<not> fl_less u (Fin v') \<and> u \<noteq> Fin v'"
        by (cases u) auto
    qed
    have inv1: "improved env rnd ds st0 sp (Suc j) ?s1"
      using improved_after_improvement [of env rnd ds st0 j v' "snd r" sp "disk s"] Rj v' lower same
      by simp
    have run1: "fit_loop env rnd ds sp [Suc j..<N] ?s1 = Inr s'" using rest True by simp
    obtain J where "Suc j \<le> J" "J \<le> N" "improved env rnd ds st0 sp J s'"
      "J = N \<or> early_stop (fst st0) \<le> stop_round s'"
      using fit_loop_improved [OF run1 inv1] jN by auto
    then show ?thesis by blast
  next
    case False
    let ?s2 = "s\<lparr>cur := snd r, stop_round := stop_round s + 1\<rparr>"
    show ?thesis
    proof (cases "early_stop (fst (snd r)) \<le> stop_round s + 1")
      case True
      then have "s' = ?s2" using rest False by simp
      then show ?thesis using bl dk by simp
    next
      case stall: False
      have run2: "fit_loop env rnd ds sp [Suc j..<N] ?s2 = Inr s'" using rest False stall by simp
      have "?R j = Inr (fst r, snd r) \<and> \<not> fl_less (fst r) PosInf"
        using Rj False bl by simp
      then have "\<exists>u st. ?R j = Inr (u, st) \<and> \<not> fl_less u PosInf"
        by blast
      then have "\<forall>e<Suc j. \<exists>u st. ?R e = Inr (u, st) \<and> \<not> fl_less u PosInf"
        using none by (simp add: less_Suc_eq)
      then have inv2: "no_improvement env rnd ds st0 fs0 (Suc j) ?s2"
        unfolding no_improvement_def using bl dk same before_epoch_Suc [OF Rj] by simp
      show ?thesis using Suc.hyps(1) [OF k run2 inv2] jN by simp
    qed
  qed
qed

lemma layers_set_params_kinds: "map is_Linear (layers_set_params ls ps) = map is_Linear ls"
  by (induction ls ps rule: layers_set_params.induct) simp_all

lemma layers_params_set:
  "map is_Linear ls = map is_Linear ls' \<Longrightarrow>
     layers_params (layers_set_params ls (layers_params ls')) = layers_params ls'"
proof (induction ls arbitrary: ls')
  case Nil
  then show ?case by simp
next
  case (Cons l ls)
  then obtain l' ms where ls': "ls' = l' # ms" by (cases ls') auto
  then have k: "is_Linear l = is_Linear l'" and r: "map is_Linear ls = map is_Linear ms"
    using Cons.prems by simp_all
  show ?case using Cons.IH [OF r] k unfolding ls'
    by (cases l; cases l') simp_all
qed

lemma mlp_params_set:
  "map is_Linear (mlp w) = map is_Linear (mlp w') \<Longrightarrow>
     mlp_params (mlp_set_params w (mlp_params w')) = mlp_params w'"
  by (simp add: mlp_params_def mlp_set_params_def layers_params_set)

lemma same_net_refl: "same_net st st"
  by (simp add: same_net_def)

lemma same_net_trans: "same_net a b \<Longrightarrow> same_net b c \<Longrightarrow> same_net a c"
  unfolding same_net_def by metis

lemma fore_update_net: "fore_update env L st = Inr st' \<Longrightarrow> same_net st st'"
  using fore_update_frame [of env L st st'] by (simp add: same_net_def)

lemma weight_update_net: "weight_update env L st = Inr st' \<Longrightarrow> same_net st st'"
  by (auto simp: weight_update_def Let_def same_net_def mlp_set_params_def layers_set_params_kinds
      split: if_splits)

lemma phaseA_step_net: "phaseA_step env rnd a x y ind k i st = Inr st' \<Longrightarrow> same_net st st'"
  using phaseA_step_update fore_update_net by blast

lemma phaseB_step_net: "phaseB_step env rnd x y ind i st = Inr st' \<Longrightarrow> same_net st st'"
  using phaseB_step_update weight_update_net by blast

lemma phaseA_net:
  assumes "phaseA env rnd a xt yt st = Inr st'"
  shows "same_net st st'"
proof -
  let ?ind = "shuffled (perm_train rnd) (length xt)"
  have run: "forE [0..<steps (fst st)]
        (\<lambda>k. for_batches (length ?ind) (batch_size (fst st))
                (phaseA_step env rnd a xt (squeeze yt) ?ind k)) st = Inr st'"
    using assms by (simp add: phaseA_def Let_def)
  show ?thesis
  proof (rule forE_invariant [where P = "same_net st", OF _ _ run])
    show "same_net st st" by (rule same_net_refl)
  next
    fix k s s'
    assume b: "for_batches (length ?ind) (batch_size (fst st))
                 (phaseA_step env rnd a xt (squeeze yt) ?ind k) s = Inr s'"
      and r: "same_net st s"
    show "same_net st s'"
    proof (rule for_batches_invariant [where P = "same_net st", OF _ r b])
      fix i t t'
      assume "phaseA_step env rnd a xt (squeeze yt) ?ind k i t = Inr t'" and "same_net st t"
      then show "same_net st t'" using phaseA_step_net same_net_trans by blast
    qed
  qed
qed

lemma phaseB_net:
  assumes "phaseB env rnd xv yv st = Inr st'"
  shows "same_net st st'"
proof -
  let ?m2 = "set_fore_flags (fore_model (fst st)) (\<lambda>g. g\<lparr>gm_requires_grad := False\<rparr>)
               (set_weight_flags (weight_model (fst st)) (\<lambda>w. w\<lparr>mlp_requires_grad := True\<rparr>) (snd st))"
  obtain n bs ind where run: "for_batches n bs (phaseB_step env rnd xv (squeeze yv) ind) (fst st, ?m2) = Inr st'"
    using assms by (auto simp: phaseB_def Let_def)
  show ?thesis
  proof (rule for_batches_invariant [where P = "same_net st", OF _ _ run])
    show "same_net st (fst st, ?m2)"
      by (simp add: same_net_def set_fore_flags_def set_weight_flags_def)
  next
    fix i t t'
    assume "phaseB_step env rnd xv (squeeze yv) ind i t = Inr t'" and "same_net st t"
    then show "same_net st t'" using phaseB_step_net same_net_trans by blast
  qed
qed

lemma train_epoch_net:
  assumes "train_epoch env rnd xt yt xv yv st = Inr st'"
  shows "same_net st st'"
proof -
  obtain st1 where a: "phaseA env rnd (fst (phaseA_begin st)) xt yt (snd (phaseA_begin st)) = Inr st1"
    and b: "phaseB env rnd xv yv st1 = Inr st'"
    using assms by (auto simp: train_epoch_def Let_def bindE_eq_Inr)
  have "same_net st (snd (phaseA_begin st))"
    by (simp add: same_net_def phaseA_begin_def Let_def deepcopy_gru_def new_gru_def
        set_fore_flags_def set_weight_flags_def)
  then show ?thesis using phaseA_net [OF a] phaseB_net [OF b] same_net_trans by blast
qed

lemma test_epoch_net:
  assumes "test_epoch env self x y m = Inr r"
  shows "mlp_heap (snd r) = mlp_heap m"
  using assms by (auto simp: test_epoch_def Let_def bindE_eq_Inr set_fore_flags_def)

lemma run_epoch_net:
  assumes "run_epoch env rnd ds st = Inr r"
  shows "same_net st (snd r)"
proof -
  obtain st1 v t where tr: "train_epoch env rnd (x_train ds) (y_train ds) (x_valid ds) (y_valid ds) st = Inr st1"
    and v: "test_epoch env (fst st1) (x_valid ds) (y_valid ds) (snd st1) = Inr v"
    and t: "test_epoch env (fst st1) (x_test ds) (y_test ds) (snd v) = Inr t"
    and r: "snd r = (fst st1, snd t)"
    using assms by (auto simp: run_epoch_def bindE_eq_Inr)
  have "same_net st1 (snd r)"
    using test_epoch_net [OF v] test_epoch_net [OF t] r by (simp add: same_net_def)
  then show ?thesis using train_epoch_net [OF tr] same_net_trans by blast
qed

lemma epoch_result_net:
  "epoch_result env rnd ds st0 e = Inr r \<Longrightarrow> same_net st0 (snd r)"
proof (induction e arbitrary: r)
  case 0
  then show ?case using run_epoch_net by simp
next
  case (Suc e)
  then obtain q where q: "epoch_result env rnd ds st0 e = Inr q"
    and r: "run_epoch env (rnd (Suc e)) ds (snd q) = Inr r"
    by (auto simp: bindE_eq_Inr)
  show ?case using Suc.IH [OF q] run_epoch_net [OF r] same_net_trans by blast
qed

lemma reloaded_weight_params:
  assumes "epoch_result env rnd ds st0 b = Inr (Fin v, stb)"
      and "epoch_result env rnd ds st0 j = Inr (u, st_last)"
  shows "mlp_params (mlp_set_params (mlp_heap (snd st_last) (weight_model (fst st_last)))
           (mlp_params (mlp_heap (snd stb) (weight_model (fst stb))))) =
         mlp_params (mlp_heap (snd stb) (weight_model (fst stb)))"
proof -
  have "same_net st0 stb" "same_net st0 st_last"
    using epoch_result_net [OF assms(1)] epoch_result_net [OF assms(2)] by simp_all
  then have "map is_Linear (mlp (mlp_heap (snd st_last) (weight_model (fst st_last)))) =
             map is_Linear (mlp (mlp_heap (snd stb) (weight_model (fst stb))))"
    unfolding same_net_def by metis
  then show ?thesis by (rule mlp_params_set)
qed

text \<open>
  Claim C2, for the runs of \<open>fit\<close> that return. Let \<open>fit\<close> return when started on a
  disk with no checkpoint under \<open>save_path\<close>. Then it ran the epochs \<open>0, \<dots>, J - 1\<close>
  for some \<open>J\<close> between one and \<open>n_epochs\<close>, and with \<open>b\<close> the first of them with the
  least validation loss \<open>v\<close>: the stall counter, which is \<open>e - b\<close> after an epoch \<open>e\<close>
  past \<open>b\<close>, stayed below \<open>early_stop\<close> until the last epoch, and the loop ended by
  exhaustion or because the counter reached \<open>early_stop\<close> at the last epoch; the two
  checkpoint files hold the parameters the networks had at the end of epoch \<open>b\<close>; and
  on return the model is marked fitted and both networks have, in place, the
  parameters of the end of epoch \<open>b\<close>.
\<close>

theorem fit_early_stopping:
  assumes fit: "fit env rnd ds sp st0 fs0 = Inr (st', fs')"
      and fresh: "fs0 (fore_path sp) = None"
  shows "\<exists>J b v stb u st_last.
           0 < J \<and> J \<le> n_epochs (fst st0) \<and>
           best_so_far (epoch_result env rnd ds st0) J b v \<and>
           epoch_result env rnd ds st0 b = Inr (Fin v, stb) \<and>
           epoch_result env rnd ds st0 (J - 1) = Inr (u, st_last) \<and>
           stall_below (J - 1) b (early_stop (fst st0)) \<and>
           (J = n_epochs (fst st0) \<or> early_stop (fst st0) \<le> int (J - 1 - b)) \<and>
           holds_checkpoint sp stb fs' \<and>
           fitted (fst st') \<and>
           gru_heap (snd st') (fore_model (fst st')) =
             gm_set_params (gru_heap (snd st_last) (fore_model (fst st_last)))
               (gm_params (gru_heap (snd stb) (fore_model (fst stb)))) \<and>
           gm_params (gru_heap (snd st') (fore_model (fst st'))) =
             gm_params (gru_heap (snd stb) (fore_model (fst stb))) \<and>
           mlp_heap (snd st') (weight_model (fst st')) =
             mlp_set_params (mlp_heap (snd st_last) (weight_model (fst st_last)))
               (mlp_params (mlp_heap (snd stb) (weight_model (fst stb)))) \<and>
           mlp_params (mlp_heap (snd st') (weight_model (fst st'))) =
             mlp_params (mlp_heap (snd stb) (weight_model (fst stb)))"
proof -
  let ?R = "epoch_result env rnd ds st0"
  let ?N = "n_epochs (fst st0)"
  let ?s0 = "\<lparr>cur = st0, disk = fs0, best_loss = PosInf, best_epoch = 0, stop_round = 0\<rparr>"
  obtain s where loop: "fit_loop env rnd ds sp [0..<?N] ?s0 = Inr s"
    and rel: "reload sp s = Inr (st', fs')"
    using fit by (auto simp: fit_def bindE_eq_Inr)
  have inv0: "no_improvement env rnd ds st0 fs0 0 ?s0"
    by (simp add: no_improvement_def before_epoch_def)
  have "disk s \<noteq> fs0"
  proof
    assume "disk s = fs0"
    then have "reload sp s = Inl FileNotFoundError"
      using fresh by (simp add: reload_def Let_def torch_load_def)
    then show False using rel by simp
  qed
  then obtain J where J: "J \<le> ?N" and imp: "improved env rnd ds st0 sp J s"
    and stop: "J = ?N \<or> early_stop (fst st0) \<le> stop_round s"
    using fit_loop_none [OF loop inv0] by auto
  obtain v stb u where j: "0 < J" and best: "best_so_far ?R J (best_epoch s) v"
    and rb: "?R (best_epoch s) = Inr (Fin v, stb)"
    and cp: "holds_checkpoint sp stb (disk s)"
    and last: "?R (J - 1) = Inr (u, cur s)"
    and sr: "stop_round s = int (J - 1 - best_epoch s)"
    and st: "stall_below (J - 1) (best_epoch s) (early_stop (fst st0))"
    using imp unfolding improved_def by blast
  let ?a = "fore_model (fst (cur s))"
  let ?w = "weight_model (fst (cur s))"
  let ?pf = "gm_params (gru_heap (snd stb) (fore_model (fst stb)))"
  let ?pw = "mlp_params (mlp_heap (snd stb) (weight_model (fst stb)))"
  have res: "st' = ((fst (cur s))\<lparr>fitted := True\<rparr>,
                   set_weight_flags ?w (\<lambda>w. mlp_set_params w ?pw)
                     (set_fore_flags ?a (\<lambda>g. gm_set_params g ?pf) (snd (cur s))))"
    and fs: "fs' = disk s"
    using rel cp
    by (auto simp: reload_def Let_def torch_load_def holds_checkpoint_def
        gru_load_state_dict_def mlp_load_state_dict_def)
  have g: "gru_heap (snd st') (fore_model (fst st')) = gm_set_params (gru_heap (snd (cur s)) ?a) ?pf"
    and w: "mlp_heap (snd st') (weight_model (fst st')) = mlp_set_params (mlp_heap (snd (cur s)) ?w) ?pw"
    and f: "fitted (fst st')"
    by (simp_all add: res set_fore_flags_def set_weight_flags_def)
  have wp: "mlp_params (mlp_heap (snd st') (weight_model (fst st'))) = ?pw"
    unfolding w using reloaded_weight_params [OF rb last] .
  show ?thesis
    apply (rule exI [of _ J])
    apply (rule exI [of _ "best_epoch s"])
    apply (rule exI [of _ v])
    apply (rule exI [of _ stb])
    apply (rule exI [of _ u])
    apply (rule exI [of _ "cur s"])
    using j J best rb last st stop sr cp fs g w f wp by simp
qed

section \<open>The small instance, trained and fitted\<close>

lemma tiny_gru_at_forward:
  "GRUModel_forward tiny_env keep (tiny_gru_at w t r) [[a], [b]] = Inr (T1 [a * w, b * w])"
  by (simp add: GRUModel_forward_def tiny_gru_at_def tiny_env_def reshape_permute_def
      linear_forward_def dot_def squeeze_def enumerate_eq_zip upt2)

lemma tiny_mlp_at_forward:
  "MLPModel_forward keep (tiny_mlp_at b t r)
     [[a1, a2, a3, a4, a5, a6], [b1, b2, b3, b4, b5, b6]] =
     Inr [[1 / 2, 1 / 2], [1 / 2, 1 / 2]]"
  by (simp add: MLPModel_forward_def tiny_mlp_at_def linear_forward_def dot_def squeeze_def
      Softmax_dim1_def softmax_row_def)

lemma tiny_weight_input_at:
  "weight_input [[2], [1]] (T2 [[0, 3], [0, 1]]) (T1 [p, q]) =
     Inr [[2, p, p - 3, 0, 3, p], [1, q, q - 1, 0, 1, q]]"
  by (simp add: weight_input_def transpose01_def ncols_def t_sub_def bc_vec_def upt2)

lemma tiny_weight_input_at':
  "weight_input [[1], [2]] (T2 [[0, 1], [0, 3]]) (T1 [p, q]) =
     Inr [[1, p, p - 1, 0, 1, p], [2, q, q - 3, 0, 3, q]]"
  by (simp add: weight_input_def transpose01_def ncols_def t_sub_def bc_vec_def upt2)

lemma tiny_mem_heap: "tiny_mem = tiny_heap (tiny_gru_at 1 True True) (\<lambda>a. tiny_gru) 1 (tiny_mlp_at 0 True True)"
  by (simp add: tiny_mem_def tiny_heap_def tiny_gru_at_def tiny_gru_def tiny_mlp_at_def tiny_mlp_def fun_eq_iff)

lemma tiny_long_fields:
  "fore_model (tiny_long N) = 0" "weight_model (tiny_long N) = 0" "batch_size (tiny_long N) = 2"
  "steps (tiny_long N) = 1" "n_epochs (tiny_long N) = N" "early_stop (tiny_long N) = 1"
  "target_label (tiny_long N) = 0"
  "opt_target (fore_optimizer (tiny_long N)) = 0" "opt_target (weight_optimizer (tiny_long N)) = 0"
  by (simp_all add: tiny_long_def tiny_self_def)

lemma tiny_heap_fields:
  "gru_heap (tiny_heap g old n w) 0 = g" "a \<noteq> 0 \<Longrightarrow> gru_heap (tiny_heap g old n w) a = old a"
  "mlp_heap (tiny_heap g old n w) 0 = w" "gru_next (tiny_heap g old n w) = n"
  by (simp_all add: tiny_heap_def)

lemma tiny_heap_begin:
  assumes "0 < n"
  shows "phaseA_begin (tiny_long N, tiny_heap (tiny_gru_at w t r) old n (tiny_mlp_at b t' r')) =
     (n, (tiny_long N, tiny_heap (tiny_gru_at w True True) (old(n := tiny_gru_at w t r)) (Suc n)
                         (tiny_mlp_at b True False)))"
  using assms
  by (simp add: phaseA_begin_def Let_def deepcopy_gru_def new_gru_def set_fore_flags_def
      set_weight_flags_def tiny_long_fields tiny_heap_def tiny_gru_at_def tiny_mlp_at_def fun_upd_twist)

lemma tiny_heap_phaseA_forward:
  assumes "0 < c" and "old c = tiny_gru_at w t r"
  shows "phaseA_forward tiny_env tiny_rand c k i [[2], [1]] (T2 [[0, 3], [0, 1]])
           (tiny_long N, tiny_heap (tiny_gru_at w1 t1 r1) old n (tiny_mlp_at b t' r')) =
         Inr (T1 [2 * w1, w1], [[1 / 2, 1 / 2], [1 / 2, 1 / 2]])"
  using assms
  by (simp add: phaseA_forward_def tiny_long_fields tiny_heap_fields tiny_gru_at_forward
      tiny_weight_input_at tiny_mlp_at_forward)

lemma tiny_loss_fn_at:
  "loss_fn (T1 [p, q]) (T2 [[0, 3], [0, 1]]) [[1 / 2, 1 / 2], [1 / 2, 1 / 2]] =
     Inr (Fin ((p * p + q * q) / 2))"
  by (simp add: loss_fn_def torch_argmax1_def argmax_row_def index_rows_def upt2 t_sub_def
      bc_vec_def torch_mean_def mean_def power2_eq_square)

lemma tiny_heap_fore_update:
  "fore_update tiny_env L (tiny_long N, tiny_heap (tiny_gru_at w t True) old n wm) =
     Inr (tiny_long N, tiny_heap (tiny_gru_at (w + 1) t True) old n wm)"
  by (simp add: fore_update_def Let_def tiny_long_def tiny_self_def tiny_heap_def tiny_env_def
      tiny_gru_at_def gm_params_def gm_set_params_def clip_gparams_def)

lemma tiny_heap_phaseA_step:
  assumes "0 < c" and "old c = tiny_gru_at w t r"
  shows "phaseA_step tiny_env tiny_rand c [[1], [2]] (T2 [[0, 1], [0, 3]]) [Suc 0, 0] k 0
           (tiny_long N, tiny_heap (tiny_gru_at w1 t1 True) old n (tiny_mlp_at b t' r')) =
         Inr (tiny_long N, tiny_heap (tiny_gru_at (w1 + 1) t1 True) old n (tiny_mlp_at b t' r'))"
proof -
  have f: "take_rows_mat [[1], [2]] [Suc 0, 0] = Inr [[2], [1]]"
    by (simp add: take_rows_mat_def)
  have l: "take_rows (T2 [[0, 1], [0, 3]]) [Suc 0, 0] = Inr (T2 [[0, 3], [0, 1]])"
    by (simp add: take_rows_def take_rows_mat_def)
  have s: "slice 0 (0 + batch_size (tiny_long N)) [Suc 0, 0] = [Suc 0, 0]"
    by (simp add: slice_def tiny_long_fields)
  show ?thesis
    unfolding phaseA_step_def Let_def fst_conv snd_conv s
    by (simp only: f l bindE_Inr tiny_heap_phaseA_forward [where old = old, OF assms] tiny_loss_fn_at
        tiny_heap_fore_update fst_conv snd_conv)
qed

lemma tiny_heap_phaseA:
  assumes "0 < c" and "old c = tiny_gru_at w t r"
  shows "phaseA tiny_env tiny_rand c [[1], [2]] [[0, 1], [0, 3]]
           (tiny_long N, tiny_heap (tiny_gru_at w1 t1 True) old n (tiny_mlp_at b t' r')) =
         Inr (tiny_long N, tiny_heap (tiny_gru_at (w1 + 1) t1 True) old n (tiny_mlp_at b t' r'))"
proof -
  have r: "range_step (Suc (Suc 0)) 2 = Inr [0]" by (simp add: range_step_def)
  have sh: "shuffled (perm_train tiny_rand) (length [[1], [2::real]]) = [Suc 0, 0]"
    using tiny_shuffled by simp
  show ?thesis
    unfolding phaseA_def Let_def sh tiny_squeeze_labels
    by (simp add: tiny_long_fields for_batches_def r tiny_heap_phaseA_step [where old = old, OF assms])
qed

lemma tiny_heap_phaseB_forward:
  "phaseB_forward tiny_env tiny_rand i [[1], [2]] (T2 [[0, 1], [0, 3]])
     (tiny_long N, tiny_heap (tiny_gru_at w t r) old n (tiny_mlp_at b t' r')) =
   Inr (T1 [w, 2 * w], [[1, w, w - 1, 0, 1, w], [2, 2 * w, 2 * w - 3, 0, 3, 2 * w]],
        [[1 / 2, 1 / 2], [1 / 2, 1 / 2]])"
  by (simp add: phaseB_forward_def tiny_long_fields tiny_heap_fields tiny_gru_at_forward
      tiny_weight_input_at' tiny_mlp_at_forward)

lemma tiny_heap_weight_update:
  "weight_update tiny_env L (tiny_long N, tiny_heap g old n (tiny_mlp_at b t True)) =
     Inr (tiny_long N, tiny_heap g old n (tiny_mlp_at (b + 1) t True))"
  by (simp add: weight_update_def Let_def tiny_long_def tiny_self_def tiny_heap_def tiny_env_def
      tiny_mlp_at_def mlp_params_def mlp_set_params_def clip_mparams_def)

lemma tiny_heap_phaseB_step:
  "phaseB_step tiny_env tiny_rand [[1], [2]] (T2 [[0, 1], [0, 3]]) [0, Suc 0] 0
     (tiny_long N, tiny_heap (tiny_gru_at w t r) old n (tiny_mlp_at b t' True)) =
   Inr (tiny_long N, tiny_heap (tiny_gru_at w t r) old n (tiny_mlp_at (b + 1) t' True))"
proof -
  have f: "take_rows_mat [[1], [2]] [0, Suc 0] = Inr [[1], [2]]"
    by (simp add: take_rows_mat_def)
  have l: "take_rows (T2 [[0, 1], [0, 3]]) [0, Suc 0] = Inr (T2 [[0, 1], [0, 3]])"
    by (simp add: take_rows_def take_rows_mat_def)
  have s: "slice 0 (0 + batch_size (tiny_long N)) [0, Suc 0] = [0, Suc 0]"
    by (simp add: slice_def tiny_long_fields)
  have a: "torch_argmax1 [[1 / 2, 1 / 2], [1 / 2, 1 / 2]] = Inr [0, 0]"
    by (simp add: torch_argmax1_def argmax_row_def)
  have c: "select_col (T2 [[0, 1], [0, 3]]) 0 = Inr (T1 [0, 0])"
    by (simp add: select_col_def)
  have d: "t_sub (T1 [w, 2 * w]) (T1 [0, 0]) = Inr (T1 [w, 2 * w])"
    by (simp add: t_sub_def bc_vec_def)
  have p: "\<exists>v. policy_loss (torch_mean (t_map (\<lambda>x. x ^ 2) (T1 [w, 2 * w]))) [0, 0]
             [[1 / 2, 1 / 2], [1 / 2, 1 / 2]] = Inr v"
    by (simp add: policy_loss_def index_rows_def upt2)
  then obtain v where v: "policy_loss (torch_mean (t_map (\<lambda>x. x ^ 2) (T1 [w, 2 * w]))) [0, 0]
             [[1 / 2, 1 / 2], [1 / 2, 1 / 2]] = Inr v" ..
  show ?thesis
    unfolding phaseB_step_def Let_def fst_conv snd_conv s
    by (simp only: f l bindE_Inr tiny_heap_phaseB_forward a c d v tiny_heap_weight_update
        fst_conv snd_conv)
qed

lemma tiny_heap_phaseB:
  "phaseB tiny_env tiny_rand [[1], [2]] [[0, 1], [0, 3]]
     (tiny_long N, tiny_heap (tiny_gru_at w t r) old n (tiny_mlp_at b t' r')) =
   Inr (tiny_long N, tiny_heap (tiny_gru_at w t False) old n (tiny_mlp_at (b + 1) t' True))"
proof -
  have r: "range_step (Suc (Suc 0)) 2 = Inr [0]" by (simp add: range_step_def)
  have sh: "shuffled (perm_valid tiny_rand) (length [[1], [2::real]]) = [0, Suc 0]"
    by (simp add: shuffled_def tiny_rand_def upt2)
  have m: "set_fore_flags (fore_model (tiny_long N)) (\<lambda>g. g\<lparr>gm_requires_grad := False\<rparr>)
             (set_weight_flags (weight_model (tiny_long N)) (\<lambda>w. w\<lparr>mlp_requires_grad := True\<rparr>)
                (tiny_heap (tiny_gru_at w t r) old n (tiny_mlp_at b t' r'))) =
           tiny_heap (tiny_gru_at w t False) old n (tiny_mlp_at b t' True)"
    by (simp add: set_fore_flags_def set_weight_flags_def tiny_long_fields tiny_heap_def
        tiny_gru_at_def tiny_mlp_at_def)
  show ?thesis
    unfolding phaseB_def Let_def sh tiny_squeeze_labels fst_conv snd_conv m
    by (simp add: tiny_long_fields for_batches_def r tiny_heap_phaseB_step)
qed

lemma tiny_heap_phaseB_short:
  "phaseB tiny_env tiny_rand [[1]] [[0, 1]]
     (tiny_long N, tiny_heap (tiny_gru_at w t r) old n (tiny_mlp_at b t' r')) =
   Inr (tiny_long N, tiny_heap (tiny_gru_at w t False) old n (tiny_mlp_at b t' True))"
proof -
  have r: "range_step (Suc 0) 2 = Inr [0]" by (simp add: range_step_def)
  have m: "set_fore_flags (fore_model (tiny_long N)) (\<lambda>g. g\<lparr>gm_requires_grad := False\<rparr>)
             (set_weight_flags (weight_model (tiny_long N)) (\<lambda>w. w\<lparr>mlp_requires_grad := True\<rparr>)
                (tiny_heap (tiny_gru_at w t r) old n (tiny_mlp_at b t' r'))) =
           tiny_heap (tiny_gru_at w t False) old n (tiny_mlp_at b t' True)"
    by (simp add: set_fore_flags_def set_weight_flags_def tiny_long_fields tiny_heap_def
        tiny_gru_at_def tiny_mlp_at_def)
  show ?thesis
    unfolding phaseB_def Let_def fst_conv snd_conv m
    by (simp add: tiny_long_fields for_batches_def r shuffled_def tiny_rand_def)
qed

lemma tiny_heap_train_epoch:
  assumes "0 < n"
  shows "train_epoch tiny_env tiny_rand [[1], [2]] [[0, 1], [0, 3]] [[1], [2]] [[0, 1], [0, 3]]
           (tiny_long N, tiny_heap (tiny_gru_at w t r) old n (tiny_mlp_at b t' r')) =
         Inr (tiny_long N, tiny_heap (tiny_gru_at (w + 1) True False) (old(n := tiny_gru_at w t r)) (Suc n)
                             (tiny_mlp_at (b + 1) True True))"
proof -
  have c: "(old(n := tiny_gru_at w t r)) n = tiny_gru_at w t r" by simp
  show ?thesis
    unfolding train_epoch_def Let_def tiny_heap_begin [OF assms] fst_conv snd_conv
    by (simp only: tiny_heap_phaseA [where old = "old(n := tiny_gru_at w t r)", OF assms c]
        bindE_Inr tiny_heap_phaseB)
qed

lemma tiny_heap_train_epoch_short:
  assumes "0 < n"
  shows "train_epoch tiny_env tiny_rand [[1], [2]] [[0, 1], [0, 3]] [[1]] [[0, 1]]
           (tiny_long N, tiny_heap (tiny_gru_at w t r) old n (tiny_mlp_at b t' r')) =
         Inr (tiny_long N, tiny_heap (tiny_gru_at (w + 1) True False) (old(n := tiny_gru_at w t r)) (Suc n)
                             (tiny_mlp_at b True True))"
proof -
  have c: "(old(n := tiny_gru_at w t r)) n = tiny_gru_at w t r" by simp
  show ?thesis
    unfolding train_epoch_def Let_def tiny_heap_begin [OF assms] fst_conv snd_conv
    by (simp only: tiny_heap_phaseA [where old = "old(n := tiny_gru_at w t r)", OF assms c]
        bindE_Inr tiny_heap_phaseB_short)
qed

lemma tiny_heap_eval:
  "set_fore_flags (fore_model (tiny_long N)) (\<lambda>g. g\<lparr>gm_training := False\<rparr>)
     (tiny_heap (tiny_gru_at w t r) old n wm) = tiny_heap (tiny_gru_at w False r) old n wm"
  by (simp add: set_fore_flags_def tiny_long_fields tiny_heap_def tiny_gru_at_def)

lemma tiny_heap_test_batch:
  assumes "w * w \<le> 100"
  shows "test_batch tiny_env (tiny_long N) (tiny_heap (tiny_gru_at w t r) old n wm) [[1], [2]]
     (T2 [[0, 1], [0, 3]]) [0, Suc 0] 0 losses = Inr (losses @ [Fin (5 * w * w / 2)])"
proof -
  have f: "take_rows_mat [[1], [2]] [0, Suc 0] = Inr [[1], [2]]"
    by (simp add: take_rows_mat_def)
  have l: "take_rows (T2 [[0, 1], [0, 3]]) [0, Suc 0] = Inr (T2 [[0, 1], [0, 3]])"
    by (simp add: take_rows_def take_rows_mat_def)
  have s: "slice 0 (0 + batch_size (tiny_long N)) [0, Suc 0] = [0, Suc 0]"
    by (simp add: slice_def tiny_long_fields)
  have "w * w + 2 * w * (2 * w) = 5 * (w * w)" by simp
  then have sm: "\<not> float32_max < w * w + 2 * w * (2 * w)"
    using assms float32_small [of "5 * (w * w)"] by simp
  have e: "squared_error (T1 [1 * w, 2 * w]) (T2 [[0, 1], [0, 3]]) (nat \<bar>target_label (tiny_long N)\<bar>) =
             Inr (Fin (5 * w * w / 2))"
    using sm
    by (simp add: squared_error_def select_col_def t_sub_def bc_vec_def torch_mean_def mean_def
        power2_eq_square tiny_long_fields float32_mean_squares_def)
  show ?thesis
    unfolding test_batch_def Let_def s
    by (simp only: f l bindE_Inr tiny_heap_fields tiny_long_fields(1) tiny_gru_at_forward e)
qed

lemma tiny_heap_test_epoch:
  assumes "w * w \<le> 100"
  shows "test_epoch tiny_env (tiny_long N) [[1], [2]] [[0, 1], [0, 3]] (tiny_heap (tiny_gru_at w t r) old n wm) =
     Inr (Fin (5 * w * w / 2), tiny_heap (tiny_gru_at w False r) old n wm)"
proof -
  have r: "range_step (Suc (Suc 0)) 2 = Inr [0]" by (simp add: range_step_def)
  have u: "[0..<length [[1], [2::real]]] = [0, Suc 0]" by (simp add: upt2)
  show ?thesis
    unfolding test_epoch_def Let_def tiny_heap_eval tiny_squeeze_labels u
    by (simp add: tiny_long_fields for_batches_def r tiny_heap_test_batch [OF assms] np_mean_def mean_def)
qed

lemma tiny_heap_test_epoch_short:
  "test_epoch tiny_env (tiny_long N) [[1]] [[0, 1]] (tiny_heap (tiny_gru_at w t r) old n wm) =
     Inr (NaN, tiny_heap (tiny_gru_at w False r) old n wm)"
proof -
  have r: "range_step (Suc 0) 2 = Inr [0]" by (simp add: range_step_def)
  show ?thesis
    unfolding test_epoch_def Let_def tiny_heap_eval
    by (simp add: tiny_long_fields for_batches_def r np_mean_def mean_def)
qed

lemma tiny_heap_run_epoch:
  assumes "0 < n" and "(w + 1) * (w + 1) \<le> 100"
  shows "run_epoch tiny_env tiny_rand tiny_ds
           (tiny_long N, tiny_heap (tiny_gru_at w t r) old n (tiny_mlp_at b t' r')) =
         Inr (Fin (5 * (w + 1) * (w + 1) / 2),
              (tiny_long N, tiny_heap (tiny_gru_at (w + 1) False False) (old(n := tiny_gru_at w t r)) (Suc n)
                              (tiny_mlp_at (b + 1) True True)))"
proof -
  have d: "x_train tiny_ds = [[1], [2]]" "y_train tiny_ds = [[0, 1], [0, 3]]"
    "x_valid tiny_ds = [[1], [2]]" "y_valid tiny_ds = [[0, 1], [0, 3]]"
    "x_test tiny_ds = [[1], [2]]" "y_test tiny_ds = [[0, 1], [0, 3]]"
    by (simp_all add: tiny_ds_def)
  show ?thesis
    unfolding run_epoch_def d
    by (simp only: tiny_heap_train_epoch [OF assms(1)] bindE_Inr fst_conv snd_conv
        tiny_heap_test_epoch [OF assms(2)])
qed

lemma tiny_heap_run_epoch_short:
  assumes "0 < n" and "(w + 1) * (w + 1) \<le> 100"
  shows "run_epoch tiny_env tiny_rand tiny_short_ds
           (tiny_long N, tiny_heap (tiny_gru_at w t r) old n (tiny_mlp_at b t' r')) =
         Inr (NaN,
              (tiny_long N, tiny_heap (tiny_gru_at (w + 1) False False) (old(n := tiny_gru_at w t r)) (Suc n)
                              (tiny_mlp_at b True True)))"
proof -
  have d: "x_train tiny_short_ds = [[1], [2]]" "y_train tiny_short_ds = [[0, 1], [0, 3]]"
    "x_valid tiny_short_ds = [[1]]" "y_valid tiny_short_ds = [[0, 1]]"
    "x_test tiny_short_ds = [[1], [2]]" "y_test tiny_short_ds = [[0, 1], [0, 3]]"
    by (simp_all add: tiny_short_ds_def tiny_ds_def)
  show ?thesis
    unfolding run_epoch_def d
    by (simp only: tiny_heap_train_epoch_short [OF assms(1)] bindE_Inr fst_conv snd_conv
        tiny_heap_test_epoch [OF assms(2)] tiny_heap_test_epoch_short)
qed

lemma upt3: "[0..<3] = [0, 1, 2]"
  by (simp add: numeral_3_eq_3 upt_conv_Cons)

lemma tiny_run_epoch0:
  "run_epoch tiny_env tiny_rand tiny_ds (tiny_long 3, tiny_mem) = Inr (Fin 10, tiny_epoch0)"
  using tiny_heap_run_epoch [where n = 1 and N = 3 and w = 1 and t = True and r = True
      and old = "\<lambda>a. tiny_gru" and b = 0 and t' = True and r' = True]
  by (simp add: tiny_mem_heap tiny_epoch0_def numeral_2_eq_2)

lemma tiny_run_epoch1:
  "run_epoch tiny_env tiny_rand tiny_ds tiny_epoch0 = Inr (Fin (45 / 2), tiny_epoch1)"
  using tiny_heap_run_epoch [where n = 2 and N = 3 and w = 2 and t = False and r = False
      and old = "(\<lambda>a. tiny_gru)(1 := tiny_gru_at 1 True True)" and b = 1 and t' = True and r' = True]
  by (simp add: tiny_epoch0_def tiny_epoch1_def numeral_2_eq_2 numeral_3_eq_3)

lemma tiny_fit_loop:
  "fit_loop tiny_env (\<lambda>e. tiny_rand) tiny_ds ''ckpt'' [0..<3]
     \<lparr>cur = (tiny_long 3, tiny_mem), disk = tiny_disk, best_loss = PosInf, best_epoch = 0, stop_round = 0\<rparr> =
   Inr \<lparr>cur = tiny_epoch1, disk = save_both ''ckpt'' tiny_epoch0 tiny_disk, best_loss = Fin 10,
        best_epoch = 0, stop_round = 1\<rparr>"
proof -
  have e: "early_stop (fst tiny_epoch1) = 1" by (simp add: tiny_epoch1_def tiny_long_fields)
  show ?thesis
    unfolding upt3 by (simp add: tiny_run_epoch0 tiny_run_epoch1 e)
qed

lemma tiny_reload:
  "reload ''ckpt'' \<lparr>cur = tiny_epoch1, disk = save_both ''ckpt'' tiny_epoch0 tiny_disk, best_loss = Fin 10,
        best_epoch = 0, stop_round = 1\<rparr> =
   Inr (((tiny_long 3)\<lparr>fitted := True\<rparr>,
         tiny_heap (tiny_gru_at 2 False False)
           ((\<lambda>a. tiny_gru)(1 := tiny_gru_at 1 True True, 2 := tiny_gru_at 2 False False)) 3
           (tiny_mlp_at 1 True True)),
        save_both ''ckpt'' tiny_epoch0 tiny_disk)"
  by (simp add: reload_def Let_def torch_load_def save_both_def tiny_disk_def fore_path_def weight_path_def
      gru_load_state_dict_def mlp_load_state_dict_def tiny_epoch0_def tiny_epoch1_def
      tiny_long_fields tiny_heap_fields set_fore_flags_def set_weight_flags_def tiny_heap_def
      gm_params_def gm_set_params_def mlp_params_def mlp_set_params_def tiny_gru_at_def tiny_mlp_at_def)

lemma tiny_fit:
  "fit tiny_env (\<lambda>e. tiny_rand) tiny_ds ''ckpt'' (tiny_long 3, tiny_mem) tiny_disk =
   Inr (((tiny_long 3)\<lparr>fitted := True\<rparr>,
         tiny_heap (tiny_gru_at 2 False False)
           ((\<lambda>a. tiny_gru)(1 := tiny_gru_at 1 True True, 2 := tiny_gru_at 2 False False)) 3
           (tiny_mlp_at 1 True True)),
        save_both ''ckpt'' tiny_epoch0 tiny_disk)"
  unfolding fit_def fst_conv tiny_long_fields tiny_fit_loop bindE_Inr tiny_reload ..

text \<open>
  The small instance with three epochs to run and \<open>early_stop = 1\<close>: the validation
  loss is \<open>10\<close> after the first epoch and \<open>45/2\<close> after the second, so the loop stops
  there, and the Forecast Network gets back the weight \<open>2\<close> it had after the first.
\<close>

theorem fit_early_stopping_witness:
  "\<exists>st' fs' J b v stb u st_last.
     fit tiny_env (\<lambda>e. tiny_rand) tiny_ds ''ckpt'' (tiny_long 3, tiny_mem) tiny_disk = Inr (st', fs') \<and>
     tiny_disk (fore_path ''ckpt'') = None \<and>
     lin_weight (fc_out (gru_heap (snd st') (fore_model (fst st')))) = [[2]] \<and>
     0 < J \<and> J \<le> n_epochs (fst (tiny_long 3, tiny_mem)) \<and>
     best_so_far (epoch_result tiny_env (\<lambda>e. tiny_rand) tiny_ds (tiny_long 3, tiny_mem)) J b v \<and>
     epoch_result tiny_env (\<lambda>e. tiny_rand) tiny_ds (tiny_long 3, tiny_mem) b = Inr (Fin v, stb) \<and>
     epoch_result tiny_env (\<lambda>e. tiny_rand) tiny_ds (tiny_long 3, tiny_mem) (J - 1) = Inr (u, st_last) \<and>
     stall_below (J - 1) b (early_stop (fst (tiny_long 3, tiny_mem))) \<and>
     (J = n_epochs (fst (tiny_long 3, tiny_mem)) \<or>
      early_stop (fst (tiny_long 3, tiny_mem)) \<le> int (J - 1 - b)) \<and>
     holds_checkpoint ''ckpt'' stb fs' \<and>
     fitted (fst st') \<and>
     gru_heap (snd st') (fore_model (fst st')) =
       gm_set_params (gru_heap (snd st_last) (fore_model (fst st_last)))
         (gm_params (gru_heap (snd stb) (fore_model (fst stb)))) \<and>
     gm_params (gru_heap (snd st') (fore_model (fst st'))) =
       gm_params (gru_heap (snd stb) (fore_model (fst stb))) \<and>
     mlp_heap (snd st') (weight_model (fst st')) =
       mlp_set_params (mlp_heap (snd st_last) (weight_model (fst st_last)))
         (mlp_params (mlp_heap (snd stb) (weight_model (fst stb)))) \<and>
     mlp_params (mlp_heap (snd st') (weight_model (fst st'))) =
       mlp_params (mlp_heap (snd stb) (weight_model (fst stb)))"
proof -
  let ?st = "((tiny_long 3)\<lparr>fitted := True\<rparr>,
         tiny_heap (tiny_gru_at 2 False False)
           ((\<lambda>a. tiny_gru)(1 := tiny_gru_at 1 True True, 2 := tiny_gru_at 2 False False)) 3
           (tiny_mlp_at 1 True True))"
  have fresh: "tiny_disk (fore_path ''ckpt'') = None" by (simp add: tiny_disk_def)
  have w: "lin_weight (fc_out (gru_heap (snd ?st) (fore_model (fst ?st)))) = [[2]]"
    by (simp add: tiny_long_def tiny_self_def tiny_heap_def tiny_gru_at_def)
  show ?thesis
    using fit_early_stopping [OF tiny_fit fresh] tiny_fit fresh w by blast
qed

text \<open>
  The claim as stated, for every run of \<open>fit\<close>, fails when no epoch has a validation
  loss below infinity: with a validation split smaller than one batch the loss of
  every epoch is NaN, and with no epoch to run there is none. No checkpoint is
  written, \<open>torch.load\<close> raises, and the model is not marked fitted.
\<close>

theorem fit_without_checkpoint_counterexample:
  "fit tiny_env (\<lambda>e. tiny_rand) tiny_short_ds ''ckpt'' (tiny_long 3, tiny_mem) tiny_disk =
     Inl FileNotFoundError \<and>
   run_epoch tiny_env tiny_rand tiny_short_ds (tiny_long 3, tiny_mem) =
     Inr (NaN, (tiny_long 3, tiny_heap (tiny_gru_at 2 False False)
                               ((\<lambda>a. tiny_gru)(1 := tiny_gru_at 1 True True)) 2 (tiny_mlp_at 0 True True))) \<and>
   fit tiny_env (\<lambda>e. tiny_rand) tiny_ds ''ckpt'' (tiny_long 0, tiny_mem) tiny_disk =
     Inl FileNotFoundError"
proof -
  have r: "run_epoch tiny_env tiny_rand tiny_short_ds (tiny_long 3, tiny_mem) =
     Inr (NaN, (tiny_long 3, tiny_heap (tiny_gru_at 2 False False)
                               ((\<lambda>a. tiny_gru)(1 := tiny_gru_at 1 True True)) 2 (tiny_mlp_at 0 True True)))"
    using tiny_heap_run_epoch_short [where n = 1 and N = 3 and w = 1 and t = True and r = True
        and old = "\<lambda>a. tiny_gru" and b = 0 and t' = True and r' = True]
    by (simp add: tiny_mem_heap numeral_2_eq_2)
  have a: "fit tiny_env (\<lambda>e. tiny_rand) tiny_short_ds ''ckpt'' (tiny_long 3, tiny_mem) tiny_disk =
     Inl FileNotFoundError"
    unfolding fit_def fst_conv tiny_long_fields upt3
    by (simp add: r tiny_long_fields reload_def torch_load_def tiny_disk_def)
  have b: "fit tiny_env (\<lambda>e. tiny_rand) tiny_ds ''ckpt'' (tiny_long 0, tiny_mem) tiny_disk =
     Inl FileNotFoundError"
    unfolding fit_def fst_conv tiny_long_fields
    by (simp add: reload_def torch_load_def tiny_disk_def)
  show ?thesis using a r b by simp
qed

text \<open>
  On the small instance: after one epoch of training the Forecast Network predicts
  \<open>2\<close> and \<open>4\<close> for the two samples, against the labels \<open>0\<close> and \<open>0\<close> at horizon \<open>0\<close>,
  in the call on the validation split and in the call on the test split.
\<close>

theorem test_epoch_mse_witness:
  "train_epoch tiny_env tiny_rand [[1], [2]] [[0, 1], [0, 3]] [[1], [2]] [[0, 1], [0, 3]] (tiny_long 1, tiny_mem) =
     Inr (tiny_long 1, tiny_heap (tiny_gru_at 2 True False) ((\<lambda>a. tiny_gru)(1 := tiny_gru_at 1 True True)) 2
                         (tiny_mlp_at 1 True True)) \<and>
   test_epoch tiny_env (tiny_long 1) [[1], [2]] [[0, 1], [0, 3]]
     (tiny_heap (tiny_gru_at 2 True False) ((\<lambda>a. tiny_gru)(1 := tiny_gru_at 1 True True)) 2
        (tiny_mlp_at 1 True True)) =
     Inr (Fin 10, tiny_heap (tiny_gru_at 2 False False) ((\<lambda>a. tiny_gru)(1 := tiny_gru_at 1 True True)) 2
                    (tiny_mlp_at 1 True True)) \<and>
   test_epoch tiny_env (tiny_long 1) [[1], [2]] [[0, 1], [0, 3]]
     (tiny_heap (tiny_gru_at 2 False False) ((\<lambda>a. tiny_gru)(1 := tiny_gru_at 1 True True)) 2
        (tiny_mlp_at 1 True True)) =
     Inr (Fin 10, tiny_heap (tiny_gru_at 2 False False) ((\<lambda>a. tiny_gru)(1 := tiny_gru_at 1 True True)) 2
                    (tiny_mlp_at 1 True True)) \<and>
   \<not> gm_training (gru_heap (tiny_heap (tiny_gru_at 2 False False)
                     ((\<lambda>a. tiny_gru)(1 := tiny_gru_at 1 True True)) 2 (tiny_mlp_at 1 True True)) 0) \<and>
   \<not> records_graph False (gru_heap (tiny_heap (tiny_gru_at 2 False False)
                     ((\<lambda>a. tiny_gru)(1 := tiny_gru_at 1 True True)) 2 (tiny_mlp_at 1 True True)) 0)"
proof -
  let ?m = "tiny_heap (tiny_gru_at 2 True False) ((\<lambda>a. tiny_gru)(1 := tiny_gru_at 1 True True)) 2
              (tiny_mlp_at 1 True True)"
  let ?m1 = "tiny_heap (tiny_gru_at 2 False False) ((\<lambda>a. tiny_gru)(1 := tiny_gru_at 1 True True)) 2
              (tiny_mlp_at 1 True True)"
  let ?pr = "\<lambda>r. sum_list r * (2::real)"
  have tr: "train_epoch tiny_env tiny_rand [[1], [2]] [[0, 1], [0, 3]] [[1], [2]] [[0, 1], [0, 3]]
              (tiny_long 1, tiny_mem) = Inr (tiny_long 1, ?m)"
    using tiny_heap_train_epoch [of 1 1 1 True True "\<lambda>a. tiny_gru" 0 True True]
    by (simp add: tiny_mem_heap numeral_2_eq_2)
  have ev: "set_fore_flags (fore_model (tiny_long 1)) (\<lambda>g. g\<lparr>gm_training := False\<rparr>) ?m = ?m1"
    by (rule tiny_heap_eval)
  have first: "?m = ?m \<or> ?m = set_fore_flags (fore_model (tiny_long 1)) (\<lambda>g. g\<lparr>gm_training := False\<rparr>) ?m"
    by simp
  have second: "?m1 = ?m \<or> ?m1 = set_fore_flags (fore_model (tiny_long 1)) (\<lambda>g. g\<lparr>gm_training := False\<rparr>) ?m"
    using ev by simp
  have bs: "0 < batch_size (tiny_long 1)" "batch_size (tiny_long 1) \<le> 2"
    by (simp_all add: tiny_long_fields)
  have x: "length [[1], [2::real]] = 2" by simp
  have y: "is_matrix 2 2 [[0, 1], [0, 3::real]]" by (simp add: is_matrix_def)
  have two: "(2::nat) \<le> 2" by simp
  have h: "nat \<bar>target_label (tiny_long 1)\<bar> < 2" by (simp add: tiny_long_fields)
  have fwd: "\<forall>k < 2 div batch_size (tiny_long 1).
               GRUModel_forward tiny_env no_mask ((gru_heap ?m (fore_model (tiny_long 1)))\<lparr>gm_training := False\<rparr>)
                 (slice (k * batch_size (tiny_long 1)) (k * batch_size (tiny_long 1) + batch_size (tiny_long 1))
                    [[1], [2]]) =
               Inr (squeeze (map (\<lambda>r. [?pr r])
                 (slice (k * batch_size (tiny_long 1)) (k * batch_size (tiny_long 1) + batch_size (tiny_long 1))
                    [[1], [2]])))"
  proof -
    have "(tiny_gru_at 2 True False)\<lparr>gm_training := False\<rparr> = tiny_gru_at 2 False False"
      by (simp add: tiny_gru_at_def)
    then show ?thesis
      by (simp add: tiny_long_fields tiny_heap_fields slice_def tiny_gru_at_forward squeeze_def)
  qed
  have range: "\<forall>k < 2 div batch_size (tiny_long 1).
                 (\<Sum>j<batch_size (tiny_long 1). (?pr ([[1], [2]] ! (k * batch_size (tiny_long 1) + j)) -
                     [[0, 1], [0, 3]] ! (k * batch_size (tiny_long 1) + j) ! nat \<bar>target_label (tiny_long 1)\<bar>) ^ 2)
                 \<le> float32_max"
    by (simp add: tiny_long_fields lessThan_2 float32_small)
  have v: "mse_at (2 div batch_size (tiny_long 1) * batch_size (tiny_long 1)) (map ?pr [[1], [2]])
             [[0, 1], [0, 3]] (nat \<bar>target_label (tiny_long 1)\<bar>) = 10"
    by (simp add: tiny_long_fields mse_at_def mean_over_def lessThan_2 power2_eq_square)
  have a: "test_epoch tiny_env (tiny_long 1) [[1], [2]] [[0, 1], [0, 3]] ?m = Inr (Fin 10, ?m1) \<and>
           \<not> gm_training (gru_heap ?m1 (fore_model (tiny_long 1))) \<and>
           \<not> records_graph False (gru_heap ?m1 (fore_model (tiny_long 1)))"
    using test_epoch_mse [OF tr first bs x y two two h fwd range] unfolding v ev .
  have b: "test_epoch tiny_env (tiny_long 1) [[1], [2]] [[0, 1], [0, 3]] ?m1 = Inr (Fin 10, ?m1)"
    using test_epoch_mse [OF tr second bs x y two two h fwd range] unfolding v ev by blast
  show ?thesis using tr a b by (simp add: tiny_long_fields)
qed

text \<open>
  The claim as stated, for the losses of every epoch, fails on a split smaller than
  one batch: after an epoch of training on the small instance, the call of
  \<open>test_epoch\<close> on a validation split of one sample, with batches of two, returns
  NaN, while the Forecast Network predicts \<open>2\<close> for that sample against the label
  \<open>0\<close>, a squared error of \<open>4\<close>. And on a split whose labels have one horizon the
  call raises.
\<close>

theorem test_epoch_short_split_counterexample:
  "train_epoch tiny_env tiny_rand [[1], [2]] [[0, 1], [0, 3]] [[1]] [[0, 1]] (tiny_long 1, tiny_mem) =
     Inr (tiny_long 1, tiny_heap (tiny_gru_at 2 True False) ((\<lambda>a. tiny_gru)(1 := tiny_gru_at 1 True True)) 2
                         (tiny_mlp_at 0 True True)) \<and>
   batch_size (tiny_long 1) = 2 \<and>
   test_epoch tiny_env (tiny_long 1) [[1]] [[0, 1]]
     (tiny_heap (tiny_gru_at 2 True False) ((\<lambda>a. tiny_gru)(1 := tiny_gru_at 1 True True)) 2
        (tiny_mlp_at 0 True True)) =
     Inr (NaN, tiny_heap (tiny_gru_at 2 False False) ((\<lambda>a. tiny_gru)(1 := tiny_gru_at 1 True True)) 2
                 (tiny_mlp_at 0 True True)) \<and>
   GRUModel_forward tiny_env no_mask (tiny_gru_at 2 False False) [[1]] = Inr (T0 2) \<and>
   mse_at 1 [2] [[0, 1]] 0 = 4 \<and>
   test_epoch tiny_env (tiny_long 1) [[1], [2]] [[0], [0]]
     (tiny_heap (tiny_gru_at 2 False False) ((\<lambda>a. tiny_gru)(1 := tiny_gru_at 1 True True)) 2
        (tiny_mlp_at 0 True True)) = Inl IndexError"
proof -
  let ?m1 = "tiny_heap (tiny_gru_at 2 False False) ((\<lambda>a. tiny_gru)(1 := tiny_gru_at 1 True True)) 2
               (tiny_mlp_at 0 True True)"
  have tr: "train_epoch tiny_env tiny_rand [[1], [2]] [[0, 1], [0, 3]] [[1]] [[0, 1]] (tiny_long 1, tiny_mem) =
     Inr (tiny_long 1, tiny_heap (tiny_gru_at 2 True False) ((\<lambda>a. tiny_gru)(1 := tiny_gru_at 1 True True)) 2
                         (tiny_mlp_at 0 True True))"
    using tiny_heap_train_epoch_short [of 1 1 1 True True "\<lambda>a. tiny_gru" 0 True True]
    by (simp add: tiny_mem_heap numeral_2_eq_2)
  have f: "GRUModel_forward tiny_env no_mask (tiny_gru_at 2 False False) [[1]] = Inr (T0 2)"
    by (simp add: GRUModel_forward_def tiny_gru_at_def tiny_env_def reshape_permute_def
        linear_forward_def dot_def squeeze_def enumerate_eq_zip)
  have v: "mse_at 1 [2] [[0, 1]] 0 = 4"
    by (simp add: mse_at_def mean_over_def)
  have r: "range_step (Suc (Suc 0)) 2 = Inr [0]" by (simp add: range_step_def)
  have u: "[0..<length [[1], [2::real]]] = [0, Suc 0]" by (simp add: upt2)
  have sq: "squeeze [[0], [0]] = T1 [0, 0]" by (simp add: squeeze_def)
  have b: "test_batch tiny_env (tiny_long N) (tiny_heap (tiny_gru_at 2 False False) old n wm)
             [[1], [2]] (T1 [0, 0]) [0, Suc 0] 0 [] = Inl IndexError" for N old n wm
    by (simp add: test_batch_def Let_def slice_def tiny_long_fields take_rows_mat_def take_rows_def
        tiny_heap_fields tiny_gru_at_forward squared_error_def select_col_def)
  have e: "test_epoch tiny_env (tiny_long 1) [[1], [2]] [[0], [0]] ?m1 = Inl IndexError"
    unfolding test_epoch_def Let_def tiny_heap_eval sq u
    by (simp add: tiny_long_fields for_batches_def r b)
  show ?thesis
    using tr f v e by (simp add: tiny_long_fields tiny_heap_test_epoch_short)
qed

text \<open>
  A loss beyond the range of a float32 is \<open>inf\<close>: with the label \<open>2\<^sup>6\<^sup>4\<close> for the first
  sample the squared error of the batch is above \<open>float32_max\<close>.
\<close>

lemma test_epoch_overflow:
  "test_epoch tiny_env (tiny_long 1) [[1], [2]] [[2 ^ 64, 1], [0, 3]]
     (tiny_heap (tiny_gru_at 2 False False) old n wm) =
     Inr (PosInf, tiny_heap (tiny_gru_at 2 False False) old n wm)"
proof -
  have r: "range_step (Suc (Suc 0)) 2 = Inr [0]" by (simp add: range_step_def)
  have u: "[0..<length [[1], [2::real]]] = [0, Suc 0]" by (simp add: upt2)
  have sq: "squeeze [[2 ^ 64, 1], [0, 3]] = T2 [[2 ^ 64, 1], [0, 3]]" by (simp add: squeeze_def)
  have o: "float32_max < (2 - 2 ^ 64) ^ 2 + (4::real) ^ 2"
    by (simp add: float32_max_def)
  have e: "squared_error (T1 [2, 4]) (T2 [[2 ^ 64, 1], [0, 3]]) 0 = Inr PosInf"
    using o
    by (simp add: squared_error_def select_col_def t_sub_def bc_vec_def float32_mean_squares_def)
  have b: "test_batch tiny_env (tiny_long N) (tiny_heap (tiny_gru_at 2 False False) old n wm) [[1], [2]]
             (T2 [[2 ^ 64, 1], [0, 3]]) [0, Suc 0] 0 [] = Inr [PosInf]" for N
    unfolding test_batch_def Let_def
    using e
    by (simp add: slice_def tiny_long_fields take_rows_mat_def take_rows_def tiny_heap_fields
        tiny_gru_at_forward)
  show ?thesis
    unfolding test_epoch_def Let_def tiny_heap_eval sq u
    using b [of 1]
    by (simp add: tiny_long_fields for_batches_def r np_mean_def)
qed

end
